theory Spec2Isabelle
  imports Complex_Main "HOL-Library.Char_ord" "HOL-Library.List_Lexorder" "HOL-Library.AList"
begin

section \<open>Python exceptions and \<open>try/except\<close>\<close>

text \<open>
  The exceptions that the calls made by \<open>eduhub_mongodb_project.py\<close> raise. The first four
  come from \<open>open\<close> and \<open>json.load\<close>, \<open>TypeError\<close> from Python arithmetic and from
  \<open>insert_many\<close> on an empty list, the others from the database client. All of them are
  subclasses of \<open>Exception\<close>; none is a subclass of \<open>FileNotFoundError\<close> except itself.
\<close>

datatype exc =
    FileNotFoundError | IsADirectoryError | PermissionError | JSONDecodeError
  | TypeError
  | CollectionInvalid | OperationFailure | DuplicateKeyError | WriteError | BulkWriteError

text \<open>\<open>except Exception\<close> and \<open>except FileNotFoundError\<close> as predicates on what they catch.\<close>

definition except_Exception :: "exc \<Rightarrow> bool" where
  "except_Exception e = True"

definition except_FileNotFoundError :: "exc \<Rightarrow> bool" where
  "except_FileNotFoundError e = (e = FileNotFoundError)"

text \<open>
  \<open>try: body  except H: return sentinel\<close>. The body has either raised (\<open>Inl\<close>) or returned
  (\<open>Inr\<close>); an exception that the handler does not catch propagates. What the handlers
  print is not part of the model.
\<close>

fun try_except :: "(exc \<Rightarrow> bool) \<Rightarrow> 'a \<Rightarrow> exc + 'a \<Rightarrow> exc + 'a" where
  "try_except h sentinel (Inl e) = (if h e then Inr sentinel else Inl e)"
| "try_except h sentinel (Inr v) = Inr v"

section \<open>\<open>load_json_file\<close>\<close>

text \<open>
  What \<open>open(file_path, "r")\<close> finds at a path: nothing, a regular file with its text, a
  directory, or a file the process may not read.
\<close>

datatype file_entry = Regular string | Directory | Unreadable

type_synonym filesystem = "string \<rightharpoonup> file_entry"

definition py_open :: "filesystem \<Rightarrow> string \<Rightarrow> exc + string" where
  "py_open fs file_path =
     (case fs file_path of
        None \<Rightarrow> Inl FileNotFoundError
      | Some Directory \<Rightarrow> Inl IsADirectoryError
      | Some Unreadable \<Rightarrow> Inl PermissionError
      | Some (Regular text) \<Rightarrow> Inr text)"

text \<open>
  \<open>json.load\<close> is the standard library's parser; it is the parameter \<open>json_load\<close>, which
  returns the parsed data or raises \<open>JSONDecodeError\<close>. The result \<open>None\<close> of the model is
  Python's \<open>None\<close>.
\<close>

definition load_json_file :: "(string \<Rightarrow> exc + 'j) \<Rightarrow> filesystem \<Rightarrow> string \<Rightarrow> exc + 'j option" where
  "load_json_file json_load fs file_path =
     try_except except_FileNotFoundError None
       (case py_open fs file_path of
          Inl e \<Rightarrow> Inl e
        | Inr text \<Rightarrow>
            (case json_load text of
               Inl e \<Rightarrow> Inl e
             | Inr data \<Rightarrow> Inr (Some data)))"

section \<open>Documents\<close>

text \<open>
  The values a document holds. The integers and floats of the script are the one numeric class
  of the database, compared by value, and are exact rationals here (the rounding of doubles is
  outside the model); a date is its number of milliseconds since the epoch; an \<open>ObjectId\<close> is
  the number of the order in which the client generated it. A document is the list of its
  fields in their order, as a Python dict and a stored document are.
\<close>

datatype bson =
    BNull | BBool bool | BNum rat | BStr string | BDate int | BOid nat
  | BArr "bson list" | BDoc "(string \<times> bson) list"

type_synonym document = "(string \<times> bson) list"

definition has_field :: "string \<Rightarrow> document \<Rightarrow> bool" where
  "has_field f d = (map_of d f \<noteq> None)"

text \<open>A field that is absent reads as \<open>null\<close> when the server sorts, groups, joins or indexes.\<close>

definition field_or_null :: "string \<Rightarrow> document \<Rightarrow> bson" where
  "field_or_null f d = (case map_of d f of None \<Rightarrow> BNull | Some v \<Rightarrow> v)"

text \<open>
  \<open>$set\<close> of a top-level field: the value is replaced where the field stands, and a new field
  goes to the end.
\<close>

definition set_field :: "string \<Rightarrow> bson \<Rightarrow> document \<Rightarrow> document" where
  "set_field f v d = AList.update f v d"

text \<open>
  The order in which the server compares values: first by type (null, numbers, strings, embedded
  documents, arrays, object ids, booleans, dates), then inside the type. Two embedded documents
  are compared field by field in the order of their fields, each pair of fields by the type of
  the value, then by the name, then by the value; the document that runs out of fields first
  is the smaller. Two arrays are compared element by element in the same way.
\<close>

fun bson_rank :: "bson \<Rightarrow> nat" where
  "bson_rank BNull = 1"
| "bson_rank (BNum r) = 2"
| "bson_rank (BStr s) = 3"
| "bson_rank (BDoc d) = 4"
| "bson_rank (BArr xs) = 5"
| "bson_rank (BOid n) = 6"
| "bson_rank (BBool b) = 7"
| "bson_rank (BDate t) = 8"

datatype cmp = LT | EQ | GT

definition cmp_of :: "'a::linorder \<Rightarrow> 'a \<Rightarrow> cmp" where
  "cmp_of a b = (if a < b then LT else if a = b then EQ else GT)"

fun bson_cmp :: "bson \<Rightarrow> bson \<Rightarrow> cmp"
  and fields_cmp :: "(string \<times> bson) list \<Rightarrow> (string \<times> bson) list \<Rightarrow> cmp"
  and elems_cmp :: "bson list \<Rightarrow> bson list \<Rightarrow> cmp" where
  "bson_cmp (BNum a) (BNum b) = cmp_of a b"
| "bson_cmp (BStr a) (BStr b) = cmp_of a b"
| "bson_cmp (BOid a) (BOid b) = cmp_of a b"
| "bson_cmp (BBool a) (BBool b) = cmp_of a b"
| "bson_cmp (BDate a) (BDate b) = cmp_of a b"
| "bson_cmp (BDoc a) (BDoc b) = fields_cmp a b"
| "bson_cmp (BArr a) (BArr b) = elems_cmp a b"
| "bson_cmp a b = cmp_of (bson_rank a) (bson_rank b)"
| "fields_cmp [] [] = EQ"
| "fields_cmp [] (y # ys) = LT"
| "fields_cmp (x # xs) [] = GT"
| "fields_cmp ((k, v) # xs) ((l, w) # ys) =
     (case cmp_of (bson_rank v) (bson_rank w) of
        EQ \<Rightarrow> (case cmp_of k l of
                 EQ \<Rightarrow> (case bson_cmp v w of EQ \<Rightarrow> fields_cmp xs ys | c \<Rightarrow> c)
               | c \<Rightarrow> c)
      | c \<Rightarrow> c)"
| "elems_cmp [] [] = EQ"
| "elems_cmp [] (y # ys) = LT"
| "elems_cmp (x # xs) [] = GT"
| "elems_cmp (v # xs) (w # ys) = (case bson_cmp v w of EQ \<Rightarrow> elems_cmp xs ys | c \<Rightarrow> c)"

definition bson_le :: "bson \<Rightarrow> bson \<Rightarrow> bool" where
  "bson_le a b = (bson_cmp a b \<noteq> GT)"

text \<open>The result of a comparison when its arguments are exchanged.\<close>

fun cmp_flip :: "cmp \<Rightarrow> cmp" where
  "cmp_flip LT = GT"
| "cmp_flip EQ = EQ"
| "cmp_flip GT = LT"

text \<open>
  The key of a value in a descending sort: the value itself, but the largest element when the
  value is an array, and for the empty array a key (\<open>None\<close> here) that is below every other
  key, that of \<open>null\<close> and of an absent field included.
\<close>

definition bson_max :: "bson \<Rightarrow> bson \<Rightarrow> bson" where
  "bson_max a b = (if bson_le a b then b else a)"

fun largest :: "bson \<Rightarrow> bson option" where
  "largest (BArr []) = None"
| "largest (BArr (x # xs)) = Some (fold bson_max xs x)"
| "largest v = Some v"

definition desc_key :: "string \<Rightarrow> document \<Rightarrow> bson option" where
  "desc_key f d = largest (field_or_null f d)"

fun key_le :: "bson option \<Rightarrow> bson option \<Rightarrow> bool" where
  "key_le None b = True"
| "key_le (Some a) None = False"
| "key_le (Some a) (Some b) = bson_le a b"

section \<open>The database\<close>

text \<open>
  A collection is its documents in insertion order, the validator it was created with (the
  predicate that the \<open>$jsonSchema\<close> denotes; the schema files are not part of the sources, so
  the predicate is arbitrary), and the key patterns of its unique indexes. The database maps
  the names of the collections that exist to them, and counts the object ids generated so far.
  The server answers every call: a lost connection is not part of the model, and a call
  raises only for what the database and the arguments are.
\<close>

record collection =
  docs :: "document list"
  validator :: "(document \<Rightarrow> bool) option"
  unique_indexes :: "string list list"

record database =
  colls :: "string \<rightharpoonup> collection"
  next_oid :: nat

definition empty_collection :: collection where
  "empty_collection = \<lparr>docs = [], validator = None, unique_indexes = []\<rparr>"

text \<open>\<open>db[collection_name]\<close>: a collection that does not exist reads as an empty one.\<close>

definition get_coll :: "database \<Rightarrow> string \<Rightarrow> collection" where
  "get_coll db collection_name =
     (case colls db collection_name of None \<Rightarrow> empty_collection | Some c \<Rightarrow> c)"

definition put_coll :: "database \<Rightarrow> string \<Rightarrow> collection \<Rightarrow> database" where
  "put_coll db collection_name c = db\<lparr>colls := (colls db)(collection_name \<mapsto> c)\<rparr>"

text \<open>
  A filter, an update document and a schema are passed to the server as they are; the helpers
  never look inside. Each is represented by what it denotes: the predicate of the documents a
  filter matches, the function an update applies to one document, the predicate of the documents
  a schema accepts. \<open>None\<close> is an argument that the server or the client rejects (for a
  schema, also the \<open>None\<close> that \<open>load_json_file\<close> returned).
\<close>

type_synonym query = "(document \<Rightarrow> bool) option"
type_synonym update = "(document \<Rightarrow> document) option"
type_synonym schema = "(document \<Rightarrow> bool) option"

subsection \<open>Reading\<close>

text \<open>\<open>list(collection.find(filter_query))\<close>: the matching documents, in their order.\<close>

definition find_documents :: "collection \<Rightarrow> query \<Rightarrow> exc + document list" where
  "find_documents c q = (case q of None \<Rightarrow> Inl OperationFailure | Some p \<Rightarrow> Inr (filter p (docs c)))"

text \<open>
  \<open>find_one(sort=[(id_field, -1)])\<close>: the document whose key in the descending sort is
  greatest, the earliest of them when several have it, \<open>None\<close> in an empty collection.
\<close>

fun find_one_desc :: "string \<Rightarrow> document list \<Rightarrow> document option" where
  "find_one_desc f [] = None"
| "find_one_desc f (d # ds) =
     (case find_one_desc f ds of
        None \<Rightarrow> Some d
      | Some e \<Rightarrow> if key_le (desc_key f e) (desc_key f d) then Some d else Some e)"

text \<open>
  \<open>x + 1\<close> in Python: defined on numbers and on booleans (\<open>True + 1 = 2\<close>), a \<open>TypeError\<close> on
  \<open>None\<close>, strings, dates, object ids, lists and dicts.
\<close>

fun py_add1 :: "bson \<Rightarrow> exc + bson" where
  "py_add1 (BNum r) = Inr (BNum (r + 1))"
| "py_add1 (BBool b) = Inr (BNum (if b then 2 else 1))"
| "py_add1 v = Inl TypeError"


definition get_next_id_body ::
    "(string \<Rightarrow> document list \<Rightarrow> exc + document option) \<Rightarrow> database \<Rightarrow> string \<Rightarrow> string \<Rightarrow>
     exc + bson option" where
  "get_next_id_body find_one_sorted db collection_name id_field =
     (case find_one_sorted id_field (docs (get_coll db collection_name)) of
        Inl e \<Rightarrow> Inl e
      | Inr None \<Rightarrow> Inr (Some (BNum 1))
      | Inr (Some last_doc) \<Rightarrow>
          if last_doc \<noteq> [] \<and> has_field id_field last_doc then
            (case py_add1 (field_or_null id_field last_doc) of
               Inl e \<Rightarrow> Inl e
             | Inr n \<Rightarrow> Inr (Some n))
          else Inr (Some (BNum 1)))"

definition get_next_id ::
    "(string \<Rightarrow> document list \<Rightarrow> exc + document option) \<Rightarrow> database \<Rightarrow> string \<Rightarrow> string \<Rightarrow>
     exc + bson option" where
  "get_next_id find_one_sorted db collection_name id_field =
     try_except except_Exception None
       (get_next_id_body find_one_sorted db collection_name id_field)"

definition read_document :: "database \<Rightarrow> string \<Rightarrow> query \<Rightarrow> exc + document list" where
  "read_document db collection_name filter_query =
     try_except except_Exception [] (find_documents (get_coll db collection_name) filter_query)"

subsection \<open>Creating collections and indexes\<close>

text \<open>
  \<open>db.create_collection(name, validator={"$jsonSchema": schema}, validationLevel="strict")\<close>
  raises \<open>CollectionInvalid\<close> when the collection exists and \<open>OperationFailure\<close> when the server
  rejects the schema; otherwise the collection is created, empty, with the validator.
\<close>

definition create_collection :: "database \<Rightarrow> string \<Rightarrow> schema \<Rightarrow> (exc + unit) \<times> database" where
  "create_collection db collection_name sch =
     (if colls db collection_name \<noteq> None then (Inl CollectionInvalid, db)
      else case sch of
        None \<Rightarrow> (Inl OperationFailure, db)
      | Some p \<Rightarrow>
          (Inr (), put_coll db collection_name
             \<lparr>docs = [], validator = Some p, unique_indexes = []\<rparr>))"

text \<open>A helper that changes the database returns its Python result and the database left behind.\<close>

definition create_collection_with_schema ::
    "database \<Rightarrow> string \<Rightarrow> schema \<Rightarrow> (exc + bool) \<times> database" where
  "create_collection_with_schema db collection_name sch =
     (case create_collection db collection_name sch of
        (r, db') \<Rightarrow>
          (try_except except_Exception False
             (case r of Inl e \<Rightarrow> Inl e | Inr u \<Rightarrow> Inr True), db'))"

text \<open>
  The key of a document in an index is the list of the values of the indexed fields. Every
  collection has the unique index on \<open>_id\<close>. An indexed value that is an array is one value
  here (the server indexes each of its elements); the fields that the script indexes hold
  numbers.
\<close>

definition index_key :: "string list \<Rightarrow> document \<Rightarrow> bson list" where
  "index_key keys d = map (\<lambda>f. field_or_null f d) keys"

definition all_unique :: "collection \<Rightarrow> string list list" where
  "all_unique c = [''_id''] # unique_indexes c"

text \<open>
  \<open>create_index(keys, unique=True)\<close> creates the collection when it does not exist, and fails
  with \<open>DuplicateKeyError\<close> when two documents of the collection have the same key. The script
  calls it outside any \<open>try\<close>.
\<close>

definition create_unique_index ::
    "database \<Rightarrow> string \<Rightarrow> string list \<Rightarrow> exc + database" where
  "create_unique_index db collection_name keys =
     (let c = get_coll db collection_name in
      if \<not> distinct (map (index_key keys) (docs c)) then Inl DuplicateKeyError
      else Inr (put_coll db collection_name
                  (c\<lparr>unique_indexes := List.insert keys (unique_indexes c)\<rparr>)))"

subsection \<open>Inserting\<close>

text \<open>
  The client gives a document without \<open>_id\<close> a fresh \<open>ObjectId\<close>, as its first field, before
  it sends it.
\<close>

definition ensure_id :: "nat \<Rightarrow> document \<Rightarrow> document \<times> nat" where
  "ensure_id n d = (if has_field ''_id'' d then (d, n) else ((''_id'', BOid n) # d, Suc n))"

fun ensure_ids :: "nat \<Rightarrow> document list \<Rightarrow> document list \<times> nat" where
  "ensure_ids n [] = ([], n)"
| "ensure_ids n (d # ds) =
     (case ensure_id n d of
        (d', n') \<Rightarrow> (case ensure_ids n' ds of (ds', n'') \<Rightarrow> (d' # ds', n'')))"

text \<open>
  The server accepts a document when the validator of the collection holds of it and no
  document of the collection has its key in a unique index.
\<close>

definition passes :: "collection \<Rightarrow> document \<Rightarrow> bool" where
  "passes c d = (case validator c of None \<Rightarrow> True | Some p \<Rightarrow> p d)"

definition key_taken :: "string list list \<Rightarrow> document list \<Rightarrow> document \<Rightarrow> bool" where
  "key_taken ixs others d =
     list_ex (\<lambda>keys. index_key keys d \<in> set (map (index_key keys) others)) ixs"

definition server_insert :: "collection \<Rightarrow> document \<Rightarrow> exc + collection" where
  "server_insert c d =
     (if \<not> passes c d then Inl WriteError
      else if key_taken (all_unique c) (docs c) d then Inl DuplicateKeyError
      else Inr (c\<lparr>docs := docs c @ [d]\<rparr>))"

text \<open>\<open>insert_one\<close> returns the \<open>inserted_id\<close>.\<close>

definition insert_one :: "database \<Rightarrow> string \<Rightarrow> document \<Rightarrow> (exc + bson) \<times> database" where
  "insert_one db collection_name document =
     (case ensure_id (next_oid db) document of
        (d, n) \<Rightarrow>
          (case server_insert (get_coll db collection_name) d of
             Inl e \<Rightarrow> (Inl e, db\<lparr>next_oid := n\<rparr>)
           | Inr c \<Rightarrow> (Inr (field_or_null ''_id'' d),
                       put_coll (db\<lparr>next_oid := n\<rparr>) collection_name c)))"

text \<open>
  \<open>insert_many\<close> is ordered: the documents are inserted one after the other, and the first
  one that the server refuses stops the call with \<open>BulkWriteError\<close>; those before it stay
  inserted. An empty list is a \<open>TypeError\<close>.
\<close>

fun insert_all :: "collection \<Rightarrow> document list \<Rightarrow> (exc + unit) \<times> collection" where
  "insert_all c [] = (Inr (), c)"
| "insert_all c (d # ds) =
     (case server_insert c d of
        Inl e \<Rightarrow> (Inl BulkWriteError, c)
      | Inr c' \<Rightarrow> insert_all c' ds)"

definition insert_many ::
    "database \<Rightarrow> string \<Rightarrow> document list \<Rightarrow> (exc + bson list) \<times> database" where
  "insert_many db collection_name documents =
     (if documents = [] then (Inl TypeError, db)
      else case ensure_ids (next_oid db) documents of
        (ds, n) \<Rightarrow>
          (case insert_all (get_coll db collection_name) ds of
             (Inl e, c) \<Rightarrow>
               (Inl e, if docs c = docs (get_coll db collection_name) then db\<lparr>next_oid := n\<rparr>
                       else put_coll (db\<lparr>next_oid := n\<rparr>) collection_name c)
           | (Inr u, c) \<Rightarrow>
               (Inr (map (field_or_null ''_id'') ds),
                put_coll (db\<lparr>next_oid := n\<rparr>) collection_name c)))"

text \<open>
  \<open>create_document\<close> and \<open>create_documents\<close>. \<open>str\<close> of an id is the id itself here. The
  parameter \<open>id_field\<close> of \<open>create_documents\<close> is not read: the comprehension variable of the
  same name hides it.
\<close>

definition create_document ::
    "database \<Rightarrow> string \<Rightarrow> document \<Rightarrow> (exc + bson option) \<times> database" where
  "create_document db collection_name document =
     (case insert_one db collection_name document of
        (r, db') \<Rightarrow>
          (try_except except_Exception None
             (case r of Inl e \<Rightarrow> Inl e | Inr i \<Rightarrow> Inr (Some i)), db'))"

definition create_documents ::
    "database \<Rightarrow> string \<Rightarrow> document list \<Rightarrow> string \<Rightarrow> (exc + bson list) \<times> database" where
  "create_documents db collection_name documents id_field =
     (case insert_many db collection_name documents of
        (r, db') \<Rightarrow> (try_except except_Exception [] r, db'))"

subsection \<open>Updating\<close>

text \<open>
  \<open>update_many(filter, update)\<close> goes through the documents in order. A matching document that
  the update leaves as it is counts as matched only and is not written. A changed document is
  refused, and the call stops with the documents before it updated, when the update changes
  \<open>_id\<close>, when the validator does not hold of the new document, or when the update moves it to
  a key of a unique index that another document has. The result is the pair of
  \<open>matched_count\<close> and \<open>modified_count\<close>.
\<close>

definition moved_keys :: "string list list \<Rightarrow> document \<Rightarrow> document \<Rightarrow> string list list" where
  "moved_keys ixs d d' = filter (\<lambda>keys. index_key keys d' \<noteq> index_key keys d) ixs"

fun update_docs ::
    "collection \<Rightarrow> (document \<Rightarrow> bool) \<Rightarrow> (document \<Rightarrow> document) \<Rightarrow>
     document list \<Rightarrow> document list \<Rightarrow> (exc + nat \<times> nat) \<times> document list" where
  "update_docs c q u before [] = (Inr (0, 0), before)"
| "update_docs c q u before (d # ds) =
     (if \<not> q d then update_docs c q u (before @ [d]) ds
      else if u d = d then
        (case update_docs c q u (before @ [d]) ds of
           (Inl e, r) \<Rightarrow> (Inl e, r)
         | (Inr (matched, modified), r) \<Rightarrow> (Inr (Suc matched, modified), r))
      else if map_of (u d) ''_id'' \<noteq> map_of d ''_id'' then (Inl WriteError, before @ d # ds)
      else if \<not> passes c (u d) then (Inl WriteError, before @ d # ds)
      else if key_taken (moved_keys (all_unique c) d (u d)) (before @ ds) (u d) then
        (Inl DuplicateKeyError, before @ d # ds)
      else
        (case update_docs c q u (before @ [u d]) ds of
           (Inl e, r) \<Rightarrow> (Inl e, r)
         | (Inr (matched, modified), r) \<Rightarrow> (Inr (Suc matched, Suc modified), r)))"

definition update_many ::
    "database \<Rightarrow> string \<Rightarrow> query \<Rightarrow> update \<Rightarrow> (exc + nat \<times> nat) \<times> database" where
  "update_many db collection_name filter_query update_data =
     (case (filter_query, update_data) of
        (Some q, Some u) \<Rightarrow>
          (let c = get_coll db collection_name in
           case update_docs c q u [] (docs c) of
             (r, ds) \<Rightarrow>
               (r, if ds = docs c then db else put_coll db collection_name (c\<lparr>docs := ds\<rparr>)))
      | _ \<Rightarrow> (Inl OperationFailure, db))"

text \<open>\<open>update_document\<close> returns \<open>result.modified_count\<close>.\<close>

definition update_document ::
    "database \<Rightarrow> string \<Rightarrow> query \<Rightarrow> update \<Rightarrow> (exc + nat) \<times> database" where
  "update_document db collection_name filter_query update_data =
     (case update_many db collection_name filter_query update_data of
        (r, db') \<Rightarrow>
          (try_except except_Exception 0
             (case r of Inl e \<Rightarrow> Inl e | Inr (matched, modified) \<Rightarrow> Inr modified), db'))"

text \<open>
  \<open>delete_document\<close>: the update is \<open>{"$set": {"isActive": False, "updatedAt": datetime.now()}}\<close>;
  \<open>now\<close> is the clock's reading.
\<close>

definition soft_delete :: "int \<Rightarrow> document \<Rightarrow> document" where
  "soft_delete now d = set_field ''updatedAt'' (BDate now) (set_field ''isActive'' (BBool False) d)"

definition delete_document ::
    "int \<Rightarrow> database \<Rightarrow> string \<Rightarrow> query \<Rightarrow> (exc + nat) \<times> database" where
  "delete_document now db collection_name document_query =
     (case update_many db collection_name document_query (Some (soft_delete now)) of
        (r, db') \<Rightarrow>
          (try_except except_Exception 0
             (case r of Inl e \<Rightarrow> Inl e | Inr (matched, modified) \<Rightarrow> Inr modified), db'))"

section \<open>Aggregation pipelines\<close>

text \<open>
  A field path \<open>a.b\<close> is followed through embedded documents; a path that leads nowhere reads
  as \<open>null\<close>. An expression is a string: \<open>$path\<close> reads the path in the document, any other
  string is itself.
\<close>

fun split_dots :: "string \<Rightarrow> string list" where
  "split_dots [] = [[]]"
| "split_dots (c # cs) =
     (if c = CHR ''.'' then [] # split_dots cs
      else case split_dots cs of p # ps \<Rightarrow> (c # p) # ps | [] \<Rightarrow> [[c]])"

fun get_path :: "string list \<Rightarrow> bson \<Rightarrow> bson" where
  "get_path [] v = v"
| "get_path (f # fs) (BDoc d) = (case map_of d f of None \<Rightarrow> BNull | Some v \<Rightarrow> get_path fs v)"
| "get_path (f # fs) v = BNull"

fun expr :: "string \<Rightarrow> document \<Rightarrow> bson" where
  "expr [] d = BStr []"
| "expr (c # cs) d = (if c = CHR ''$'' then get_path (split_dots cs) (BDoc d) else BStr (c # cs))"

text \<open>\<open>$avg\<close> is the mean of the numbers among the values, and \<open>null\<close> when there is none.\<close>

fun numbers :: "bson list \<Rightarrow> rat list" where
  "numbers [] = []"
| "numbers (BNum r # vs) = r # numbers vs"
| "numbers (v # vs) = numbers vs"

definition avg :: "bson list \<Rightarrow> bson" where
  "avg vs =
     (if numbers vs = [] then BNull
      else BNum (sum_list (numbers vs) / of_nat (length (numbers vs))))"

text \<open>
  The stages that the two pipelines use. \<open>GroupAvg k out v\<close> is
  \<open>{"$group": {"_id": k, out: {"$avg": v}}}\<close>, \<open>SortDesc f\<close> is \<open>{"$sort": {f: -1}}\<close>,
  \<open>Lookup from local foreign as\<close> is \<open>$lookup\<close> and \<open>Unwind p\<close> is \<open>{"$unwind": p}\<close>.
  The server does not promise an order of the groups, nor of documents with equal sort keys:
  here the groups come in the order of \<open>remdups\<close> and the sort is stable.

  Which foreign keys a local key matches in \<open>$lookup\<close> is decided by the server: the stage
  takes the equality match of the server as the parameter \<open>match\<close>, from the local and the
  foreign key (\<open>null\<close> for an absent one) to whether they match. \<open>lookup_match\<close> is the
  server as documented: a local key that is an array matches through each of its elements (an
  empty array through none), and a value matches a foreign key that is equal to it, or that
  is an array with an element equal to it.
\<close>

datatype stage =
    GroupAvg string string string
  | SortDesc string
  | Lookup string string string string
  | Unwind string

definition group_avg :: "string \<Rightarrow> string \<Rightarrow> string \<Rightarrow> document list \<Rightarrow> document list" where
  "group_avg k out v ds =
     map (\<lambda>g. [(''_id'', g), (out, avg (map (expr v) (filter (\<lambda>d. expr k d = g) ds)))])
       (remdups (map (expr k) ds))"

fun insert_desc :: "string \<Rightarrow> document \<Rightarrow> document list \<Rightarrow> document list" where
  "insert_desc f d [] = [d]"
| "insert_desc f d (e # es) =
     (if key_le (desc_key f e) (desc_key f d) then d # e # es
      else e # insert_desc f d es)"

definition sort_desc :: "string \<Rightarrow> document list \<Rightarrow> document list" where
  "sort_desc f ds = foldr (insert_desc f) ds []"

fun array_elements :: "bson \<Rightarrow> bson list" where
  "array_elements (BArr xs) = xs"
| "array_elements v = [v]"

fun holds_value :: "bson \<Rightarrow> bson \<Rightarrow> bool" where
  "holds_value (BArr ys) v = (BArr ys = v \<or> v \<in> set ys)"
| "holds_value w v = (w = v)"

definition lookup_match :: "bson \<Rightarrow> bson \<Rightarrow> bool" where
  "lookup_match local_key foreign_key = list_ex (holds_value foreign_key) (array_elements local_key)"

definition lookup_stage ::
    "(bson \<Rightarrow> bson \<Rightarrow> bool) \<Rightarrow> document list \<Rightarrow> string \<Rightarrow> string \<Rightarrow> string \<Rightarrow>
     document list \<Rightarrow> document list" where
  "lookup_stage match from_docs local foreign as ds =
     map (\<lambda>d. set_field as
            (BArr (map BDoc
               (filter (\<lambda>s. match (field_or_null local d) (field_or_null foreign s)) from_docs))) d) ds"

fun unwind_doc :: "string \<Rightarrow> document \<Rightarrow> document list" where
  "unwind_doc f d =
     (case map_of d f of
        None \<Rightarrow> []
      | Some BNull \<Rightarrow> []
      | Some (BArr xs) \<Rightarrow> map (\<lambda>x. set_field f x d) xs
      | Some v \<Rightarrow> [d])"

fun unwind_path :: "string \<Rightarrow> string" where
  "unwind_path [] = []"
| "unwind_path (c # cs) = (if c = CHR ''$'' then cs else c # cs)"

fun run_stage ::
    "(bson \<Rightarrow> bson \<Rightarrow> bool) \<Rightarrow> database \<Rightarrow> document list \<Rightarrow> stage \<Rightarrow> document list" where
  "run_stage match db ds (GroupAvg k out v) = group_avg k out v ds"
| "run_stage match db ds (SortDesc f) = sort_desc f ds"
| "run_stage match db ds (Lookup from_coll local foreign as) =
     lookup_stage match (docs (get_coll db from_coll)) local foreign as ds"
| "run_stage match db ds (Unwind p) = concat (map (unwind_doc (unwind_path p)) ds)"

definition aggregate ::
    "(bson \<Rightarrow> bson \<Rightarrow> bool) \<Rightarrow> database \<Rightarrow> string \<Rightarrow> stage list \<Rightarrow> document list" where
  "aggregate match db collection_name pipeline =
     foldl (run_stage match db) (docs (get_coll db collection_name)) pipeline"

text \<open>The pipeline of "1.2 Calculate average course rating" and its run on \<open>course\<close>.\<close>

definition course_rating_pipeline :: "stage list" where
  "course_rating_pipeline =
     [GroupAvg ''$category'' ''averageRating'' ''$reviewRate'',
      SortDesc ''averageRating'']"

definition course_rating :: "database \<Rightarrow> document list" where
  "course_rating db = aggregate lookup_match db ''course'' course_rating_pipeline"

text \<open>The pipeline of "1. Average grade per student" and its run on \<open>enrollment\<close>.\<close>

definition student_performance_pipeline :: "stage list" where
  "student_performance_pipeline =
     [Lookup ''submission'' ''enrollmentId'' ''enrollmentId'' ''submissions'',
      Unwind ''$submissions'',
      GroupAvg ''$studentId'' ''averageGrade'' ''$submissions.grade'',
      SortDesc ''averageGrade'']"

definition student_performance :: "(bson \<Rightarrow> bson \<Rightarrow> bool) \<Rightarrow> database \<Rightarrow> document list" where
  "student_performance match db = aggregate match db ''enrollment'' student_performance_pipeline"

section \<open>The script\<close>

text \<open>Statements outside a \<open>try\<close> run one after the other until one raises.\<close>

fun and_then :: "exc + 'a \<Rightarrow> ('a \<Rightarrow> exc + 'b) \<Rightarrow> exc + 'b" where
  "and_then (Inl e) f = Inl e"
| "and_then (Inr x) f = f x"

text \<open>The section that creates the unique indexes (cell 168 of the script).\<close>

definition create_indexes :: "database \<Rightarrow> exc + database" where
  "create_indexes db =
     and_then (create_unique_index db ''user'' [''userId'']) (\<lambda>db.
     and_then (create_unique_index db ''enrollment'' [''enrollmentId'']) (\<lambda>db.
     and_then (create_unique_index db ''enrollment'' [''courseId'', ''studentId'']) (\<lambda>db.
     and_then (create_unique_index db ''lesson'' [''lessonId'']) (\<lambda>db.
     and_then (create_unique_index db ''assignment'' [''assignmentId'']) (\<lambda>db.
     create_unique_index db ''submission'' [''submissionId''])))))"

text \<open>
  The inserts and updates of the script all go through the helpers; a run of them is a list
  of calls, each on the database that the one before left.
\<close>

datatype helper_call =
    CreateDocument string document
  | CreateDocuments string "document list" string
  | UpdateDocument string query update
  | DeleteDocument int string query

fun call :: "database \<Rightarrow> helper_call \<Rightarrow> database" where
  "call db (CreateDocument c d) = snd (create_document db c d)"
| "call db (CreateDocuments c ds id_field) = snd (create_documents db c ds id_field)"
| "call db (UpdateDocument c q u) = snd (update_document db c q u)"
| "call db (DeleteDocument now c q) = snd (delete_document now db c q)"

definition calls :: "database \<Rightarrow> helper_call list \<Rightarrow> database" where
  "calls db cs = foldl call db cs"

text \<open>The unique indexes that the script creates, as pairs of collection and key pattern.\<close>

definition script_unique_indexes :: "(string \<times> string list) list" where
  "script_unique_indexes =
     [(''user'', [''userId'']),
      (''enrollment'', [''enrollmentId'']),
      (''enrollment'', [''courseId'', ''studentId'']),
      (''lesson'', [''lessonId'']),
      (''assignment'', [''assignmentId'']),
      (''submission'', [''submissionId''])]"

section \<open>The seed data\<close>

text \<open>
  \<open>datetime(y, m, d, h, mi, s)\<close> is stored as the milliseconds from the epoch to that time
  (a datetime without time zone is taken as UTC); the days are counted in the proleptic
  Gregorian calendar.
\<close>

definition days_from_civil :: "int \<Rightarrow> int \<Rightarrow> int \<Rightarrow> int" where
  "days_from_civil y m d =
     (let y' = (if m \<le> 2 then y - 1 else y);
          era = y' div 400;
          yoe = y' - era * 400;
          doy = (153 * (if m > 2 then m - 3 else m + 9) + 2) div 5 + d - 1;
          doe = yoe * 365 + yoe div 4 - yoe div 100 + doy
      in era * 146097 + doe - 719468)"

definition datetime :: "int \<Rightarrow> int \<Rightarrow> int \<Rightarrow> int \<Rightarrow> int \<Rightarrow> int \<Rightarrow> bson" where
  "datetime y m d h mi s =
     BDate ((((days_from_civil y m d * 24 + h) * 60 + mi) * 60 + s) * 1000)"

text \<open>
  The six lists of the script. Each \<open>datetime.now()\<close> of \<open>enrollments_data\<close> is one reading
  of the clock, numbered in the order in which the list evaluates them.
\<close>

definition users_data :: "document list" where
  "users_data =
     [
      [(''userId'', BNum 1), (''email'', BStr ''alice.student@example.com''),
       (''firstName'', BStr ''Alice''), (''lastName'', BStr ''Johnson''),
       (''role'', BStr ''student''), (''joinedAt'', datetime 2023 1 15 10 0 0),
       (''profile'', BDoc [(''bio'', BStr ''Loves learning Python''), (''avatar'', BStr ''''), (''skills'', BArr [BStr ''Python'', BStr ''Data Analysis''])]),
       (''isActive'', BBool True), (''updatedAt'', datetime 2023 9 20 12 0 0)],
      [(''userId'', BNum 2), (''email'', BStr ''bob.student@example.com''),
       (''firstName'', BStr ''Bob''), (''lastName'', BStr ''Smith''),
       (''role'', BStr ''student''), (''joinedAt'', datetime 2023 2 10 9 30 0),
       (''profile'', BDoc [(''bio'', BStr ''Front-end enthusiast''), (''avatar'', BStr ''''), (''skills'', BArr [BStr ''HTML'', BStr ''CSS'', BStr ''JavaScript''])]),
       (''isActive'', BBool True), (''updatedAt'', datetime 2023 9 18 11 0 0)],
      [(''userId'', BNum 3), (''email'', BStr ''carol.student@example.com''),
       (''firstName'', BStr ''Carol''), (''lastName'', BStr ''Davis''),
       (''role'', BStr ''student''), (''joinedAt'', datetime 2023 3 1 8 45 0),
       (''profile'', BDoc [(''bio'', BStr ''Data Science beginner''), (''avatar'', BStr ''''), (''skills'', BArr [BStr ''Python'', BStr ''Statistics''])]),
       (''isActive'', BBool True), (''updatedAt'', datetime 2023 9 15 10 0 0)],
      [(''userId'', BNum 4), (''email'', BStr ''david.student@example.com''),
       (''firstName'', BStr ''David''), (''lastName'', BStr ''Wilson''),
       (''role'', BStr ''student''), (''joinedAt'', datetime 2023 1 20 10 15 0),
       (''profile'', BDoc [(''bio'', BStr ''AI hobbyist''), (''avatar'', BStr ''''), (''skills'', BArr [BStr ''Python'', BStr ''Machine Learning''])]),
       (''isActive'', BBool True), (''updatedAt'', datetime 2023 9 19 9 30 0)],
      [(''userId'', BNum 5), (''email'', BStr ''emma.student@example.com''),
       (''firstName'', BStr ''Emma''), (''lastName'', BStr ''Taylor''),
       (''role'', BStr ''student''), (''joinedAt'', datetime 2023 2 25 11 0 0),
       (''profile'', BDoc [(''bio'', BStr ''Web developer in training''), (''avatar'', BStr ''''), (''skills'', BArr [BStr ''HTML'', BStr ''CSS''])]),
       (''isActive'', BBool True), (''updatedAt'', datetime 2023 9 21 12 15 0)],
      [(''userId'', BNum 6), (''email'', BStr ''frank.student@example.com''),
       (''firstName'', BStr ''Frank''), (''lastName'', BStr ''Anderson''),
       (''role'', BStr ''student''), (''joinedAt'', datetime 2023 3 10 9 30 0),
       (''profile'', BDoc [(''bio'', BStr ''Interested in DevOps''), (''avatar'', BStr ''''), (''skills'', BArr [BStr ''Docker'', BStr ''Kubernetes''])]),
       (''isActive'', BBool True), (''updatedAt'', datetime 2023 9 20 11 45 0)],
      [(''userId'', BNum 7), (''email'', BStr ''grace.student@example.com''),
       (''firstName'', BStr ''Grace''), (''lastName'', BStr ''Thomas''),
       (''role'', BStr ''student''), (''joinedAt'', datetime 2023 1 28 10 0 0),
       (''profile'', BDoc [(''bio'', BStr ''Learning backend development''), (''avatar'', BStr ''''), (''skills'', BArr [BStr ''Node.js'', BStr ''Express''])]),
       (''isActive'', BBool True), (''updatedAt'', datetime 2023 9 19 10 30 0)],
      [(''userId'', BNum 8), (''email'', BStr ''henry.student@example.com''),
       (''firstName'', BStr ''Henry''), (''lastName'', BStr ''Moore''),
       (''role'', BStr ''student''), (''joinedAt'', datetime 2023 2 5 9 0 0),
       (''profile'', BDoc [(''bio'', BStr ''Database enthusiast''), (''avatar'', BStr ''''), (''skills'', BArr [BStr ''SQL'', BStr ''PostgreSQL''])]),
       (''isActive'', BBool True), (''updatedAt'', datetime 2023 9 18 11 15 0)],
      [(''userId'', BNum 9), (''email'', BStr ''isabel.student@example.com''),
       (''firstName'', BStr ''Isabel''), (''lastName'', BStr ''Martin''),
       (''role'', BStr ''student''), (''joinedAt'', datetime 2023 3 12 8 30 0),
       (''profile'', BDoc [(''bio'', BStr ''Learning AI''), (''avatar'', BStr ''''), (''skills'', BArr [BStr ''Python'', BStr ''TensorFlow''])]),
       (''isActive'', BBool True), (''updatedAt'', datetime 2023 9 21 9 50 0)],
      [(''userId'', BNum 10), (''email'', BStr ''jack.student@example.com''),
       (''firstName'', BStr ''Jack''), (''lastName'', BStr ''Lee''), (''role'', BStr ''student''),
       (''joinedAt'', datetime 2023 1 18 10 20 0),
       (''profile'', BDoc [(''bio'', BStr ''Cloud computing beginner''), (''avatar'', BStr ''''), (''skills'', BArr [BStr ''AWS'', BStr ''Azure''])]),
       (''isActive'', BBool True), (''updatedAt'', datetime 2023 9 20 10 40 0)],
      [(''userId'', BNum 11), (''email'', BStr ''kate.student@example.com''),
       (''firstName'', BStr ''Kate''), (''lastName'', BStr ''Perez''),
       (''role'', BStr ''student''), (''joinedAt'', datetime 2023 2 22 11 10 0),
       (''profile'', BDoc [(''bio'', BStr ''Cybersecurity enthusiast''), (''avatar'', BStr ''''), (''skills'', BArr [BStr ''Network Security'', BStr ''Linux''])]),
       (''isActive'', BBool True), (''updatedAt'', datetime 2023 9 19 12 0 0)],
      [(''userId'', BNum 12), (''email'', BStr ''leo.student@example.com''),
       (''firstName'', BStr ''Leo''), (''lastName'', BStr ''Harris''),
       (''role'', BStr ''student''), (''joinedAt'', datetime 2023 3 5 9 50 0),
       (''profile'', BDoc [(''bio'', BStr ''Loves Python scripting''), (''avatar'', BStr ''''), (''skills'', BArr [BStr ''Python'', BStr ''Automation''])]),
       (''isActive'', BBool True), (''updatedAt'', datetime 2023 9 18 10 20 0)],
      [(''userId'', BNum 13), (''email'', BStr ''mia.student@example.com''),
       (''firstName'', BStr ''Mia''), (''lastName'', BStr ''Clark''),
       (''role'', BStr ''student''), (''joinedAt'', datetime 2023 1 30 10 5 0),
       (''profile'', BDoc [(''bio'', BStr ''Full-stack web developer''), (''avatar'', BStr ''''), (''skills'', BArr [BStr ''React'', BStr ''Node.js''])]),
       (''isActive'', BBool True), (''updatedAt'', datetime 2023 9 21 11 10 0)],
      [(''userId'', BNum 14), (''email'', BStr ''nick.student@example.com''),
       (''firstName'', BStr ''Nick''), (''lastName'', BStr ''Lewis''),
       (''role'', BStr ''student''), (''joinedAt'', datetime 2023 2 12 9 40 0),
       (''profile'', BDoc [(''bio'', BStr ''Interested in DevOps''), (''avatar'', BStr ''''), (''skills'', BArr [BStr ''Docker'', BStr ''CI/CD''])]),
       (''isActive'', BBool True), (''updatedAt'', datetime 2023 9 20 12 30 0)],
      [(''userId'', BNum 15), (''email'', BStr ''olivia.student@example.com''),
       (''firstName'', BStr ''Olivia''), (''lastName'', BStr ''Walker''),
       (''role'', BStr ''student''), (''joinedAt'', datetime 2023 3 7 8 50 0),
       (''profile'', BDoc [(''bio'', BStr ''Learning Data Science''), (''avatar'', BStr ''''), (''skills'', BArr [BStr ''Python'', BStr ''Pandas''])]),
       (''isActive'', BBool True), (''updatedAt'', datetime 2023 9 19 10 50 0)],
      [(''userId'', BNum 16), (''email'', BStr ''paul.student@example.com''),
       (''firstName'', BStr ''Paul''), (''lastName'', BStr ''Hall''),
       (''role'', BStr ''student''), (''joinedAt'', datetime 2023 1 25 10 30 0),
       (''profile'', BDoc [(''bio'', BStr ''Interested in AI''), (''avatar'', BStr ''''), (''skills'', BArr [BStr ''Python'', BStr ''Keras''])]),
       (''isActive'', BBool True), (''updatedAt'', datetime 2023 9 21 12 10 0)],
      [(''userId'', BNum 17), (''email'', BStr ''queen.instructor@example.com''),
       (''firstName'', BStr ''Queen''), (''lastName'', BStr ''Allen''),
       (''role'', BStr ''instructor''), (''joinedAt'', datetime 2022 12 10 9 0 0),
       (''profile'', BDoc [(''bio'', BStr ''Expert in Python''), (''avatar'', BStr ''''), (''skills'', BArr [BStr ''Python'', BStr ''Data Science''])]),
       (''isActive'', BBool True), (''updatedAt'', datetime 2023 9 15 12 0 0)],
      [(''userId'', BNum 18), (''email'', BStr ''roger.instructor@example.com''),
       (''firstName'', BStr ''Roger''), (''lastName'', BStr ''Young''),
       (''role'', BStr ''instructor''), (''joinedAt'', datetime 2022 11 5 8 30 0),
       (''profile'', BDoc [(''bio'', BStr ''Web development instructor''), (''avatar'', BStr ''''), (''skills'', BArr [BStr ''HTML'', BStr ''CSS'', BStr ''JavaScript''])]),
       (''isActive'', BBool True), (''updatedAt'', datetime 2023 9 18 11 40 0)],
      [(''userId'', BNum 19), (''email'', BStr ''sophia.instructor@example.com''),
       (''firstName'', BStr ''Sophia''), (''lastName'', BStr ''King''),
       (''role'', BStr ''instructor''), (''joinedAt'', datetime 2022 12 15 9 15 0),
       (''profile'', BDoc [(''bio'', BStr ''AI and ML instructor''), (''avatar'', BStr ''''), (''skills'', BArr [BStr ''Python'', BStr ''Machine Learning''])]),
       (''isActive'', BBool True), (''updatedAt'', datetime 2023 9 20 10 30 0)],
      [(''userId'', BNum 20), (''email'', BStr ''tom.instructor@example.com''),
       (''firstName'', BStr ''Tom''), (''lastName'', BStr ''Scott''),
       (''role'', BStr ''instructor''), (''joinedAt'', datetime 2022 12 20 8 45 0),
       (''profile'', BDoc [(''bio'', BStr ''Cloud computing instructor''), (''avatar'', BStr ''''), (''skills'', BArr [BStr ''AWS'', BStr ''Azure''])]),
       (''isActive'', BBool True), (''updatedAt'', datetime 2023 9 21 11 50 0)],
      [(''userId'', BNum 21), (''email'', BStr ''uma.student@example.com''),
       (''firstName'', BStr ''Uma''), (''lastName'', BStr ''Adams''),
       (''role'', BStr ''student''), (''joinedAt'', datetime 2023 2 1 10 10 0),
       (''profile'', BDoc [(''bio'', BStr ''Learning front-end''), (''avatar'', BStr ''''), (''skills'', BArr [BStr ''React'', BStr ''CSS''])]),
       (''isActive'', BBool True), (''updatedAt'', datetime 2023 9 20 10 20 0)],
      [(''userId'', BNum 22), (''email'', BStr ''victor.student@example.com''),
       (''firstName'', BStr ''Victor''), (''lastName'', BStr ''Baker''),
       (''role'', BStr ''student''), (''joinedAt'', datetime 2023 2 18 9 35 0),
       (''profile'', BDoc [(''bio'', BStr ''Backend beginner''), (''avatar'', BStr ''''), (''skills'', BArr [BStr ''Node.js'', BStr ''Express''])]),
       (''isActive'', BBool True), (''updatedAt'', datetime 2023 9 19 11 15 0)],
      [(''userId'', BNum 23), (''email'', BStr ''wendy.student@example.com''),
       (''firstName'', BStr ''Wendy''), (''lastName'', BStr ''Carter''),
       (''role'', BStr ''student''), (''joinedAt'', datetime 2023 3 3 8 55 0),
       (''profile'', BDoc [(''bio'', BStr ''Learning DevOps''), (''avatar'', BStr ''''), (''skills'', BArr [BStr ''Docker'', BStr ''Kubernetes''])]),
       (''isActive'', BBool True), (''updatedAt'', datetime 2023 9 21 12 40 0)],
      [(''userId'', BNum 24), (''email'', BStr ''xander.student@example.com''),
       (''firstName'', BStr ''Xander''), (''lastName'', BStr ''Evans''),
       (''role'', BStr ''student''), (''joinedAt'', datetime 2023 1 27 10 20 0),
       (''profile'', BDoc [(''bio'', BStr ''Database learner''), (''avatar'', BStr ''''), (''skills'', BArr [BStr ''SQL'', BStr ''PostgreSQL''])]),
       (''isActive'', BBool True), (''updatedAt'', datetime 2023 9 18 10 50 0)],
      [(''userId'', BNum 25), (''email'', BStr ''yara.student@example.com''),
       (''firstName'', BStr ''Yara''), (''lastName'', BStr ''Foster''),
       (''role'', BStr ''student''), (''joinedAt'', datetime 2023 2 8 9 50 0),
       (''profile'', BDoc [(''bio'', BStr ''Learning AI''), (''avatar'', BStr ''''), (''skills'', BArr [BStr ''Python'', BStr ''TensorFlow''])]),
       (''isActive'', BBool True), (''updatedAt'', datetime 2023 9 20 11 25 0)],
      [(''userId'', BNum 26), (''email'', BStr ''zane.student@example.com''),
       (''firstName'', BStr ''Zane''), (''lastName'', BStr ''Green''),
       (''role'', BStr ''student''), (''joinedAt'', datetime 2023 3 11 8 40 0),
       (''profile'', BDoc [(''bio'', BStr ''Python and ML beginner''), (''avatar'', BStr ''''), (''skills'', BArr [BStr ''Python'', BStr ''ML''])]),
       (''isActive'', BBool True), (''updatedAt'', datetime 2023 9 21 12 5 0)],
      [(''userId'', BNum 27), (''email'', BStr ''amy.student@example.com''),
       (''firstName'', BStr ''Amy''), (''lastName'', BStr ''Hughes''),
       (''role'', BStr ''student''), (''joinedAt'', datetime 2023 1 19 10 5 0),
       (''profile'', BDoc [(''bio'', BStr ''Interested in cybersecurity''), (''avatar'', BStr ''''), (''skills'', BArr [BStr ''Network Security'', BStr ''Linux''])]),
       (''isActive'', BBool True), (''updatedAt'', datetime 2023 9 20 10 35 0)],
      [(''userId'', BNum 28), (''email'', BStr ''brian.student@example.com''),
       (''firstName'', BStr ''Brian''), (''lastName'', BStr ''Irwin''),
       (''role'', BStr ''student''), (''joinedAt'', datetime 2023 2 28 9 20 0),
       (''profile'', BDoc [(''bio'', BStr ''Learning cloud computing''), (''avatar'', BStr ''''), (''skills'', BArr [BStr ''AWS'', BStr ''Azure''])]),
       (''isActive'', BBool True), (''updatedAt'', datetime 2023 9 19 11 55 0)],
      [(''userId'', BNum 29), (''email'', BStr ''chloe.student@example.com''),
       (''firstName'', BStr ''Chloe''), (''lastName'', BStr ''Jones''),
       (''role'', BStr ''student''), (''joinedAt'', datetime 2023 3 6 8 50 0),
       (''profile'', BDoc [(''bio'', BStr ''Data science enthusiast''), (''avatar'', BStr ''''), (''skills'', BArr [BStr ''Python'', BStr ''Pandas''])]),
       (''isActive'', BBool True), (''updatedAt'', datetime 2023 9 21 12 30 0)],
      [(''userId'', BNum 30), (''email'', BStr ''daniel.student@example.com''),
       (''firstName'', BStr ''Daniel''), (''lastName'', BStr ''Kelly''),
       (''role'', BStr ''student''), (''joinedAt'', datetime 2023 1 23 10 25 0),
       (''profile'', BDoc [(''bio'', BStr ''Interested in AI and ML''), (''avatar'', BStr ''''), (''skills'', BArr [BStr ''Python'', BStr ''Keras''])]),
       (''isActive'', BBool True), (''updatedAt'', datetime 2023 9 20 10 55 0)],
      [(''userId'', BNum 31), (''email'', BStr ''ella.student@example.com''),
       (''firstName'', BStr ''Ella''), (''lastName'', BStr ''Lopez''),
       (''role'', BStr ''student''), (''joinedAt'', datetime 2023 2 14 9 40 0),
       (''profile'', BDoc [(''bio'', BStr ''Front-end learner''), (''avatar'', BStr ''''), (''skills'', BArr [BStr ''HTML'', BStr ''CSS'', BStr ''React''])]),
       (''isActive'', BBool True), (''updatedAt'', datetime 2023 9 19 11 10 0)],
      [(''userId'', BNum 32), (''email'', BStr ''fred.student@example.com''),
       (''firstName'', BStr ''Fred''), (''lastName'', BStr ''Morris''),
       (''role'', BStr ''student''), (''joinedAt'', datetime 2023 3 9 8 35 0),
       (''profile'', BDoc [(''bio'', BStr ''Learning backend development''), (''avatar'', BStr ''''), (''skills'', BArr [BStr ''Node.js'', BStr ''Express''])]),
       (''isActive'', BBool True), (''updatedAt'', datetime 2023 9 21 12 20 0)]
     ]"

definition courses_data :: "document list" where
  "courses_data =
     [
      [(''courseId'', BNum 1), (''title'', BStr ''Introduction to Python''),
       (''description'', BStr ''Learn the basics of Python programming.''),
       (''instructorId'', BNum 17), (''category'', BStr ''Programming''),
       (''difficultyLevel'', BStr ''beginner''), (''duration'', BNum 20), (''price'', BNum 49.99),
       (''tags'', BArr [BStr ''python'', BStr ''programming'', BStr ''basics'']),
       (''isPublished'', BBool True), (''isActive'', BBool True), (''reviewRate'', BNum 4.5),
       (''createdAt'', datetime 2023 1 10 9 0 0), (''updatedAt'', datetime 2023 5 1 12 0 0)],
      [(''courseId'', BNum 2), (''title'', BStr ''Advanced Python''),
       (''description'', BStr ''Master advanced Python concepts and best practices.''),
       (''instructorId'', BNum 18), (''category'', BStr ''Programming''),
       (''difficultyLevel'', BStr ''advanced''), (''duration'', BNum 35), (''price'', BNum 99.99),
       (''tags'', BArr [BStr ''python'', BStr ''advanced'', BStr ''OOP'']),
       (''isPublished'', BBool True), (''isActive'', BBool True), (''reviewRate'', BNum 4.8),
       (''createdAt'', datetime 2023 2 15 10 0 0), (''updatedAt'', datetime 2023 6 20 14 0 0)],
      [(''courseId'', BNum 3), (''title'', BStr ''Data Science Basics''),
       (''description'', BStr ''Introduction to data science, statistics, and visualization.''),
       (''instructorId'', BNum 19), (''category'', BStr ''Data Science''),
       (''difficultyLevel'', BStr ''beginner''), (''duration'', BNum 25), (''price'', BNum 59.99),
       (''tags'', BArr [BStr ''data science'', BStr ''statistics'', BStr ''visualization'']),
       (''isPublished'', BBool True), (''isActive'', BBool True), (''reviewRate'', BNum 4.6),
       (''createdAt'', datetime 2023 3 1 11 0 0), (''updatedAt'', datetime 2023 6 15 12 0 0)],
      [(''courseId'', BNum 4), (''title'', BStr ''Machine Learning A-Z''),
       (''description'', BStr ''Learn machine learning algorithms from scratch.''),
       (''instructorId'', BNum 20), (''category'', BStr ''Data Science''),
       (''difficultyLevel'', BStr ''intermidiate''), (''duration'', BNum 40),
       (''price'', BNum 129.99),
       (''tags'', BArr [BStr ''machine learning'', BStr ''python'', BStr ''AI'']),
       (''isPublished'', BBool True), (''isActive'', BBool True), (''reviewRate'', BNum 4.7),
       (''createdAt'', datetime 2023 3 10 9 0 0), (''updatedAt'', datetime 2023 7 1 15 0 0)],
      [(''courseId'', BNum 5), (''title'', BStr ''Web Development with HTML, CSS, JS''),
       (''description'', BStr ''Build interactive websites using HTML, CSS, and JavaScript.''),
       (''instructorId'', BNum 17), (''category'', BStr ''Web Development''),
       (''difficultyLevel'', BStr ''beginner''), (''duration'', BNum 30), (''price'', BNum 79.99),
       (''tags'', BArr [BStr ''web'', BStr ''html'', BStr ''css'', BStr ''javascript'']),
       (''isPublished'', BBool True), (''isActive'', BBool True), (''reviewRate'', BNum 4.3),
       (''createdAt'', datetime 2023 1 20 8 0 0), (''updatedAt'', datetime 2023 5 25 13 0 0)],
      [(''courseId'', BNum 6), (''title'', BStr ''React for Beginners''),
       (''description'', BStr ''Learn how to build dynamic front-end applications using React.''),
       (''instructorId'', BNum 18), (''category'', BStr ''Web Development''),
       (''difficultyLevel'', BStr ''beginner''), (''duration'', BNum 28), (''price'', BNum 89.99),
       (''tags'', BArr [BStr ''react'', BStr ''javascript'', BStr ''frontend'']),
       (''isPublished'', BBool True), (''isActive'', BBool True), (''reviewRate'', BNum 4.4),
       (''createdAt'', datetime 2023 2 5 10 30 0), (''updatedAt'', datetime 2023 6 5 12 30 0)],
      [(''courseId'', BNum 7), (''title'', BStr ''Node.js and Express''),
       (''description'', BStr ''Server-side development with Node.js and Express.''),
       (''instructorId'', BNum 19), (''category'', BStr ''Backend Development''),
       (''difficultyLevel'', BStr ''intermidiate''), (''duration'', BNum 32),
       (''price'', BNum 99.99),
       (''tags'', BArr [BStr ''nodejs'', BStr ''express'', BStr ''backend'']),
       (''isPublished'', BBool True), (''isActive'', BBool True), (''reviewRate'', BNum 4.5),
       (''createdAt'', datetime 2023 3 1 9 30 0), (''updatedAt'', datetime 2023 7 10 14 0 0)],
      [(''courseId'', BNum 8), (''title'', BStr ''Docker Essentials''),
       (''description'', BStr ''Learn containerization concepts and Docker fundamentals.''),
       (''instructorId'', BNum 20), (''category'', BStr ''DevOps''),
       (''difficultyLevel'', BStr ''beginner''), (''duration'', BNum 18), (''price'', BNum 59.99),
       (''tags'', BArr [BStr ''docker'', BStr ''containers'', BStr ''devops'']),
       (''isPublished'', BBool True), (''isActive'', BBool True), (''reviewRate'', BNum 4.2),
       (''createdAt'', datetime 2023 1 25 11 0 0), (''updatedAt'', datetime 2023 5 30 13 30 0)],
      [(''courseId'', BNum 9), (''title'', BStr ''Kubernetes for Beginners''),
       (''description'', BStr ''Introduction to Kubernetes and container orchestration.''),
       (''instructorId'', BNum 17), (''category'', BStr ''DevOps''),
       (''difficultyLevel'', BStr ''intermidiate''), (''duration'', BNum 25),
       (''price'', BNum 79.99),
       (''tags'', BArr [BStr ''kubernetes'', BStr ''containers'', BStr ''orchestration'']),
       (''isPublished'', BBool True), (''isActive'', BBool True), (''reviewRate'', BNum 4.3),
       (''createdAt'', datetime 2023 2 15 9 45 0), (''updatedAt'', datetime 2023 6 20 12 30 0)],
      [(''courseId'', BNum 10), (''title'', BStr ''SQL for Beginners''),
       (''description'', BStr ''Learn to query databases using SQL.''),
       (''instructorId'', BNum 18), (''category'', BStr ''Database''),
       (''difficultyLevel'', BStr ''beginner''), (''duration'', BNum 20), (''price'', BNum 49.99),
       (''tags'', BArr [BStr ''sql'', BStr ''database'', BStr ''query'']),
       (''isPublished'', BBool True), (''isActive'', BBool True), (''reviewRate'', BNum 4.4),
       (''createdAt'', datetime 2023 1 12 8 30 0), (''updatedAt'', datetime 2023 5 15 11 0 0)],
      [(''courseId'', BNum 11), (''title'', BStr ''PostgreSQL Advanced''),
       (''description'', BStr ''Advanced PostgreSQL features and optimization techniques.''),
       (''instructorId'', BNum 19), (''category'', BStr ''Database''),
       (''difficultyLevel'', BStr ''advanced''), (''duration'', BNum 30), (''price'', BNum 99.99),
       (''tags'', BArr [BStr ''postgresql'', BStr ''database'', BStr ''advanced'']),
       (''isPublished'', BBool True), (''isActive'', BBool True), (''reviewRate'', BNum 4.6),
       (''createdAt'', datetime 2023 3 1 10 0 0), (''updatedAt'', datetime 2023 6 25 14 0 0)],
      [(''courseId'', BNum 12), (''title'', BStr ''Introduction to AI''),
       (''description'', BStr ''Basic concepts and applications of Artificial Intelligence.''),
       (''instructorId'', BNum 20), (''category'', BStr ''AI''),
       (''difficultyLevel'', BStr ''beginner''), (''duration'', BNum 22), (''price'', BNum 69.99),
       (''tags'', BArr [BStr ''AI'', BStr ''artificial intelligence'', BStr ''machine learning'']),
       (''isPublished'', BBool True), (''isActive'', BBool True), (''reviewRate'', BNum 4.3),
       (''createdAt'', datetime 2023 2 1 11 0 0), (''updatedAt'', datetime 2023 6 5 12 0 0)],
      [(''courseId'', BNum 13), (''title'', BStr ''Advanced AI Techniques''),
       (''description'', BStr ''Deep dive into AI algorithms and neural networks.''),
       (''instructorId'', BNum 17), (''category'', BStr ''AI''),
       (''difficultyLevel'', BStr ''advanced''), (''duration'', BNum 40),
       (''price'', BNum 149.99),
       (''tags'', BArr [BStr ''AI'', BStr ''neural networks'', BStr ''deep learning'']),
       (''isPublished'', BBool True), (''isActive'', BBool True), (''reviewRate'', BNum 4.7),
       (''createdAt'', datetime 2023 3 15 9 0 0), (''updatedAt'', datetime 2023 7 5 14 0 0)],
      [(''courseId'', BNum 14), (''title'', BStr ''Cloud Computing Basics''),
       (''description'', BStr ''Learn the fundamentals of cloud services and architecture.''),
       (''instructorId'', BNum 18), (''category'', BStr ''Cloud''),
       (''difficultyLevel'', BStr ''beginner''), (''duration'', BNum 18), (''price'', BNum 59.99),
       (''tags'', BArr [BStr ''cloud'', BStr ''AWS'', BStr ''azure'', BStr ''basics'']),
       (''isPublished'', BBool True), (''isActive'', BBool True), (''reviewRate'', BNum 4.2),
       (''createdAt'', datetime 2023 1 28 10 0 0), (''updatedAt'', datetime 2023 6 1 12 0 0)],
      [(''courseId'', BNum 15), (''title'', BStr ''AWS Certified Solutions Architect''),
       (''description'', BStr ''Prepare for AWS certification with hands-on labs and examples.''),
       (''instructorId'', BNum 19), (''category'', BStr ''Cloud''),
       (''difficultyLevel'', BStr ''intermidiate''), (''duration'', BNum 35),
       (''price'', BNum 129.99),
       (''tags'', BArr [BStr ''AWS'', BStr ''cloud'', BStr ''certification'']),
       (''isPublished'', BBool True), (''isActive'', BBool True), (''reviewRate'', BNum 4.6),
       (''createdAt'', datetime 2023 2 10 9 30 0), (''updatedAt'', datetime 2023 6 20 14 0 0)],
      [(''courseId'', BNum 16), (''title'', BStr ''Cybersecurity Fundamentals''),
       (''description'', BStr ''Introduction to cybersecurity concepts and practices.''),
       (''instructorId'', BNum 20), (''category'', BStr ''Security''),
       (''difficultyLevel'', BStr ''beginner''), (''duration'', BNum 25), (''price'', BNum 79.99),
       (''tags'', BArr [BStr ''cybersecurity'', BStr ''security'', BStr ''basics'']),
       (''isPublished'', BBool True), (''isActive'', BBool True), (''reviewRate'', BNum 4.4),
       (''createdAt'', datetime 2023 3 1 10 30 0), (''updatedAt'', datetime 2023 7 1 15 30 0)]
     ]"

definition enrollments_data :: "(nat \<Rightarrow> int) \<Rightarrow> document list" where
  "enrollments_data clock =
     [
      [(''enrollmentId'', BNum 1), (''courseId'', BNum 1), (''studentId'', BNum 1),
       (''isActive'', BBool True), (''completionStatus'', BStr ''in_progress''),
       (''trackProgress'', BNum 20),
       (''attendance'', BArr [BDoc [(''lessonId'', BNum 1), (''hasFinished'', BBool True), (''attendedAt'', datetime 2023 9 1 10 0 0)], BDoc [(''lessonId'', BNum 2), (''hasFinished'', BBool False), (''attendedAt'', BDate (clock 0))]]),
       (''completionDate'', BNull), (''createdAt'', datetime 2023 8 20 12 0 0),
       (''updatedAt'', datetime 2023 9 1 10 5 0)],
      [(''enrollmentId'', BNum 2), (''courseId'', BNum 2), (''studentId'', BNum 2),
       (''isActive'', BBool True), (''completionStatus'', BStr ''in_progress''),
       (''trackProgress'', BNum 50),
       (''attendance'', BArr [BDoc [(''lessonId'', BNum 3), (''hasFinished'', BBool True), (''attendedAt'', datetime 2023 9 2 11 0 0)], BDoc [(''lessonId'', BNum 4), (''hasFinished'', BBool True), (''attendedAt'', datetime 2023 9 5 11 0 0)]]),
       (''completionDate'', BNull), (''createdAt'', datetime 2023 8 22 9 0 0),
       (''updatedAt'', datetime 2023 9 5 12 0 0)],
      [(''enrollmentId'', BNum 3), (''courseId'', BNum 3), (''studentId'', BNum 3),
       (''isActive'', BBool True), (''completionStatus'', BStr ''not_started''),
       (''trackProgress'', BNum 0),
       (''attendance'', BArr [BDoc [(''lessonId'', BNum 5), (''hasFinished'', BBool False), (''attendedAt'', BDate (clock 1))], BDoc [(''lessonId'', BNum 6), (''hasFinished'', BBool False), (''attendedAt'', BDate (clock 2))]]),
       (''completionDate'', BNull), (''createdAt'', datetime 2023 8 25 10 30 0),
       (''updatedAt'', datetime 2023 8 25 10 30 0)],
      [(''enrollmentId'', BNum 4), (''courseId'', BNum 1), (''studentId'', BNum 4),
       (''isActive'', BBool True), (''completionStatus'', BStr ''completed''),
       (''trackProgress'', BNum 100),
       (''attendance'', BArr [BDoc [(''lessonId'', BNum 1), (''hasFinished'', BBool True), (''attendedAt'', datetime 2023 8 28 9 0 0)], BDoc [(''lessonId'', BNum 2), (''hasFinished'', BBool True), (''attendedAt'', datetime 2023 8 30 9 30 0)]]),
       (''completionDate'', datetime 2023 8 31 12 0 0),
       (''createdAt'', datetime 2023 8 20 12 10 0), (''updatedAt'', datetime 2023 8 31 12 5 0)],
      [(''enrollmentId'', BNum 5), (''courseId'', BNum 4), (''studentId'', BNum 5),
       (''isActive'', BBool True), (''completionStatus'', BStr ''in_progress''),
       (''trackProgress'', BNum 30),
       (''attendance'', BArr [BDoc [(''lessonId'', BNum 7), (''hasFinished'', BBool True), (''attendedAt'', datetime 2023 9 3 10 0 0)], BDoc [(''lessonId'', BNum 8), (''hasFinished'', BBool False), (''attendedAt'', BDate (clock 3))]]),
       (''completionDate'', BNull), (''createdAt'', datetime 2023 8 23 11 0 0),
       (''updatedAt'', datetime 2023 9 3 10 5 0)],
      [(''enrollmentId'', BNum 6), (''courseId'', BNum 2), (''studentId'', BNum 6),
       (''isActive'', BBool True), (''completionStatus'', BStr ''in_progress''),
       (''trackProgress'', BNum 40),
       (''attendance'', BArr [BDoc [(''lessonId'', BNum 3), (''hasFinished'', BBool True), (''attendedAt'', datetime 2023 9 4 9 30 0)], BDoc [(''lessonId'', BNum 4), (''hasFinished'', BBool False), (''attendedAt'', BDate (clock 4))]]),
       (''completionDate'', BNull), (''createdAt'', datetime 2023 8 22 9 15 0),
       (''updatedAt'', datetime 2023 9 4 9 35 0)],
      [(''enrollmentId'', BNum 7), (''courseId'', BNum 5), (''studentId'', BNum 7),
       (''isActive'', BBool True), (''completionStatus'', BStr ''not_started''),
       (''trackProgress'', BNum 0),
       (''attendance'', BArr [BDoc [(''lessonId'', BNum 9), (''hasFinished'', BBool False), (''attendedAt'', BDate (clock 5))], BDoc [(''lessonId'', BNum 10), (''hasFinished'', BBool False), (''attendedAt'', BDate (clock 6))]]),
       (''completionDate'', BNull), (''createdAt'', datetime 2023 8 24 10 45 0),
       (''updatedAt'', datetime 2023 8 24 10 45 0)],
      [(''enrollmentId'', BNum 8), (''courseId'', BNum 3), (''studentId'', BNum 8),
       (''isActive'', BBool True), (''completionStatus'', BStr ''completed''),
       (''trackProgress'', BNum 100),
       (''attendance'', BArr [BDoc [(''lessonId'', BNum 5), (''hasFinished'', BBool True), (''attendedAt'', datetime 2023 8 29 10 0 0)], BDoc [(''lessonId'', BNum 6), (''hasFinished'', BBool True), (''attendedAt'', datetime 2023 9 1 10 30 0)]]),
       (''completionDate'', datetime 2023 9 2 12 0 0),
       (''createdAt'', datetime 2023 8 25 10 35 0), (''updatedAt'', datetime 2023 9 2 12 5 0)],
      [(''enrollmentId'', BNum 9), (''courseId'', BNum 6), (''studentId'', BNum 9),
       (''isActive'', BBool True), (''completionStatus'', BStr ''in_progress''),
       (''trackProgress'', BNum 15),
       (''attendance'', BArr [BDoc [(''lessonId'', BNum 11), (''hasFinished'', BBool True), (''attendedAt'', datetime 2023 9 5 10 0 0)], BDoc [(''lessonId'', BNum 12), (''hasFinished'', BBool False), (''attendedAt'', BDate (clock 7))]]),
       (''completionDate'', BNull), (''createdAt'', datetime 2023 8 26 9 50 0),
       (''updatedAt'', datetime 2023 9 5 10 5 0)],
      [(''enrollmentId'', BNum 10), (''courseId'', BNum 4), (''studentId'', BNum 10),
       (''isActive'', BBool True), (''completionStatus'', BStr ''not_started''),
       (''trackProgress'', BNum 0),
       (''attendance'', BArr [BDoc [(''lessonId'', BNum 7), (''hasFinished'', BBool False), (''attendedAt'', BDate (clock 8))], BDoc [(''lessonId'', BNum 8), (''hasFinished'', BBool False), (''attendedAt'', BDate (clock 9))]]),
       (''completionDate'', BNull), (''createdAt'', datetime 2023 8 23 11 15 0),
       (''updatedAt'', datetime 2023 8 23 11 15 0)],
      [(''enrollmentId'', BNum 11), (''courseId'', BNum 5), (''studentId'', BNum 11),
       (''isActive'', BBool True), (''completionStatus'', BStr ''in_progress''),
       (''trackProgress'', BNum 60),
       (''attendance'', BArr [BDoc [(''lessonId'', BNum 9), (''hasFinished'', BBool True), (''attendedAt'', datetime 2023 9 6 9 45 0)], BDoc [(''lessonId'', BNum 10), (''hasFinished'', BBool True), (''attendedAt'', datetime 2023 9 8 10 0 0)]]),
       (''completionDate'', BNull), (''createdAt'', datetime 2023 8 24 10 50 0),
       (''updatedAt'', datetime 2023 9 8 10 5 0)],
      [(''enrollmentId'', BNum 12), (''courseId'', BNum 6), (''studentId'', BNum 12),
       (''isActive'', BBool True), (''completionStatus'', BStr ''in_progress''),
       (''trackProgress'', BNum 25),
       (''attendance'', BArr [BDoc [(''lessonId'', BNum 11), (''hasFinished'', BBool True), (''attendedAt'', datetime 2023 9 7 10 0 0)], BDoc [(''lessonId'', BNum 12), (''hasFinished'', BBool False), (''attendedAt'', BDate (clock 10))]]),
       (''completionDate'', BNull), (''createdAt'', datetime 2023 8 26 9 55 0),
       (''updatedAt'', datetime 2023 9 7 10 5 0)],
      [(''enrollmentId'', BNum 13), (''courseId'', BNum 7), (''studentId'', BNum 13),
       (''isActive'', BBool True), (''completionStatus'', BStr ''not_started''),
       (''trackProgress'', BNum 0),
       (''attendance'', BArr [BDoc [(''lessonId'', BNum 13), (''hasFinished'', BBool False), (''attendedAt'', BDate (clock 11))], BDoc [(''lessonId'', BNum 14), (''hasFinished'', BBool False), (''attendedAt'', BDate (clock 12))]]),
       (''completionDate'', BNull), (''createdAt'', datetime 2023 8 27 11 0 0),
       (''updatedAt'', datetime 2023 8 27 11 0 0)],
      [(''enrollmentId'', BNum 14), (''courseId'', BNum 7), (''studentId'', BNum 14),
       (''isActive'', BBool True), (''completionStatus'', BStr ''in_progress''),
       (''trackProgress'', BNum 45),
       (''attendance'', BArr [BDoc [(''lessonId'', BNum 13), (''hasFinished'', BBool True), (''attendedAt'', datetime 2023 9 8 10 0 0)], BDoc [(''lessonId'', BNum 14), (''hasFinished'', BBool False), (''attendedAt'', BDate (clock 13))]]),
       (''completionDate'', BNull), (''createdAt'', datetime 2023 8 27 11 10 0),
       (''updatedAt'', datetime 2023 9 8 10 5 0)],
      [(''enrollmentId'', BNum 15), (''courseId'', BNum 8), (''studentId'', BNum 15),
       (''isActive'', BBool True), (''completionStatus'', BStr ''completed''),
       (''trackProgress'', BNum 100),
       (''attendance'', BArr [BDoc [(''lessonId'', BNum 15), (''hasFinished'', BBool True), (''attendedAt'', datetime 2023 8 30 10 0 0)], BDoc [(''lessonId'', BNum 16), (''hasFinished'', BBool True), (''attendedAt'', datetime 2023 9 1 10 30 0)]]),
       (''completionDate'', datetime 2023 9 2 12 0 0), (''createdAt'', datetime 2023 8 28 12 0 0),
       (''updatedAt'', datetime 2023 9 2 12 5 0)],
      [(''enrollmentId'', BNum 16), (''courseId'', BNum 8), (''studentId'', BNum 16),
       (''isActive'', BBool True), (''completionStatus'', BStr ''in_progress''),
       (''trackProgress'', BNum 30),
       (''attendance'', BArr [BDoc [(''lessonId'', BNum 15), (''hasFinished'', BBool True), (''attendedAt'', datetime 2023 9 9 10 0 0)], BDoc [(''lessonId'', BNum 16), (''hasFinished'', BBool False), (''attendedAt'', BDate (clock 14))]]),
       (''completionDate'', BNull), (''createdAt'', datetime 2023 8 28 12 10 0),
       (''updatedAt'', datetime 2023 9 9 10 5 0)],
      [(''enrollmentId'', BNum 17), (''courseId'', BNum 9), (''studentId'', BNum 6),
       (''isActive'', BBool True), (''completionStatus'', BStr ''not_started''),
       (''trackProgress'', BNum 0),
       (''attendance'', BArr [BDoc [(''lessonId'', BNum 17), (''hasFinished'', BBool False), (''attendedAt'', BDate (clock 15))], BDoc [(''lessonId'', BNum 18), (''hasFinished'', BBool False), (''attendedAt'', BDate (clock 16))]]),
       (''completionDate'', BNull), (''createdAt'', datetime 2023 8 29 11 0 0),
       (''updatedAt'', datetime 2023 8 29 11 0 0)],
      [(''enrollmentId'', BNum 18), (''courseId'', BNum 9), (''studentId'', BNum 8),
       (''isActive'', BBool True), (''completionStatus'', BStr ''in_progress''),
       (''trackProgress'', BNum 50),
       (''attendance'', BArr [BDoc [(''lessonId'', BNum 17), (''hasFinished'', BBool True), (''attendedAt'', datetime 2023 9 10 10 0 0)], BDoc [(''lessonId'', BNum 18), (''hasFinished'', BBool False), (''attendedAt'', BDate (clock 17))]]),
       (''completionDate'', BNull), (''createdAt'', datetime 2023 8 29 11 10 0),
       (''updatedAt'', datetime 2023 9 10 10 5 0)],
      [(''enrollmentId'', BNum 19), (''courseId'', BNum 10), (''studentId'', BNum 13),
       (''isActive'', BBool True), (''completionStatus'', BStr ''not_started''),
       (''trackProgress'', BNum 0),
       (''attendance'', BArr [BDoc [(''lessonId'', BNum 19), (''hasFinished'', BBool False), (''attendedAt'', BDate (clock 18))], BDoc [(''lessonId'', BNum 20), (''hasFinished'', BBool False), (''attendedAt'', BDate (clock 19))]]),
       (''completionDate'', BNull), (''createdAt'', datetime 2023 8 30 10 0 0),
       (''updatedAt'', datetime 2023 8 30 10 0 0)],
      [(''enrollmentId'', BNum 20), (''courseId'', BNum 10), (''studentId'', BNum 21),
       (''isActive'', BBool True), (''completionStatus'', BStr ''in_progress''),
       (''trackProgress'', BNum 35),
       (''attendance'', BArr [BDoc [(''lessonId'', BNum 19), (''hasFinished'', BBool True), (''attendedAt'', datetime 2023 9 11 10 0 0)], BDoc [(''lessonId'', BNum 20), (''hasFinished'', BBool False), (''attendedAt'', BDate (clock 20))]]),
       (''completionDate'', BNull), (''createdAt'', datetime 2023 8 30 10 10 0),
       (''updatedAt'', datetime 2023 9 11 10 5 0)],
      [(''enrollmentId'', BNum 21), (''courseId'', BNum 11), (''studentId'', BNum 21),
       (''isActive'', BBool True), (''completionStatus'', BStr ''completed''),
       (''trackProgress'', BNum 100),
       (''attendance'', BArr [BDoc [(''lessonId'', BNum 21), (''hasFinished'', BBool True), (''attendedAt'', datetime 2023 8 31 10 0 0)], BDoc [(''lessonId'', BNum 22), (''hasFinished'', BBool True), (''attendedAt'', datetime 2023 9 2 10 30 0)]]),
       (''completionDate'', datetime 2023 9 3 12 0 0), (''createdAt'', datetime 2023 8 31 12 0 0),
       (''updatedAt'', datetime 2023 9 3 12 5 0)],
      [(''enrollmentId'', BNum 22), (''courseId'', BNum 11), (''studentId'', BNum 22),
       (''isActive'', BBool True), (''completionStatus'', BStr ''in_progress''),
       (''trackProgress'', BNum 40),
       (''attendance'', BArr [BDoc [(''lessonId'', BNum 21), (''hasFinished'', BBool True), (''attendedAt'', datetime 2023 9 12 10 0 0)], BDoc [(''lessonId'', BNum 22), (''hasFinished'', BBool False), (''attendedAt'', BDate (clock 21))]]),
       (''completionDate'', BNull), (''createdAt'', datetime 2023 8 31 12 10 0),
       (''updatedAt'', datetime 2023 9 12 10 5 0)],
      [(''enrollmentId'', BNum 23), (''courseId'', BNum 12), (''studentId'', BNum 23),
       (''isActive'', BBool True), (''completionStatus'', BStr ''not_started''),
       (''trackProgress'', BNum 0),
       (''attendance'', BArr [BDoc [(''lessonId'', BNum 23), (''hasFinished'', BBool False), (''attendedAt'', BDate (clock 22))], BDoc [(''lessonId'', BNum 24), (''hasFinished'', BBool False), (''attendedAt'', BDate (clock 23))]]),
       (''completionDate'', BNull), (''createdAt'', datetime 2023 9 1 11 0 0),
       (''updatedAt'', datetime 2023 9 1 11 0 0)],
      [(''enrollmentId'', BNum 24), (''courseId'', BNum 12), (''studentId'', BNum 24),
       (''isActive'', BBool True), (''completionStatus'', BStr ''in_progress''),
       (''trackProgress'', BNum 50),
       (''attendance'', BArr [BDoc [(''lessonId'', BNum 23), (''hasFinished'', BBool True), (''attendedAt'', datetime 2023 9 13 10 0 0)], BDoc [(''lessonId'', BNum 24), (''hasFinished'', BBool False), (''attendedAt'', BDate (clock 24))]]),
       (''completionDate'', BNull), (''createdAt'', datetime 2023 9 1 11 10 0),
       (''updatedAt'', datetime 2023 9 13 10 5 0)],
      [(''enrollmentId'', BNum 25), (''courseId'', BNum 13), (''studentId'', BNum 25),
       (''isActive'', BBool True), (''completionStatus'', BStr ''completed''),
       (''trackProgress'', BNum 100),
       (''attendance'', BArr [BDoc [(''lessonId'', BNum 25), (''hasFinished'', BBool True), (''attendedAt'', datetime 2023 9 1 10 0 0)], BDoc [(''lessonId'', BNum 26), (''hasFinished'', BBool True), (''attendedAt'', datetime 2023 9 3 10 30 0)]]),
       (''completionDate'', datetime 2023 9 4 12 0 0), (''createdAt'', datetime 2023 9 1 12 0 0),
       (''updatedAt'', datetime 2023 9 4 12 5 0)],
      [(''enrollmentId'', BNum 26), (''courseId'', BNum 13), (''studentId'', BNum 26),
       (''isActive'', BBool True), (''completionStatus'', BStr ''in_progress''),
       (''trackProgress'', BNum 30),
       (''attendance'', BArr [BDoc [(''lessonId'', BNum 25), (''hasFinished'', BBool True), (''attendedAt'', datetime 2023 9 14 10 0 0)], BDoc [(''lessonId'', BNum 26), (''hasFinished'', BBool False), (''attendedAt'', BDate (clock 25))]]),
       (''completionDate'', BNull), (''createdAt'', datetime 2023 9 1 12 10 0),
       (''updatedAt'', datetime 2023 9 14 10 5 0)],
      [(''enrollmentId'', BNum 27), (''courseId'', BNum 14), (''studentId'', BNum 27),
       (''isActive'', BBool True), (''completionStatus'', BStr ''not_started''),
       (''trackProgress'', BNum 0),
       (''attendance'', BArr [BDoc [(''lessonId'', BNum 27), (''hasFinished'', BBool False), (''attendedAt'', BDate (clock 26))], BDoc [(''lessonId'', BNum 28), (''hasFinished'', BBool False), (''attendedAt'', BDate (clock 27))]]),
       (''completionDate'', BNull), (''createdAt'', datetime 2023 9 2 11 0 0),
       (''updatedAt'', datetime 2023 9 2 11 0 0)],
      [(''enrollmentId'', BNum 28), (''courseId'', BNum 14), (''studentId'', BNum 28),
       (''isActive'', BBool True), (''completionStatus'', BStr ''in_progress''),
       (''trackProgress'', BNum 55),
       (''attendance'', BArr [BDoc [(''lessonId'', BNum 27), (''hasFinished'', BBool True), (''attendedAt'', datetime 2023 9 15 10 0 0)], BDoc [(''lessonId'', BNum 28), (''hasFinished'', BBool False), (''attendedAt'', BDate (clock 28))]]),
       (''completionDate'', BNull), (''createdAt'', datetime 2023 9 2 11 10 0),
       (''updatedAt'', datetime 2023 9 15 10 5 0)],
      [(''enrollmentId'', BNum 29), (''courseId'', BNum 15), (''studentId'', BNum 29),
       (''isActive'', BBool True), (''completionStatus'', BStr ''completed''),
       (''trackProgress'', BNum 100),
       (''attendance'', BArr [BDoc [(''lessonId'', BNum 29), (''hasFinished'', BBool True), (''attendedAt'', datetime 2023 9 2 10 0 0)], BDoc [(''lessonId'', BNum 30), (''hasFinished'', BBool True), (''attendedAt'', datetime 2023 9 4 10 30 0)]]),
       (''completionDate'', datetime 2023 9 5 12 0 0), (''createdAt'', datetime 2023 9 2 12 0 0),
       (''updatedAt'', datetime 2023 9 5 12 5 0)],
      [(''enrollmentId'', BNum 30), (''courseId'', BNum 15), (''studentId'', BNum 30),
       (''isActive'', BBool True), (''completionStatus'', BStr ''in_progress''),
       (''trackProgress'', BNum 40),
       (''attendance'', BArr [BDoc [(''lessonId'', BNum 29), (''hasFinished'', BBool True), (''attendedAt'', datetime 2023 9 16 10 0 0)], BDoc [(''lessonId'', BNum 30), (''hasFinished'', BBool False), (''attendedAt'', BDate (clock 29))]]),
       (''completionDate'', BNull), (''createdAt'', datetime 2023 9 2 12 10 0),
       (''updatedAt'', datetime 2023 9 16 10 5 0)],
      [(''enrollmentId'', BNum 31), (''courseId'', BNum 16), (''studentId'', BNum 31),
       (''isActive'', BBool True), (''completionStatus'', BStr ''not_started''),
       (''trackProgress'', BNum 0),
       (''attendance'', BArr [BDoc [(''lessonId'', BNum 31), (''hasFinished'', BBool False), (''attendedAt'', BDate (clock 30))], BDoc [(''lessonId'', BNum 32), (''hasFinished'', BBool False), (''attendedAt'', BDate (clock 31))]]),
       (''completionDate'', BNull), (''createdAt'', datetime 2023 9 3 11 0 0),
       (''updatedAt'', datetime 2023 9 3 11 0 0)],
      [(''enrollmentId'', BNum 32), (''courseId'', BNum 16), (''studentId'', BNum 32),
       (''isActive'', BBool True), (''completionStatus'', BStr ''in_progress''),
       (''trackProgress'', BNum 45),
       (''attendance'', BArr [BDoc [(''lessonId'', BNum 31), (''hasFinished'', BBool True), (''attendedAt'', datetime 2023 9 17 10 0 0)], BDoc [(''lessonId'', BNum 32), (''hasFinished'', BBool False), (''attendedAt'', BDate (clock 32))]]),
       (''completionDate'', BNull), (''createdAt'', datetime 2023 9 3 11 10 0),
       (''updatedAt'', datetime 2023 9 17 10 5 0)]
     ]"

definition lessons_data :: "document list" where
  "lessons_data =
     [
      [(''lessonId'', BNum 1), (''courseId'', BNum 1), (''title'', BStr ''Intro to Python''),
       (''description'', BStr ''Python basics, syntax and setup.''), (''assignmentId'', BNum 1),
       (''isActive'', BBool True), (''createdAt'', datetime 2023 1 1 10 0 0),
       (''updatedAt'', datetime 2023 1 1 10 0 0)],
      [(''lessonId'', BNum 2), (''courseId'', BNum 1),
       (''title'', BStr ''Data Types and Variables''),
       (''description'', BStr ''Understanding Python data types.''), (''assignmentId'', BNum 2),
       (''isActive'', BBool True), (''createdAt'', datetime 2023 1 2 10 0 0),
       (''updatedAt'', datetime 2023 1 2 10 0 0)],
      [(''lessonId'', BNum 3), (''courseId'', BNum 2), (''title'', BStr ''HTML Basics''),
       (''description'', BStr ''Intro to HTML and structure of web pages.''),
       (''assignmentId'', BNum 3), (''isActive'', BBool True),
       (''createdAt'', datetime 2023 1 3 10 0 0), (''updatedAt'', datetime 2023 1 3 10 0 0)],
      [(''lessonId'', BNum 4), (''courseId'', BNum 2), (''title'', BStr ''CSS Basics''),
       (''description'', BStr ''Styling web pages with CSS.''), (''assignmentId'', BNum 4),
       (''isActive'', BBool True), (''createdAt'', datetime 2023 1 4 10 0 0),
       (''updatedAt'', datetime 2023 1 4 10 0 0)],
      [(''lessonId'', BNum 5), (''courseId'', BNum 3),
       (''title'', BStr ''JavaScript Fundamentals''),
       (''description'', BStr ''Variables, functions and events in JS.''),
       (''assignmentId'', BNum 5), (''isActive'', BBool True),
       (''createdAt'', datetime 2023 1 5 10 0 0), (''updatedAt'', datetime 2023 1 5 10 0 0)],
      [(''lessonId'', BNum 6), (''courseId'', BNum 3), (''title'', BStr ''DOM Manipulation''),
       (''description'', BStr ''Selecting and modifying HTML elements.''),
       (''assignmentId'', BNum 6), (''isActive'', BBool True),
       (''createdAt'', datetime 2023 1 6 10 0 0), (''updatedAt'', datetime 2023 1 6 10 0 0)],
      [(''lessonId'', BNum 7), (''courseId'', BNum 4), (''title'', BStr ''SQL Basics''),
       (''description'', BStr ''Introduction to SQL queries.''), (''assignmentId'', BNum 7),
       (''isActive'', BBool True), (''createdAt'', datetime 2023 1 7 10 0 0),
       (''updatedAt'', datetime 2023 1 7 10 0 0)],
      [(''lessonId'', BNum 8), (''courseId'', BNum 4),
       (''title'', BStr ''Joins and Aggregation''),
       (''description'', BStr ''Advanced SQL queries.''), (''assignmentId'', BNum 8),
       (''isActive'', BBool True), (''createdAt'', datetime 2023 1 8 10 0 0),
       (''updatedAt'', datetime 2023 1 8 10 0 0)],
      [(''lessonId'', BNum 9), (''courseId'', BNum 5), (''title'', BStr ''Git Basics''),
       (''description'', BStr ''Version control introduction.''), (''assignmentId'', BNum 9),
       (''isActive'', BBool True), (''createdAt'', datetime 2023 1 9 10 0 0),
       (''updatedAt'', datetime 2023 1 9 10 0 0)],
      [(''lessonId'', BNum 10), (''courseId'', BNum 5), (''title'', BStr ''Git Branching''),
       (''description'', BStr ''Working with branches in Git.''), (''assignmentId'', BNum 10),
       (''isActive'', BBool True), (''createdAt'', datetime 2023 1 10 10 0 0),
       (''updatedAt'', datetime 2023 1 10 10 0 0)],
      [(''lessonId'', BNum 11), (''courseId'', BNum 6), (''title'', BStr ''Docker Introduction''),
       (''description'', BStr ''Containers and Docker basics.''), (''assignmentId'', BNum 11),
       (''isActive'', BBool True), (''createdAt'', datetime 2023 1 11 10 0 0),
       (''updatedAt'', datetime 2023 1 11 10 0 0)],
      [(''lessonId'', BNum 12), (''courseId'', BNum 6), (''title'', BStr ''Docker Compose''),
       (''description'', BStr ''Managing multi-container apps.''), (''assignmentId'', BNum 12),
       (''isActive'', BBool True), (''createdAt'', datetime 2023 1 12 10 0 0),
       (''updatedAt'', datetime 2023 1 12 10 0 0)],
      [(''lessonId'', BNum 13), (''courseId'', BNum 7), (''title'', BStr ''Python OOP''),
       (''description'', BStr ''Object-oriented programming concepts.''),
       (''assignmentId'', BNum 13), (''isActive'', BBool True),
       (''createdAt'', datetime 2023 1 13 10 0 0), (''updatedAt'', datetime 2023 1 13 10 0 0)],
      [(''lessonId'', BNum 14), (''courseId'', BNum 7), (''title'', BStr ''Advanced OOP''),
       (''description'', BStr ''Inheritance, polymorphism, and encapsulation.''),
       (''assignmentId'', BNum 14), (''isActive'', BBool True),
       (''createdAt'', datetime 2023 1 14 10 0 0), (''updatedAt'', datetime 2023 1 14 10 0 0)],
      [(''lessonId'', BNum 15), (''courseId'', BNum 8), (''title'', BStr ''REST APIs Intro''),
       (''description'', BStr ''Building RESTful services.''), (''assignmentId'', BNum 15),
       (''isActive'', BBool True), (''createdAt'', datetime 2023 1 15 10 0 0),
       (''updatedAt'', datetime 2023 1 15 10 0 0)],
      [(''lessonId'', BNum 16), (''courseId'', BNum 8), (''title'', BStr ''API Security''),
       (''description'', BStr ''Authentication and authorization.''), (''assignmentId'', BNum 16),
       (''isActive'', BBool True), (''createdAt'', datetime 2023 1 16 10 0 0),
       (''updatedAt'', datetime 2023 1 16 10 0 0)],
      [(''lessonId'', BNum 17), (''courseId'', BNum 9), (''title'', BStr ''Cloud Basics''),
       (''description'', BStr ''Intro to cloud computing.''), (''assignmentId'', BNum 17),
       (''isActive'', BBool True), (''createdAt'', datetime 2023 1 17 10 0 0),
       (''updatedAt'', datetime 2023 1 17 10 0 0)],
      [(''lessonId'', BNum 18), (''courseId'', BNum 9), (''title'', BStr ''AWS Services''),
       (''description'', BStr ''Core AWS services overview.''), (''assignmentId'', BNum 18),
       (''isActive'', BBool True), (''createdAt'', datetime 2023 1 18 10 0 0),
       (''updatedAt'', datetime 2023 1 18 10 0 0)],
      [(''lessonId'', BNum 19), (''courseId'', BNum 10), (''title'', BStr ''Kubernetes Intro''),
       (''description'', BStr ''Containers orchestration basics.''), (''assignmentId'', BNum 19),
       (''isActive'', BBool True), (''createdAt'', datetime 2023 1 19 10 0 0),
       (''updatedAt'', datetime 2023 1 19 10 0 0)],
      [(''lessonId'', BNum 20), (''courseId'', BNum 10), (''title'', BStr ''K8s Deployments''),
       (''description'', BStr ''Managing deployments in Kubernetes.''),
       (''assignmentId'', BNum 20), (''isActive'', BBool True),
       (''createdAt'', datetime 2023 1 20 10 0 0), (''updatedAt'', datetime 2023 1 20 10 0 0)],
      [(''lessonId'', BNum 21), (''courseId'', BNum 11),
       (''title'', BStr ''Data Analysis Intro''),
       (''description'', BStr ''Analyzing data with Pandas.''), (''assignmentId'', BNum 21),
       (''isActive'', BBool True), (''createdAt'', datetime 2023 1 21 10 0 0),
       (''updatedAt'', datetime 2023 1 21 10 0 0)],
      [(''lessonId'', BNum 22), (''courseId'', BNum 11), (''title'', BStr ''Data Visualization''),
       (''description'', BStr ''Creating charts with matplotlib.''), (''assignmentId'', BNum 22),
       (''isActive'', BBool True), (''createdAt'', datetime 2023 1 22 10 0 0),
       (''updatedAt'', datetime 2023 1 22 10 0 0)],
      [(''lessonId'', BNum 23), (''courseId'', BNum 12),
       (''title'', BStr ''Machine Learning Intro''),
       (''description'', BStr ''Supervised and unsupervised learning.''),
       (''assignmentId'', BNum 23), (''isActive'', BBool True),
       (''createdAt'', datetime 2023 1 23 10 0 0), (''updatedAt'', datetime 2023 1 23 10 0 0)],
      [(''lessonId'', BNum 24), (''courseId'', BNum 12), (''title'', BStr ''ML Algorithms''),
       (''description'', BStr ''Regression, classification, clustering.''),
       (''assignmentId'', BNum 24), (''isActive'', BBool True),
       (''createdAt'', datetime 2023 1 24 10 0 0), (''updatedAt'', datetime 2023 1 24 10 0 0)],
      [(''lessonId'', BNum 25), (''courseId'', BNum 13), (''title'', BStr ''Big Data Overview''),
       (''description'', BStr ''Introduction to Big Data concepts.''),
       (''assignmentId'', BNum 25), (''isActive'', BBool True),
       (''createdAt'', datetime 2023 1 25 10 0 0), (''updatedAt'', datetime 2023 1 25 10 0 0)],
      [(''lessonId'', BNum 26), (''courseId'', BNum 13), (''title'', BStr ''Hadoop Basics''),
       (''description'', BStr ''Hadoop ecosystem and architecture.''),
       (''assignmentId'', BNum 26), (''isActive'', BBool True),
       (''createdAt'', datetime 2023 1 26 10 0 0), (''updatedAt'', datetime 2023 1 26 10 0 0)],
      [(''lessonId'', BNum 27), (''courseId'', BNum 14), (''title'', BStr ''NoSQL Intro''),
       (''description'', BStr ''Key concepts of NoSQL databases.''), (''assignmentId'', BNum 27),
       (''isActive'', BBool True), (''createdAt'', datetime 2023 1 27 10 0 0),
       (''updatedAt'', datetime 2023 1 27 10 0 0)],
      [(''lessonId'', BNum 28), (''courseId'', BNum 14), (''title'', BStr ''MongoDB Basics''),
       (''description'', BStr ''CRUD operations and aggregation.''), (''assignmentId'', BNum 28),
       (''isActive'', BBool True), (''createdAt'', datetime 2023 1 28 10 0 0),
       (''updatedAt'', datetime 2023 1 28 10 0 0)],
      [(''lessonId'', BNum 29), (''courseId'', BNum 15),
       (''title'', BStr ''Python Data Science''),
       (''description'', BStr ''Using Python for data analysis.''), (''assignmentId'', BNum 29),
       (''isActive'', BBool True), (''createdAt'', datetime 2023 1 29 10 0 0),
       (''updatedAt'', datetime 2023 1 29 10 0 0)],
      [(''lessonId'', BNum 30), (''courseId'', BNum 15),
       (''title'', BStr ''Data Science Project''),
       (''description'', BStr ''Hands-on project for data science.''),
       (''assignmentId'', BNum 30), (''isActive'', BBool True),
       (''createdAt'', datetime 2023 1 30 10 0 0), (''updatedAt'', datetime 2023 1 30 10 0 0)],
      [(''lessonId'', BNum 31), (''courseId'', BNum 1), (''title'', BStr ''Python Functions''),
       (''description'', BStr ''Defining and using functions in Python.''),
       (''assignmentId'', BNum 31), (''isActive'', BBool True),
       (''createdAt'', datetime 2023 2 1 10 0 0), (''updatedAt'', datetime 2023 2 1 10 0 0)],
      [(''lessonId'', BNum 32), (''courseId'', BNum 2), (''title'', BStr ''Forms in HTML''),
       (''description'', BStr ''Creating interactive forms.''), (''assignmentId'', BNum 32),
       (''isActive'', BBool True), (''createdAt'', datetime 2023 2 2 10 0 0),
       (''updatedAt'', datetime 2023 2 2 10 0 0)],
      [(''lessonId'', BNum 33), (''courseId'', BNum 3),
       (''title'', BStr ''Events in JavaScript''),
       (''description'', BStr ''Handling user interactions.''), (''assignmentId'', BNum 33),
       (''isActive'', BBool True), (''createdAt'', datetime 2023 2 3 10 0 0),
       (''updatedAt'', datetime 2023 2 3 10 0 0)],
      [(''lessonId'', BNum 34), (''courseId'', BNum 4), (''title'', BStr ''Indexes in SQL''),
       (''description'', BStr ''Creating and using indexes for performance.''),
       (''assignmentId'', BNum 34), (''isActive'', BBool True),
       (''createdAt'', datetime 2023 2 4 10 0 0), (''updatedAt'', datetime 2023 2 4 10 0 0)],
      [(''lessonId'', BNum 35), (''courseId'', BNum 5), (''title'', BStr ''Git Merge Conflicts''),
       (''description'', BStr ''Resolving conflicts in Git.''), (''assignmentId'', BNum 35),
       (''isActive'', BBool True), (''createdAt'', datetime 2023 2 5 10 0 0),
       (''updatedAt'', datetime 2023 2 5 10 0 0)],
      [(''lessonId'', BNum 36), (''courseId'', BNum 6), (''title'', BStr ''Docker Networking''),
       (''description'', BStr ''Managing networks in Docker.''), (''assignmentId'', BNum 36),
       (''isActive'', BBool True), (''createdAt'', datetime 2023 2 6 10 0 0),
       (''updatedAt'', datetime 2023 2 6 10 0 0)],
      [(''lessonId'', BNum 37), (''courseId'', BNum 7), (''title'', BStr ''OOP Design Patterns''),
       (''description'', BStr ''Common patterns in software design.''),
       (''assignmentId'', BNum 37), (''isActive'', BBool True),
       (''createdAt'', datetime 2023 2 7 10 0 0), (''updatedAt'', datetime 2023 2 7 10 0 0)],
      [(''lessonId'', BNum 38), (''courseId'', BNum 8), (''title'', BStr ''API Testing''),
       (''description'', BStr ''Testing REST APIs with Postman.''), (''assignmentId'', BNum 38),
       (''isActive'', BBool True), (''createdAt'', datetime 2023 2 8 10 0 0),
       (''updatedAt'', datetime 2023 2 8 10 0 0)],
      [(''lessonId'', BNum 39), (''courseId'', BNum 9), (''title'', BStr ''Cloud Security''),
       (''description'', BStr ''Best practices for securing cloud services.''),
       (''assignmentId'', BNum 39), (''isActive'', BBool True),
       (''createdAt'', datetime 2023 2 9 10 0 0), (''updatedAt'', datetime 2023 2 9 10 0 0)],
      [(''lessonId'', BNum 40), (''courseId'', BNum 10),
       (''title'', BStr ''Kubernetes Services''),
       (''description'', BStr ''Exposing applications with services.''),
       (''assignmentId'', BNum 40), (''isActive'', BBool True),
       (''createdAt'', datetime 2023 2 10 10 0 0), (''updatedAt'', datetime 2023 2 10 10 0 0)]
     ]"

definition assignments_data :: "document list" where
  "assignments_data =
     [
      [(''assignmentId'', BNum 1), (''lessonId'', BNum 1), (''courseId'', BNum 1),
       (''title'', BStr ''Python Setup Assignment''),
       (''description'', BStr ''Install Python and run your first script.''),
       (''dueDate'', datetime 2023 1 5 23 59 0), (''isActive'', BBool True),
       (''createdAt'', datetime 2023 1 1 10 0 0), (''updatedAt'', datetime 2023 1 1 10 0 0)],
      [(''assignmentId'', BNum 2), (''lessonId'', BNum 2), (''courseId'', BNum 1),
       (''title'', BStr ''Variables and Data Types''),
       (''description'', BStr ''Create variables of different types.''),
       (''dueDate'', datetime 2023 1 6 23 59 0), (''isActive'', BBool True),
       (''createdAt'', datetime 2023 1 2 10 0 0), (''updatedAt'', datetime 2023 1 2 10 0 0)],
      [(''assignmentId'', BNum 3), (''lessonId'', BNum 3), (''courseId'', BNum 2),
       (''title'', BStr ''HTML Structure Assignment''),
       (''description'', BStr ''Build a basic HTML page with headings and paragraphs.''),
       (''dueDate'', datetime 2023 1 7 23 59 0), (''isActive'', BBool True),
       (''createdAt'', datetime 2023 1 3 10 0 0), (''updatedAt'', datetime 2023 1 3 10 0 0)],
      [(''assignmentId'', BNum 4), (''lessonId'', BNum 4), (''courseId'', BNum 2),
       (''title'', BStr ''CSS Styling Assignment''),
       (''description'', BStr ''Style your HTML page using CSS.''),
       (''dueDate'', datetime 2023 1 8 23 59 0), (''isActive'', BBool True),
       (''createdAt'', datetime 2023 1 4 10 0 0), (''updatedAt'', datetime 2023 1 4 10 0 0)],
      [(''assignmentId'', BNum 5), (''lessonId'', BNum 5), (''courseId'', BNum 3),
       (''title'', BStr ''JavaScript Functions''),
       (''description'', BStr ''Write JS functions to handle basic operations.''),
       (''dueDate'', datetime 2023 1 9 23 59 0), (''isActive'', BBool True),
       (''createdAt'', datetime 2023 1 5 10 0 0), (''updatedAt'', datetime 2023 1 5 10 0 0)],
      [(''assignmentId'', BNum 6), (''lessonId'', BNum 6), (''courseId'', BNum 3),
       (''title'', BStr ''DOM Manipulation Task''),
       (''description'', BStr ''Change HTML content using JS DOM methods.''),
       (''dueDate'', datetime 2023 1 10 23 59 0), (''isActive'', BBool True),
       (''createdAt'', datetime 2023 1 6 10 0 0), (''updatedAt'', datetime 2023 1 6 10 0 0)],
      [(''assignmentId'', BNum 7), (''lessonId'', BNum 7), (''courseId'', BNum 4),
       (''title'', BStr ''Basic SQL Queries''),
       (''description'', BStr ''Write SELECT queries to fetch data from tables.''),
       (''dueDate'', datetime 2023 1 11 23 59 0), (''isActive'', BBool True),
       (''createdAt'', datetime 2023 1 7 10 0 0), (''updatedAt'', datetime 2023 1 7 10 0 0)],
      [(''assignmentId'', BNum 8), (''lessonId'', BNum 8), (''courseId'', BNum 4),
       (''title'', BStr ''SQL Joins Assignment''),
       (''description'', BStr ''Use INNER, LEFT, and RIGHT joins on sample tables.''),
       (''dueDate'', datetime 2023 1 12 23 59 0), (''isActive'', BBool True),
       (''createdAt'', datetime 2023 1 8 10 0 0), (''updatedAt'', datetime 2023 1 8 10 0 0)],
      [(''assignmentId'', BNum 9), (''lessonId'', BNum 9), (''courseId'', BNum 5),
       (''title'', BStr ''Git Init and Commit''),
       (''description'', BStr ''Initialize a repo and make your first commits.''),
       (''dueDate'', datetime 2023 1 13 23 59 0), (''isActive'', BBool True),
       (''createdAt'', datetime 2023 1 9 10 0 0), (''updatedAt'', datetime 2023 1 9 10 0 0)],
      [(''assignmentId'', BNum 10), (''lessonId'', BNum 10), (''courseId'', BNum 5),
       (''title'', BStr ''Git Branching Exercise''),
       (''description'', BStr ''Create and merge branches in Git.''),
       (''dueDate'', datetime 2023 1 14 23 59 0), (''isActive'', BBool True),
       (''createdAt'', datetime 2023 1 10 10 0 0), (''updatedAt'', datetime 2023 1 10 10 0 0)],
      [(''assignmentId'', BNum 11), (''lessonId'', BNum 11), (''courseId'', BNum 6),
       (''title'', BStr ''Dockerfile Creation''),
       (''description'', BStr ''Create a Dockerfile and build an image.''),
       (''dueDate'', datetime 2023 1 15 23 59 0), (''isActive'', BBool True),
       (''createdAt'', datetime 2023 1 11 10 0 0), (''updatedAt'', datetime 2023 1 11 10 0 0)],
      [(''assignmentId'', BNum 12), (''lessonId'', BNum 12), (''courseId'', BNum 6),
       (''title'', BStr ''Docker Compose File''),
       (''description'', BStr ''Set up a multi-container application using Docker Compose.''),
       (''dueDate'', datetime 2023 1 16 23 59 0), (''isActive'', BBool True),
       (''createdAt'', datetime 2023 1 12 10 0 0), (''updatedAt'', datetime 2023 1 12 10 0 0)],
      [(''assignmentId'', BNum 13), (''lessonId'', BNum 13), (''courseId'', BNum 7),
       (''title'', BStr ''OOP Class Design''),
       (''description'', BStr ''Design classes using inheritance and encapsulation.''),
       (''dueDate'', datetime 2023 1 17 23 59 0), (''isActive'', BBool True),
       (''createdAt'', datetime 2023 1 13 10 0 0), (''updatedAt'', datetime 2023 1 13 10 0 0)],
      [(''assignmentId'', BNum 14), (''lessonId'', BNum 14), (''courseId'', BNum 7),
       (''title'', BStr ''Polymorphism Exercise''),
       (''description'', BStr ''Implement polymorphism in a small program.''),
       (''dueDate'', datetime 2023 1 18 23 59 0), (''isActive'', BBool True),
       (''createdAt'', datetime 2023 1 14 10 0 0), (''updatedAt'', datetime 2023 1 14 10 0 0)],
      [(''assignmentId'', BNum 15), (''lessonId'', BNum 15), (''courseId'', BNum 8),
       (''title'', BStr ''API REST Assignment''),
       (''description'', BStr ''Build a simple REST API with GET and POST endpoints.''),
       (''dueDate'', datetime 2023 1 19 23 59 0), (''isActive'', BBool True),
       (''createdAt'', datetime 2023 1 15 10 0 0), (''updatedAt'', datetime 2023 1 15 10 0 0)]
     ]"

definition submissions_data :: "document list" where
  "submissions_data =
     [
      [(''submissionId'', BNum 1), (''enrollmentId'', BNum 1), (''assignmentId'', BNum 1),
       (''submittedAt'', datetime 2023 1 5 22 0 0), (''feedback'', BStr ''Good work''),
       (''grade'', BNum 95), (''createdAt'', datetime 2023 1 5 22 10 0),
       (''updatedAt'', datetime 2023 1 5 22 10 0)],
      [(''submissionId'', BNum 2), (''enrollmentId'', BNum 2), (''assignmentId'', BNum 1),
       (''submittedAt'', datetime 2023 1 5 21 30 0), (''feedback'', BStr ''Well done''),
       (''grade'', BNum 90), (''createdAt'', datetime 2023 1 5 21 35 0),
       (''updatedAt'', datetime 2023 1 5 21 35 0)],
      [(''submissionId'', BNum 3), (''enrollmentId'', BNum 1), (''assignmentId'', BNum 2),
       (''submittedAt'', datetime 2023 1 6 23 0 0), (''feedback'', BStr ''Excellent''),
       (''grade'', BNum 98), (''createdAt'', datetime 2023 1 6 23 5 0),
       (''updatedAt'', datetime 2023 1 6 23 5 0)],
      [(''submissionId'', BNum 4), (''enrollmentId'', BNum 3), (''assignmentId'', BNum 3),
       (''submittedAt'', datetime 2023 1 7 20 30 0), (''feedback'', BStr ''Good start''),
       (''grade'', BNum 88), (''createdAt'', datetime 2023 1 7 20 35 0),
       (''updatedAt'', datetime 2023 1 7 20 35 0)],
      [(''submissionId'', BNum 5), (''enrollmentId'', BNum 2), (''assignmentId'', BNum 2),
       (''submittedAt'', datetime 2023 1 6 22 45 0), (''feedback'', BStr ''Nice work''),
       (''grade'', BNum 92), (''createdAt'', datetime 2023 1 6 22 50 0),
       (''updatedAt'', datetime 2023 1 6 22 50 0)],
      [(''submissionId'', BNum 6), (''enrollmentId'', BNum 4), (''assignmentId'', BNum 4),
       (''submittedAt'', datetime 2023 1 8 19 0 0), (''feedback'', BStr ''Check styling''),
       (''grade'', BNum 85), (''createdAt'', datetime 2023 1 8 19 5 0),
       (''updatedAt'', datetime 2023 1 8 19 5 0)],
      [(''submissionId'', BNum 7), (''enrollmentId'', BNum 1), (''assignmentId'', BNum 3),
       (''submittedAt'', datetime 2023 1 7 21 0 0), (''feedback'', BStr ''Good''),
       (''grade'', BNum 90), (''createdAt'', datetime 2023 1 7 21 5 0),
       (''updatedAt'', datetime 2023 1 7 21 5 0)],
      [(''submissionId'', BNum 8), (''enrollmentId'', BNum 5), (''assignmentId'', BNum 5),
       (''submittedAt'', datetime 2023 1 9 22 15 0), (''feedback'', BStr ''Well implemented''),
       (''grade'', BNum 93), (''createdAt'', datetime 2023 1 9 22 20 0),
       (''updatedAt'', datetime 2023 1 9 22 20 0)],
      [(''submissionId'', BNum 9), (''enrollmentId'', BNum 3), (''assignmentId'', BNum 4),
       (''submittedAt'', datetime 2023 1 8 21 30 0), (''feedback'', BStr ''Good CSS''),
       (''grade'', BNum 89), (''createdAt'', datetime 2023 1 8 21 35 0),
       (''updatedAt'', datetime 2023 1 8 21 35 0)],
      [(''submissionId'', BNum 10), (''enrollmentId'', BNum 6), (''assignmentId'', BNum 6),
       (''submittedAt'', datetime 2023 1 10 20 45 0), (''feedback'', BStr ''Excellent''),
       (''grade'', BNum 97), (''createdAt'', datetime 2023 1 10 20 50 0),
       (''updatedAt'', datetime 2023 1 10 20 50 0)],
      [(''submissionId'', BNum 11), (''enrollmentId'', BNum 4), (''assignmentId'', BNum 5),
       (''submittedAt'', datetime 2023 1 9 21 0 0), (''feedback'', BStr ''Nice logic''),
       (''grade'', BNum 91), (''createdAt'', datetime 2023 1 9 21 5 0),
       (''updatedAt'', datetime 2023 1 9 21 5 0)],
      [(''submissionId'', BNum 12), (''enrollmentId'', BNum 2), (''assignmentId'', BNum 6),
       (''submittedAt'', datetime 2023 1 10 22 0 0), (''feedback'', BStr ''Well done''),
       (''grade'', BNum 94), (''createdAt'', datetime 2023 1 10 22 5 0),
       (''updatedAt'', datetime 2023 1 10 22 5 0)],
      [(''submissionId'', BNum 13), (''enrollmentId'', BNum 1), (''assignmentId'', BNum 7),
       (''submittedAt'', datetime 2023 1 11 20 0 0), (''feedback'', BStr ''SQL queries fine''),
       (''grade'', BNum 96), (''createdAt'', datetime 2023 1 11 20 5 0),
       (''updatedAt'', datetime 2023 1 11 20 5 0)],
      [(''submissionId'', BNum 14), (''enrollmentId'', BNum 5), (''assignmentId'', BNum 7),
       (''submittedAt'', datetime 2023 1 11 21 15 0), (''feedback'', BStr ''Great work''),
       (''grade'', BNum 95), (''createdAt'', datetime 2023 1 11 21 20 0),
       (''updatedAt'', datetime 2023 1 11 21 20 0)],
      [(''submissionId'', BNum 15), (''enrollmentId'', BNum 6), (''assignmentId'', BNum 8),
       (''submittedAt'', datetime 2023 1 12 20 30 0), (''feedback'', BStr ''Correct joins''),
       (''grade'', BNum 92), (''createdAt'', datetime 2023 1 12 20 35 0),
       (''updatedAt'', datetime 2023 1 12 20 35 0)],
      [(''submissionId'', BNum 16), (''enrollmentId'', BNum 3), (''assignmentId'', BNum 8),
       (''submittedAt'', datetime 2023 1 12 19 50 0), (''feedback'', BStr ''Well done''),
       (''grade'', BNum 90), (''createdAt'', datetime 2023 1 12 19 55 0),
       (''updatedAt'', datetime 2023 1 12 19 55 0)],
      [(''submissionId'', BNum 17), (''enrollmentId'', BNum 4), (''assignmentId'', BNum 9),
       (''submittedAt'', datetime 2023 1 13 22 0 0), (''feedback'', BStr ''Good repo setup''),
       (''grade'', BNum 94), (''createdAt'', datetime 2023 1 13 22 5 0),
       (''updatedAt'', datetime 2023 1 13 22 5 0)],
      [(''submissionId'', BNum 18), (''enrollmentId'', BNum 5), (''assignmentId'', BNum 10),
       (''submittedAt'', datetime 2023 1 14 20 30 0), (''feedback'', BStr ''Branches correct''),
       (''grade'', BNum 93), (''createdAt'', datetime 2023 1 14 20 35 0),
       (''updatedAt'', datetime 2023 1 14 20 35 0)],
      [(''submissionId'', BNum 19), (''enrollmentId'', BNum 1), (''assignmentId'', BNum 11),
       (''submittedAt'', datetime 2023 1 15 21 0 0), (''feedback'', BStr ''Dockerfile ok''),
       (''grade'', BNum 95), (''createdAt'', datetime 2023 1 15 21 5 0),
       (''updatedAt'', datetime 2023 1 15 21 5 0)],
      [(''submissionId'', BNum 20), (''enrollmentId'', BNum 6), (''assignmentId'', BNum 12),
       (''submittedAt'', datetime 2023 1 16 22 0 0), (''feedback'', BStr ''Compose setup fine''),
       (''grade'', BNum 96), (''createdAt'', datetime 2023 1 16 22 5 0),
       (''updatedAt'', datetime 2023 1 16 22 5 0)]
     ]"

text \<open>The seeding calls of the script ("Task 2.1: Insert Sample Data"), with their results.\<close>

definition seed :: "(nat \<Rightarrow> int) \<Rightarrow> database \<Rightarrow> (exc + bson list) list \<times> database" where
  "seed clock db =
     (case create_documents db ''user'' users_data ''userId'' of (r1, db) \<Rightarrow>
      case create_documents db ''course'' courses_data ''courseId'' of (r2, db) \<Rightarrow>
      case create_documents db ''enrollment'' (enrollments_data clock) ''enrollmentId'' of (r3, db) \<Rightarrow>
      case create_documents db ''lesson'' lessons_data ''lessonId'' of (r4, db) \<Rightarrow>
      case create_documents db ''assignment'' assignments_data ''assignmentId'' of (r5, db) \<Rightarrow>
      case create_documents db ''submission'' submissions_data ''submissionId'' of (r6, db) \<Rightarrow>
        ([r1, r2, r3, r4, r5, r6], db))"

text \<open>The seeding calls as pairs of collection and list, in the order of the script.\<close>

definition seeds :: "(nat \<Rightarrow> int) \<Rightarrow> (string \<times> document list) list" where
  "seeds clock =
     [(''user'', users_data), (''course'', courses_data), (''enrollment'', enrollments_data clock),
      (''lesson'', lessons_data), (''assignment'', assignments_data),
      (''submission'', submissions_data)]"

section \<open>Vocabulary of the properties\<close>

text \<open>The documents that a filter matches; a filter that the server rejects matches none.\<close>

definition matches :: "query \<Rightarrow> document \<Rightarrow> bool" where
  "matches q d = (case q of None \<Rightarrow> False | Some p \<Rightarrow> p d)"

text \<open>No two documents of the list have the same values in the fields \<open>keys\<close>.\<close>

definition uniq :: "string list \<Rightarrow> document list \<Rightarrow> bool" where
  "uniq keys ds = distinct (map (index_key keys) ds)"

text \<open>
  No two documents of a collection share the values of \<open>keys\<close>; the collection has the unique
  index on \<open>keys\<close>; both.
\<close>

definition unique_on :: "database \<Rightarrow> string \<Rightarrow> string list \<Rightarrow> bool" where
  "unique_on db c keys = distinct (map (index_key keys) (docs (get_coll db c)))"

definition has_unique_index :: "database \<Rightarrow> string \<Rightarrow> string list \<Rightarrow> bool" where
  "has_unique_index db c keys = (keys \<in> set (unique_indexes (get_coll db c)))"

definition enforced :: "database \<Rightarrow> string \<Rightarrow> string list \<Rightarrow> bool" where
  "enforced db c keys = (has_unique_index db c keys \<and> unique_on db c keys)"

text \<open>
  The collection did not exist before the call and exists after it, empty, with the validator
  of the schema; nothing else changed.
\<close>

definition newly_created :: "database \<Rightarrow> database \<Rightarrow> string \<Rightarrow> schema \<Rightarrow> bool" where
  "newly_created db db' c sch =
     (case sch of
        None \<Rightarrow> False
      | Some p \<Rightarrow> colls db c = None \<and>
                  db' = put_coll db c \<lparr>docs = [], validator = Some p, unique_indexes = []\<rparr>)"

text \<open>The documents are in non-increasing order of the field \<open>f\<close>.\<close>

definition descending :: "string \<Rightarrow> document list \<Rightarrow> bool" where
  "descending f ds = sorted_wrt (\<lambda>a b. bson_le (field_or_null f b) (field_or_null f a)) ds"

text \<open>The arithmetic mean of a list of numbers, and the number that a value is.\<close>

definition mean :: "rat list \<Rightarrow> rat" where
  "mean xs = sum_list xs / of_nat (length xs)"

fun number_of :: "bson \<Rightarrow> rat" where
  "number_of (BNum r) = r"
| "number_of v = 0"

definition is_number :: "bson \<Rightarrow> bool" where
  "is_number v = (case v of BNum r \<Rightarrow> True | _ \<Rightarrow> False)"

text \<open>The course documents of a category, and their review rates.\<close>

definition in_category :: "database \<Rightarrow> bson \<Rightarrow> document list" where
  "in_category db k = filter (\<lambda>d. field_or_null ''category'' d = k) (docs (get_coll db ''course''))"

definition review_rates :: "database \<Rightarrow> bson \<Rightarrow> bson list" where
  "review_rates db k = map (field_or_null ''reviewRate'') (in_category db k)"

text \<open>
  A submission is joined to an enrollment when the \<open>enrollmentId\<close> of the enrollment matches
  that of the submission, by the equality match of the server. The students with a joined
  submission, and the grades of the submissions joined to the enrollments of a student.
\<close>

definition joined :: "(bson \<Rightarrow> bson \<Rightarrow> bool) \<Rightarrow> document \<Rightarrow> document \<Rightarrow> bool" where
  "joined match e s = match (field_or_null ''enrollmentId'' e) (field_or_null ''enrollmentId'' s)"

definition students_with_submission :: "(bson \<Rightarrow> bson \<Rightarrow> bool) \<Rightarrow> database \<Rightarrow> bson set" where
  "students_with_submission match db =
     {field_or_null ''studentId'' e | e.
        e \<in> set (docs (get_coll db ''enrollment'')) \<and>
        (\<exists>s \<in> set (docs (get_coll db ''submission'')). joined match e s)}"

definition grades_of :: "(bson \<Rightarrow> bson \<Rightarrow> bool) \<Rightarrow> database \<Rightarrow> bson \<Rightarrow> bson list" where
  "grades_of match db k =
     concat (map (\<lambda>e. map (field_or_null ''grade'')
                        (filter (joined match e) (docs (get_coll db ''submission''))))
       (filter (\<lambda>e. field_or_null ''studentId'' e = k) (docs (get_coll db ''enrollment''))))"

text \<open>The documents that reach the \<open>$group\<close> stage of the student-performance pipeline.\<close>

definition unwound :: "(bson \<Rightarrow> bson \<Rightarrow> bool) \<Rightarrow> database \<Rightarrow> document list" where
  "unwound match db =
     concat (map (unwind_doc ''submissions'')
       (lookup_stage match (docs (get_coll db ''submission'')) ''enrollmentId'' ''enrollmentId''
          ''submissions'' (docs (get_coll db ''enrollment''))))"

text \<open>The documents of a list as they are stored when the client numbers them from \<open>n\<close>.\<close>

definition with_ids :: "nat \<Rightarrow> document list \<Rightarrow> document list" where
  "with_ids n ds = map (\<lambda>(i, d). (''_id'', BOid i) # d) (zip [n..<n + length ds] ds)"

section \<open>Concrete databases\<close>

text \<open>A database without collections, and what the index section of the script makes of it.\<close>

definition empty_db :: database where
  "empty_db = \<lparr>colls = Map.empty, next_oid = 0\<rparr>"

definition indexed_db :: database where
  "indexed_db = (case create_indexes empty_db of Inl e \<Rightarrow> empty_db | Inr db \<Rightarrow> db)"

text \<open>A small database: two active users, under the unique index on \<open>userId\<close>.\<close>

definition demo_db :: database where
  "demo_db =
     \<lparr>colls =
        [''user'' \<mapsto>
           \<lparr>docs = [[(''_id'', BOid 0), (''userId'', BNum 1), (''isActive'', BBool True)],
                    [(''_id'', BOid 1), (''userId'', BNum 2), (''isActive'', BBool True)]],
            validator = None, unique_indexes = [[''userId'']]\<rparr>],
      next_oid = 2\<rparr>"

text \<open>The filter \<open>{}\<close> and the update \<open>{"$set": {"isActive": True}}\<close>.\<close>

definition every_document :: query where
  "every_document = Some (\<lambda>d. True)"

definition set_active :: update where
  "set_active = Some (set_field ''isActive'' (BBool True))"

text \<open>
  Two calls on the indexed database: a user is created, then \<open>{"$set": {"userId": 7}}\<close>
  is applied to every user.
\<close>

definition two_calls :: "helper_call list" where
  "two_calls =
     [CreateDocument ''user'' [(''userId'', BNum 1)],
      UpdateDocument ''user'' every_document (Some (set_field ''userId'' (BNum 7)))]"

text \<open>
  A collection whose validator requires the field \<open>email\<close> and that holds a document without
  it (stored before the validator was set, or with validation bypassed).
\<close>

definition legacy_user :: document where
  "legacy_user = [(''_id'', BOid 0), (''userId'', BNum 1), (''isActive'', BBool True)]"

definition legacy_db :: database where
  "legacy_db =
     \<lparr>colls = [''user'' \<mapsto>
        \<lparr>docs = [legacy_user], validator = Some (has_field ''email''), unique_indexes = []\<rparr>],
      next_oid = 1\<rparr>"

text \<open>The filter \<open>{"userId": 1}\<close>.\<close>

definition user_1 :: query where
  "user_1 = Some (\<lambda>d. field_or_null ''userId'' d = BNum 1)"

text \<open>
  A database with keys that are arrays: a user whose \<open>userId\<close> is \<open>[1]\<close> before the user 50,
  and an enrollment whose \<open>enrollmentId\<close> is \<open>[1, 2]\<close> with three submissions, of the
  enrollments 1, \<open>[1, 2]\<close> and 3.
\<close>

definition array_keys_db :: database where
  "array_keys_db =
     \<lparr>colls =
        [''user'' \<mapsto>
           \<lparr>docs = [[(''_id'', BOid 0), (''userId'', BArr [BNum 1])],
                    [(''_id'', BOid 1), (''userId'', BNum 50)]],
            validator = None, unique_indexes = []\<rparr>,
         ''enrollment'' \<mapsto>
           \<lparr>docs = [[(''_id'', BOid 2), (''enrollmentId'', BArr [BNum 1, BNum 2]),
                     (''studentId'', BNum 1)]],
            validator = None, unique_indexes = []\<rparr>,
         ''submission'' \<mapsto>
           \<lparr>docs = [[(''_id'', BOid 3), (''enrollmentId'', BNum 1), (''grade'', BNum 50)],
                    [(''_id'', BOid 4), (''enrollmentId'', BArr [BNum 1, BNum 2]), (''grade'', BNum 90)],
                    [(''_id'', BOid 5), (''enrollmentId'', BNum 3), (''grade'', BNum 10)]],
            validator = None, unique_indexes = []\<rparr>],
      next_oid = 6\<rparr>"

text \<open>The database that the seeding calls leave when they run on \<open>indexed_db\<close>.\<close>

definition seeded_db :: database where
  "seeded_db = snd (seed (\<lambda>k. 0) indexed_db)"

section \<open>Lemmas\<close>

lemma try_except_Exception [simp]:
  "try_except except_Exception s r = Inr (case r of Inl e \<Rightarrow> s | Inr v \<Rightarrow> v)"
  by (cases r) (simp_all add: except_Exception_def)

lemma helpers_never_raise:
  "get_next_id find_one_sorted db c f \<noteq> Inl e"
  "read_document db c q \<noteq> Inl e"
  "fst (create_collection_with_schema db c sch) \<noteq> Inl e"
  "fst (create_document db c d) \<noteq> Inl e"
  "fst (create_documents db c ds f) \<noteq> Inl e"
  "fst (update_document db c q u) \<noteq> Inl e"
  "fst (delete_document now db c q) \<noteq> Inl e"
  by (simp_all add: get_next_id_def read_document_def create_collection_with_schema_def
      create_document_def create_documents_def update_document_def delete_document_def
      split: prod.splits)

lemma update_docs_shape:
  "update_docs c q u before ds = (r, out) \<Longrightarrow>
   \<exists>ds'. out = before @ ds' \<and> list_all2 (\<lambda>d d'. d' = d \<or> (q d \<and> d' = u d)) ds ds'"
proof (induction ds arbitrary: before r out)
  case Nil
  then show ?case by simp
next
  case (Cons d ds)
  show ?case
  proof (cases "update_docs c q u (before @ [d]) ds")
    case p1: (Pair r1 out1)
    from Cons.IH[OF p1] obtain ds1 where o1: "out1 = (before @ [d]) @ ds1"
      and l1: "list_all2 (\<lambda>d d'. d' = d \<or> (q d \<and> d' = u d)) ds ds1" by blast
    show ?thesis
    proof (cases "update_docs c q u (before @ [u d]) ds")
      case p2: (Pair r2 out2)
      from Cons.IH[OF p2] obtain ds2 where o2: "out2 = (before @ [u d]) @ ds2"
        and l2: "list_all2 (\<lambda>d d'. d' = d \<or> (q d \<and> d' = u d)) ds ds2" by blast
      have refl: "list_all2 (\<lambda>d d'. d' = d \<or> (q d \<and> d' = u d)) ds ds"
        by (simp add: list_all2_same)
      from Cons.prems p1 p2 o1 o2 l1 l2 refl show ?thesis
        by (auto split: if_splits sum.splits prod.splits simp: list_all2_Cons1)
    qed
  qed
qed

lemma update_docs_success:
  "update_docs c q u before ds = (Inr (m, n), out) \<Longrightarrow>
   out = before @ map (\<lambda>d. if q d then u d else d) ds \<and>
   m = length (filter q ds) \<and>
   n = length (filter (\<lambda>d. q d \<and> u d \<noteq> d) ds)"
proof (induction ds arbitrary: before m n out)
  case Nil
  then show ?case by simp
next
  case (Cons d ds)
  from Cons.prems show ?case
    by (auto split: if_splits sum.splits prod.splits dest!: Cons.IH)
qed

lemma key_taken_iff:
  "key_taken ixs others d \<longleftrightarrow> (\<exists>keys \<in> set ixs. index_key keys d \<in> index_key keys ` set others)"
  by (auto simp: key_taken_def list_ex_iff)

lemma update_docs_uniq:
  "update_docs c q u before ds = (r, out) \<Longrightarrow> keys \<in> set (all_unique c) \<Longrightarrow>
   uniq keys (before @ ds) \<Longrightarrow> uniq keys out"
proof (induction ds arbitrary: before r out)
  case Nil
  then show ?case by simp
next
  case (Cons d ds)
  have same: "uniq keys ((before @ [d]) @ ds)" using Cons.prems(3) by simp
  show ?case
  proof (cases "q d \<and> u d \<noteq> d \<and> map_of (u d) ''_id'' = map_of d ''_id'' \<and> passes c (u d)
                 \<and> \<not> key_taken (moved_keys (all_unique c) d (u d)) (before @ ds) (u d)")
    case False
    with Cons.prems same show ?thesis
      by (auto split: if_splits sum.splits prod.splits dest: Cons.IH)
  next
    case True
    have new: "uniq keys ((before @ [u d]) @ ds)"
    proof (cases "index_key keys (u d) = index_key keys d")
      case True
      with Cons.prems(3) show ?thesis by (simp add: uniq_def)
    next
      case False
      with Cons.prems(2) have "keys \<in> set (moved_keys (all_unique c) d (u d))"
        by (simp add: moved_keys_def)
      with True have "index_key keys (u d) \<notin> index_key keys ` set (before @ ds)"
        by (auto simp: key_taken_iff)
      with Cons.prems(3) show ?thesis by (auto simp: uniq_def)
    qed
    from True Cons.prems(1) obtain r2 where "update_docs c q u (before @ [u d]) ds = (r2, out)"
      by (auto split: if_splits sum.splits prod.splits)
    from Cons.IH[OF this Cons.prems(2) new] show ?thesis .
  qed
qed

lemma server_insert_uniq:
  "server_insert c d = Inr c' \<Longrightarrow> keys \<in> set (all_unique c) \<Longrightarrow> uniq keys (docs c) \<Longrightarrow>
   uniq keys (docs c')"
  by (auto simp: server_insert_def key_taken_iff uniq_def split: if_splits)

lemma server_insert_frame:
  "server_insert c d = Inr c' \<Longrightarrow> validator c' = validator c \<and> unique_indexes c' = unique_indexes c"
  by (auto simp: server_insert_def split: if_splits)

lemma insert_all_uniq:
  "insert_all c ds = (r, c') \<Longrightarrow> keys \<in> set (all_unique c) \<Longrightarrow> uniq keys (docs c) \<Longrightarrow>
   uniq keys (docs c') \<and> validator c' = validator c \<and> unique_indexes c' = unique_indexes c"
proof (induction ds arbitrary: c)
  case Nil
  then show ?case by simp
next
  case (Cons d ds)
  show ?case
  proof (cases "server_insert c d")
    case (Inl e)
    with Cons.prems show ?thesis by simp
  next
    case (Inr c1)
    with Cons.prems(1) have rest: "insert_all c1 ds = (r, c')" by simp
    from server_insert_frame[OF Inr] Cons.prems(2) have k1: "keys \<in> set (all_unique c1)"
      by (simp add: all_unique_def)
    from Cons.IH[OF rest k1 server_insert_uniq[OF Inr Cons.prems(2,3)]] server_insert_frame[OF Inr]
    show ?thesis by simp
  qed
qed

lemma get_coll_put_coll [simp]:
  "get_coll (put_coll db c' x) c = (if c = c' then x else get_coll db c)"
  by (simp add: get_coll_def put_coll_def)

lemma colls_put_coll [simp]:
  "colls (put_coll db c' x) c = (if c = c' then Some x else colls db c)"
  by (simp add: put_coll_def)

lemma next_oid_put_coll [simp]: "next_oid (put_coll db c x) = next_oid db"
  by (simp add: put_coll_def)

lemma get_coll_next_oid [simp]: "get_coll (db\<lparr>next_oid := n\<rparr>) c = get_coll db c"
  by (simp add: get_coll_def)

lemma enforcedI:
  "keys \<in> set (unique_indexes k) \<Longrightarrow> uniq keys (docs k) \<Longrightarrow> get_coll db c = k \<Longrightarrow> enforced db c keys"
  by (simp add: enforced_def has_unique_index_def unique_on_def uniq_def)

lemma enforced_next_oid [simp]: "enforced (db\<lparr>next_oid := n\<rparr>) c keys = enforced db c keys"
  by (simp add: enforced_def has_unique_index_def unique_on_def)

lemma enforced_update_many:
  assumes "enforced db c keys"
  shows "enforced (snd (update_many db c' fq ud)) c keys"
proof (cases "\<exists>q u. fq = Some q \<and> ud = Some u")
  case False
  then have "snd (update_many db c' fq ud) = db"
    by (auto simp: update_many_def split: option.splits)
  with assms show ?thesis by simp
next
  case True
  then obtain q u where fq: "fq = Some q" and ud: "ud = Some u" by blast
  obtain r ds where ud_eq: "update_docs (get_coll db c') q u [] (docs (get_coll db c')) = (r, ds)"
    by (cases "update_docs (get_coll db c') q u [] (docs (get_coll db c'))")
  show ?thesis
  proof (cases "c = c' \<and> ds \<noteq> docs (get_coll db c')")
    case False
    with assms fq ud ud_eq show ?thesis
      by (auto simp: update_many_def Let_def enforced_def has_unique_index_def unique_on_def)
  next
    case True
    from assms have k: "keys \<in> set (all_unique (get_coll db c))"
      and u0: "uniq keys ([] @ docs (get_coll db c))"
      by (simp_all add: enforced_def has_unique_index_def unique_on_def all_unique_def uniq_def)
    from update_docs_uniq[OF _ k u0, of q u r ds] ud_eq True have "uniq keys ds" by simp
    with assms fq ud ud_eq True show ?thesis
      by (auto simp: update_many_def Let_def enforced_def has_unique_index_def unique_on_def uniq_def)
  qed
qed

lemma snd_update_document [simp]:
  "snd (update_document db c fq ud) = snd (update_many db c fq ud)"
  by (simp add: update_document_def split: prod.splits)

lemma snd_delete_document [simp]:
  "snd (delete_document now db c fq) = snd (update_many db c fq (Some (soft_delete now)))"
  by (simp add: delete_document_def split: prod.splits)

lemma snd_create_document [simp]:
  "snd (create_document db c d) = snd (insert_one db c d)"
  by (simp add: create_document_def split: prod.splits)

lemma snd_create_documents [simp]:
  "snd (create_documents db c ds f) = snd (insert_many db c ds)"
  by (simp add: create_documents_def split: prod.splits)

lemma enforced_insert_one:
  assumes "enforced db c keys"
  shows "enforced (snd (insert_one db c' d)) c keys"
proof -
  obtain d1 n where e: "ensure_id (next_oid db) d = (d1, n)"
    by (cases "ensure_id (next_oid db) d")
  show ?thesis
  proof (cases "server_insert (get_coll db c') d1")
    case (Inl x)
    with e assms show ?thesis by (simp add: insert_one_def)
  next
    case (Inr k)
    show ?thesis
    proof (cases "c = c'")
      case False
      with Inr e assms show ?thesis
        by (simp add: insert_one_def enforced_def has_unique_index_def unique_on_def)
    next
      case True
      from assms True have k1: "keys \<in> set (all_unique (get_coll db c'))"
        and u0: "uniq keys (docs (get_coll db c'))"
        by (simp_all add: enforced_def has_unique_index_def unique_on_def all_unique_def uniq_def)
      from server_insert_uniq[OF Inr k1 u0] server_insert_frame[OF Inr] assms True Inr e
      show ?thesis
        by (simp add: insert_one_def enforced_def has_unique_index_def unique_on_def uniq_def)
    qed
  qed
qed

lemma enforced_insert_many:
  assumes "enforced db c keys"
  shows "enforced (snd (insert_many db c' ds)) c keys"
proof (cases "ds = []")
  case True
  with assms show ?thesis by (simp add: insert_many_def)
next
  case False
  obtain ds1 n where e: "ensure_ids (next_oid db) ds = (ds1, n)"
    by (cases "ensure_ids (next_oid db) ds")
  obtain r k where ia: "insert_all (get_coll db c') ds1 = (r, k)"
    by (cases "insert_all (get_coll db c') ds1")
  show ?thesis
  proof (cases "c = c'")
    case ne: False
    with False e ia assms show ?thesis
      by (cases r) (simp_all add: insert_many_def enforced_def has_unique_index_def unique_on_def)
  next
    case True
    from assms True have k1: "keys \<in> set (all_unique (get_coll db c'))"
      and u0: "uniq keys (docs (get_coll db c'))"
      by (simp_all add: enforced_def has_unique_index_def unique_on_def all_unique_def uniq_def)
    from insert_all_uniq[OF ia k1 u0] assms True False e ia
    show ?thesis
      by (cases r) (simp_all add: insert_many_def enforced_def has_unique_index_def unique_on_def uniq_def)
  qed
qed

lemma enforced_call: "enforced db c keys \<Longrightarrow> enforced (call db h) c keys"
  by (cases h) (simp_all add: enforced_update_many enforced_insert_one enforced_insert_many)

lemma enforced_calls: "enforced db c keys \<Longrightarrow> enforced (calls db hs) c keys"
  unfolding calls_def by (induction hs arbitrary: db) (simp_all add: enforced_call)

lemma enforced_create_unique_index:
  "create_unique_index db c' keys' = Inr db' \<Longrightarrow>
   enforced db' c' keys' \<and> (enforced db c keys \<longrightarrow> enforced db' c keys)"
  by (auto simp: create_unique_index_def Let_def enforced_def has_unique_index_def unique_on_def
           split: if_splits)

lemma and_then_Inr: "and_then r f = Inr y \<longleftrightarrow> (\<exists>x. r = Inr x \<and> f x = Inr y)"
  by (cases r) simp_all

lemma create_indexes_enforced:
  assumes "create_indexes db = Inr db1"
  shows "enforced db1 ''user'' [''userId''] \<and>
         enforced db1 ''enrollment'' [''enrollmentId''] \<and>
         enforced db1 ''enrollment'' [''courseId'', ''studentId''] \<and>
         enforced db1 ''lesson'' [''lessonId''] \<and>
         enforced db1 ''assignment'' [''assignmentId''] \<and>
         enforced db1 ''submission'' [''submissionId'']"
proof -
  from assms obtain a b c d e where
    1: "create_unique_index db ''user'' [''userId''] = Inr a" and
    2: "create_unique_index a ''enrollment'' [''enrollmentId''] = Inr b" and
    3: "create_unique_index b ''enrollment'' [''courseId'', ''studentId''] = Inr c" and
    4: "create_unique_index c ''lesson'' [''lessonId''] = Inr d" and
    5: "create_unique_index d ''assignment'' [''assignmentId''] = Inr e" and
    6: "create_unique_index e ''submission'' [''submissionId''] = Inr db1"
    unfolding create_indexes_def and_then_Inr by blast
  note s = enforced_create_unique_index
  show ?thesis
    using s[OF 1] s[OF 2] s[OF 3] s[OF 4] s[OF 5] s[OF 6] by blast
qed

lemma update_docs_noop:
  "(\<forall>d \<in> set ds. q d \<longrightarrow> u d = d) \<Longrightarrow>
   update_docs c q u before ds = (Inr (length (filter q ds), 0), before @ ds)"
  by (induction ds arbitrary: before) auto

lemma map_of_soft_delete:
  "map_of (soft_delete now d) f =
     (if f = ''updatedAt'' then Some (BDate now)
      else if f = ''isActive'' then Some (BBool False) else map_of d f)"
  by (simp add: soft_delete_def set_field_def update_conv')

lemma update_many_frame:
  assumes "update_many db c fq ud = (r, db')"
  shows "next_oid db' = next_oid db \<and> (\<forall>c'. c' \<noteq> c \<longrightarrow> colls db' c' = colls db c') \<and>
         validator (get_coll db' c) = validator (get_coll db c) \<and>
         unique_indexes (get_coll db' c) = unique_indexes (get_coll db c) \<and>
         (\<exists>u. ud = Some u \<and> list_all2 (\<lambda>d d'. d' = d \<or> (matches fq d \<and> d' = u d))
             (docs (get_coll db c)) (docs (get_coll db' c))
          \<or> db' = db)"
proof (cases "\<exists>q u. fq = Some q \<and> ud = Some u")
  case False
  with assms have "db' = db" by (auto simp: update_many_def split: option.splits)
  then show ?thesis by simp
next
  case True
  then obtain q u where fq: "fq = Some q" and ud: "ud = Some u" by blast
  obtain r1 ds where e: "update_docs (get_coll db c) q u [] (docs (get_coll db c)) = (r1, ds)"
    by (cases "update_docs (get_coll db c) q u [] (docs (get_coll db c))")
  from update_docs_shape[OF e]
  have l: "list_all2 (\<lambda>d d'. d' = d \<or> (q d \<and> d' = u d)) (docs (get_coll db c)) ds" by simp
  from assms fq ud e have db': "db' = (if ds = docs (get_coll db c) then db
      else put_coll db c ((get_coll db c)\<lparr>docs := ds\<rparr>))"
    by (simp add: update_many_def Let_def)
  show ?thesis
  proof (cases "ds = docs (get_coll db c)")
    case True
    with db' show ?thesis by simp
  next
    case False
    with db' l fq ud show ?thesis by (simp add: matches_def)
  qed
qed

lemma update_many_success:
  assumes "update_many db c (Some q) (Some u) = (Inr (m, n), db')"
  shows "docs (get_coll db' c) = map (\<lambda>d. if q d then u d else d) (docs (get_coll db c)) \<and>
         m = length (filter q (docs (get_coll db c))) \<and>
         n = length (filter (\<lambda>d. q d \<and> u d \<noteq> d) (docs (get_coll db c)))"
proof -
  obtain r1 ds where e: "update_docs (get_coll db c) q u [] (docs (get_coll db c)) = (r1, ds)"
    by (cases "update_docs (get_coll db c) q u [] (docs (get_coll db c))")
  with assms have r1: "r1 = Inr (m, n)" and db': "db' = (if ds = docs (get_coll db c) then db
      else put_coll db c ((get_coll db c)\<lparr>docs := ds\<rparr>))"
    by (simp_all add: update_many_def Let_def)
  from update_docs_success[OF e[unfolded r1]] db' show ?thesis
    by (cases "ds = docs (get_coll db c)") simp_all
qed

lemma cmp_of_EQ [simp]: "(cmp_of a b = EQ) = (a = b)"
  by (simp add: cmp_of_def)

lemma cmp_of_LT [simp]: "(cmp_of a b = LT) = (a < b)"
  by (simp add: cmp_of_def)

lemma cmp_of_GT [simp]: "(cmp_of a b = GT) = (b < a)"
  by (auto simp: cmp_of_def)

lemma cmp_of_cmp_flip: "cmp_of b a = cmp_flip (cmp_of a b)"
  by (auto simp: cmp_of_def)

lemma case_cmp_LT:
  "((case a of LT \<Rightarrow> LT | EQ \<Rightarrow> x | GT \<Rightarrow> GT) = LT) = (a = LT \<or> a = EQ \<and> x = LT)"
  by (cases a) simp_all

lemma case_cmp_EQ:
  "((case a of LT \<Rightarrow> LT | EQ \<Rightarrow> x | GT \<Rightarrow> GT) = EQ) = (a = EQ \<and> x = EQ)"
  by (cases a) simp_all

lemma elems_cmp_EQ:
  assumes "\<And>x y. x \<in> set xs \<Longrightarrow> (bson_cmp x y = EQ) = (x = y)"
  shows "(elems_cmp xs ys = EQ) = (xs = ys)"
  using assms
proof (induction xs arbitrary: ys)
  case Nil
  then show ?case by (cases ys) simp_all
next
  case (Cons x xs)
  show ?case
  proof (cases ys)
    case Nil
    then show ?thesis by simp
  next
    case (Cons y ys')
    have h: "(bson_cmp x y = EQ) = (x = y)" using Cons.prems by simp
    have t: "(elems_cmp xs ys' = EQ) = (xs = ys')" using Cons.IH Cons.prems by simp
    show ?thesis using h t Cons by (cases "bson_cmp x y") auto
  qed
qed

lemma fields_cmp_EQ:
  assumes "\<And>k v y. (k, v) \<in> set xs \<Longrightarrow> (bson_cmp v y = EQ) = (v = y)"
  shows "(fields_cmp xs ys = EQ) = (xs = ys)"
  using assms
proof (induction xs arbitrary: ys)
  case Nil
  then show ?case by (cases ys) simp_all
next
  case (Cons x xs)
  obtain k v where x: "x = (k, v)" by (cases x)
  show ?case
  proof (cases ys)
    case Nil
    then show ?thesis by simp
  next
    case (Cons y ys')
    obtain l w where y: "y = (l, w)" by (cases y)
    have h: "(bson_cmp v w = EQ) = (v = w)" using Cons.prems[of k v w] x by simp
    have t: "(fields_cmp xs ys' = EQ) = (xs = ys')"
    proof (rule Cons.IH)
      fix k' v' y' assume "(k', v') \<in> set xs"
      then show "(bson_cmp v' y' = EQ) = (v' = y')" using Cons.prems[of k' v' y'] by simp
    qed
    show ?thesis using h t unfolding Cons x y by (auto simp: case_cmp_EQ)
  qed
qed

lemma bson_cmp_EQ [simp]: "(bson_cmp a b = EQ) = (a = b)"
proof (induction a arbitrary: b)
  case (BArr xs)
  show ?case using elems_cmp_EQ[of xs] BArr by (cases b) auto
next
  case (BDoc d)
  have "\<And>k v y. (k, v) \<in> set d \<Longrightarrow> (bson_cmp v y = EQ) = (v = y)"
    using BDoc by force
  then show ?case using fields_cmp_EQ[of d] by (cases b) auto
qed (case_tac b; simp)+

lemma bson_cmp_same [simp]: "bson_cmp a a = EQ"
  by simp

lemma cmp_flip_case:
  "x' = cmp_flip x \<Longrightarrow>
   (case cmp_flip a of LT \<Rightarrow> LT | EQ \<Rightarrow> x' | GT \<Rightarrow> GT) = cmp_flip (case a of LT \<Rightarrow> LT | EQ \<Rightarrow> x | GT \<Rightarrow> GT)"
  by (cases a) simp_all

lemma elems_cmp_flip:
  assumes "\<And>x y. x \<in> set xs \<Longrightarrow> bson_cmp y x = cmp_flip (bson_cmp x y)"
  shows "elems_cmp ys xs = cmp_flip (elems_cmp xs ys)"
  using assms
proof (induction xs arbitrary: ys)
  case Nil
  then show ?case by (cases ys) simp_all
next
  case (Cons x xs)
  show ?case
  proof (cases ys)
    case Nil
    then show ?thesis by simp
  next
    case (Cons y ys')
    have h: "bson_cmp y x = cmp_flip (bson_cmp x y)" using Cons.prems by simp
    have t: "elems_cmp ys' xs = cmp_flip (elems_cmp xs ys')" using Cons.IH Cons.prems by simp
    show ?thesis using h t Cons by (cases "bson_cmp x y") auto
  qed
qed

lemma fields_cmp_flip:
  assumes "\<And>k v y. (k, v) \<in> set xs \<Longrightarrow> bson_cmp y v = cmp_flip (bson_cmp v y)"
  shows "fields_cmp ys xs = cmp_flip (fields_cmp xs ys)"
  using assms
proof (induction xs arbitrary: ys)
  case Nil
  then show ?case by (cases ys) simp_all
next
  case (Cons x xs)
  obtain k v where x: "x = (k, v)" by (cases x)
  show ?case
  proof (cases ys)
    case Nil
    then show ?thesis by simp
  next
    case (Cons y ys')
    obtain l w where y: "y = (l, w)" by (cases y)
    have h: "bson_cmp w v = cmp_flip (bson_cmp v w)" using Cons.prems[of k v w] x by simp
    have t: "fields_cmp ys' xs = cmp_flip (fields_cmp xs ys')"
    proof (rule Cons.IH)
      fix k' v' y' assume "(k', v') \<in> set xs"
      then show "bson_cmp y' v' = cmp_flip (bson_cmp v' y')" using Cons.prems[of k' v' y'] by simp
    qed
    have r: "cmp_of (bson_rank w) (bson_rank v) = cmp_flip (cmp_of (bson_rank v) (bson_rank w))"
      by (rule cmp_of_cmp_flip)
    have n: "cmp_of l k = cmp_flip (cmp_of k l)" by (rule cmp_of_cmp_flip)
    show ?thesis unfolding Cons x y fields_cmp.simps h t r n
      by (intro cmp_flip_case refl)
  qed
qed

lemma bson_cmp_flip: "bson_cmp b a = cmp_flip (bson_cmp a b)"
proof (induction a arbitrary: b)
  case (BArr xs)
  show ?case using elems_cmp_flip[of xs] BArr by (cases b) (auto simp: cmp_of_def)
next
  case (BDoc d)
  have "\<And>k v y. (k, v) \<in> set d \<Longrightarrow> bson_cmp y v = cmp_flip (bson_cmp v y)"
    using BDoc by force
  then show ?case using fields_cmp_flip[of d] by (cases b) (auto simp: cmp_of_def)
qed (case_tac b; auto simp: cmp_of_def)+

lemma cmp_flip_LT [simp]: "(cmp_flip c = LT) = (c = GT)"
  by (cases c) simp_all

lemma cmp_flip_GT [simp]: "(cmp_flip c = GT) = (c = LT)"
  by (cases c) simp_all

lemma bson_cmp_GT: "(bson_cmp a b = GT) = (bson_cmp b a = LT)"
  using bson_cmp_flip[of a b] by simp

lemma elems_cmp_LT:
  "(elems_cmp (x # xs) (y # ys) = LT) = (bson_cmp x y = LT \<or> x = y \<and> elems_cmp xs ys = LT)"
  by (simp add: case_cmp_LT)

lemma fields_cmp_LT:
  "(fields_cmp ((k, v) # xs) ((l, w) # ys) = LT) =
     (bson_rank v < bson_rank w \<or>
      bson_rank v = bson_rank w \<and> (k < l \<or> k = l \<and> (bson_cmp v w = LT \<or> v = w \<and> fields_cmp xs ys = LT)))"
  by (simp add: case_cmp_LT)

lemma elems_cmp_trans:
  assumes "\<And>x y z. x \<in> set xs \<Longrightarrow> bson_cmp x y = LT \<Longrightarrow> bson_cmp y z = LT \<Longrightarrow> bson_cmp x z = LT"
    and "elems_cmp xs ys = LT" and "elems_cmp ys zs = LT"
  shows "elems_cmp xs zs = LT"
  using assms
proof (induction xs arbitrary: ys zs)
  case Nil
  then show ?case by (cases ys; cases zs) simp_all
next
  case (Cons x xs)
  from Cons.prems(2) obtain y ys' where ys: "ys = y # ys'" by (cases ys) simp_all
  from Cons.prems(3) ys obtain z zs' where zs: "zs = z # zs'" by (cases zs) simp_all
  have tr: "bson_cmp x y = LT \<Longrightarrow> bson_cmp y z = LT \<Longrightarrow> bson_cmp x z = LT"
    using Cons.prems(1)[of x y z] by simp
  have ih: "elems_cmp xs ys' = LT \<Longrightarrow> elems_cmp ys' zs' = LT \<Longrightarrow> elems_cmp xs zs' = LT"
  proof (rule Cons.IH)
    fix x' y' z' assume "x' \<in> set xs" "bson_cmp x' y' = LT" "bson_cmp y' z' = LT"
    then show "bson_cmp x' z' = LT" using Cons.prems(1)[of x' y' z'] by simp
  qed
  have a: "bson_cmp x y = LT \<or> x = y \<and> elems_cmp xs ys' = LT"
    using Cons.prems(2) unfolding ys elems_cmp_LT .
  have b: "bson_cmp y z = LT \<or> y = z \<and> elems_cmp ys' zs' = LT"
    using Cons.prems(3) unfolding ys zs elems_cmp_LT .
  show ?case unfolding zs elems_cmp_LT using a b tr ih by blast
qed

lemma bson_cmp_rank: "bson_cmp a b = LT \<Longrightarrow> bson_rank a \<le> bson_rank b"
  by (cases a; cases b) (simp_all add: cmp_of_def split: if_splits)

lemma bson_rank_cmp: "bson_rank a < bson_rank b \<Longrightarrow> bson_cmp a b = LT"
  by (cases a; cases b) simp_all

lemma fields_cmp_trans:
  assumes "\<And>k x y z. (k, x) \<in> set xs \<Longrightarrow> bson_cmp x y = LT \<Longrightarrow> bson_cmp y z = LT \<Longrightarrow> bson_cmp x z = LT"
    and "fields_cmp xs ys = LT" and "fields_cmp ys zs = LT"
  shows "fields_cmp xs zs = LT"
  using assms
proof (induction xs arbitrary: ys zs)
  case Nil
  then show ?case by (cases ys; cases zs) simp_all
next
  case (Cons x xs)
  obtain k u where x: "x = (k, u)" by (cases x)
  from Cons.prems(2) obtain l v ys' where ys: "ys = (l, v) # ys'" by (cases ys) auto
  from Cons.prems(3) ys obtain m w zs' where zs: "zs = (m, w) # zs'" by (cases zs) auto
  have tr: "bson_cmp u v = LT \<Longrightarrow> bson_cmp v w = LT \<Longrightarrow> bson_cmp u w = LT"
    using Cons.prems(1)[of k u v w] x by simp
  have ih: "fields_cmp xs ys' = LT \<Longrightarrow> fields_cmp ys' zs' = LT \<Longrightarrow> fields_cmp xs zs' = LT"
  proof (rule Cons.IH)
    fix k' x' y' z' assume "(k', x') \<in> set xs" "bson_cmp x' y' = LT" "bson_cmp y' z' = LT"
    then show "bson_cmp x' z' = LT" using Cons.prems(1)[of k' x' y' z'] by simp
  qed
  have a: "bson_rank u < bson_rank v \<or>
      bson_rank u = bson_rank v \<and> (k < l \<or> k = l \<and> (bson_cmp u v = LT \<or> u = v \<and> fields_cmp xs ys' = LT))"
    using Cons.prems(2) unfolding x ys fields_cmp_LT .
  have b: "bson_rank v < bson_rank w \<or>
      bson_rank v = bson_rank w \<and> (l < m \<or> l = m \<and> (bson_cmp v w = LT \<or> v = w \<and> fields_cmp ys' zs' = LT))"
    using Cons.prems(3) unfolding ys zs fields_cmp_LT .
  show ?case unfolding x zs fields_cmp_LT
  proof (cases "bson_rank u < bson_rank w")
    case True
    then show "bson_rank u < bson_rank w \<or>
      bson_rank u = bson_rank w \<and> (k < m \<or> k = m \<and> (bson_cmp u w = LT \<or> u = w \<and> fields_cmp xs zs' = LT))"
      by simp
  next
    case False
    then have r: "bson_rank u = bson_rank v" "bson_rank v = bson_rank w" using a b by auto
    have a': "k < l \<or> k = l \<and> (bson_cmp u v = LT \<or> u = v \<and> fields_cmp xs ys' = LT)"
      using a r by simp
    have b': "l < m \<or> l = m \<and> (bson_cmp v w = LT \<or> v = w \<and> fields_cmp ys' zs' = LT)"
      using b r by simp
    have "k < m \<or> k = m \<and> (bson_cmp u w = LT \<or> u = w \<and> fields_cmp xs zs' = LT)"
    proof (cases "k < m")
      case True
      then show ?thesis by simp
    next
      case False
      then have kl: "k = l" "l = m" using a' b' by auto
      have "bson_cmp u w = LT \<or> u = w \<and> fields_cmp xs zs' = LT"
        using a' b' kl tr ih by auto
      then show ?thesis using kl by simp
    qed
    then show "bson_rank u < bson_rank w \<or>
      bson_rank u = bson_rank w \<and> (k < m \<or> k = m \<and> (bson_cmp u w = LT \<or> u = w \<and> fields_cmp xs zs' = LT))"
      using r by simp
  qed
qed

lemma bson_cmp_trans: "bson_cmp a b = LT \<Longrightarrow> bson_cmp b c = LT \<Longrightarrow> bson_cmp a c = LT"
proof (induction a arbitrary: b c)
  case (BArr xs)
  show ?case
  proof (cases "bson_rank (BArr xs) < bson_rank c")
    case True
    then show ?thesis by (rule bson_rank_cmp)
  next
    case False
    then have "bson_rank b = 5" "bson_rank c = 5"
      using bson_cmp_rank[OF BArr.prems(1)] bson_cmp_rank[OF BArr.prems(2)] by auto
    then obtain ys zs where "b = BArr ys" "c = BArr zs" by (cases b; cases c) simp_all
    then show ?thesis using elems_cmp_trans[of xs ys zs] BArr by auto
  qed
next
  case (BDoc d)
  have el: "\<And>k x y z. (k, x) \<in> set d \<Longrightarrow> bson_cmp x y = LT \<Longrightarrow> bson_cmp y z = LT \<Longrightarrow> bson_cmp x z = LT"
    using BDoc.IH by force
  show ?case
  proof (cases "bson_rank (BDoc d) < bson_rank c")
    case True
    then show ?thesis by (rule bson_rank_cmp)
  next
    case False
    then have "bson_rank b = 4" "bson_rank c = 4"
      using bson_cmp_rank[OF BDoc.prems(1)] bson_cmp_rank[OF BDoc.prems(2)] by auto
    then obtain ys zs where "b = BDoc ys" "c = BDoc zs" by (cases b; cases c) simp_all
    then show ?thesis using fields_cmp_trans[of d ys zs] el BDoc.prems by auto
  qed
next
  case BNull
  then show ?case using bson_cmp_rank[OF BNull(1)] bson_cmp_rank[OF BNull(2)]
    by (cases b; cases c) simp_all
next
  case (BBool x)
  then show ?case using bson_cmp_rank[OF BBool(1)] bson_cmp_rank[OF BBool(2)]
    by (cases b; cases c) simp_all
next
  case (BNum x)
  then show ?case using bson_cmp_rank[OF BNum(1)] bson_cmp_rank[OF BNum(2)]
    by (cases b; cases c) simp_all
next
  case (BStr x)
  then show ?case using bson_cmp_rank[OF BStr(1)] bson_cmp_rank[OF BStr(2)]
    by (cases b; cases c) simp_all
next
  case (BDate x)
  then show ?case using bson_cmp_rank[OF BDate(1)] bson_cmp_rank[OF BDate(2)]
    by (cases b; cases c) simp_all
next
  case (BOid x)
  then show ?case using bson_cmp_rank[OF BOid(1)] bson_cmp_rank[OF BOid(2)]
    by (cases b; cases c) simp_all
qed

lemma bson_le_refl [simp]: "bson_le a a"
  by (simp add: bson_le_def)

lemma bson_le_total: "bson_le a b \<or> bson_le b a"
  unfolding bson_le_def using bson_cmp_GT[of a b] by auto

lemma bson_le_trans: "bson_le a b \<Longrightarrow> bson_le b c \<Longrightarrow> bson_le a c"
  unfolding bson_le_def using bson_cmp_trans[of a b c]
  by (cases "bson_cmp a b"; cases "bson_cmp b c") auto

lemma bson_le_numbers [simp]: "bson_le (BNum a) (BNum b) = (a \<le> b)"
  by (auto simp: bson_le_def cmp_of_def)

lemma bson_le_null [simp]: "bson_le BNull v"
  by (cases v) (simp_all add: bson_le_def cmp_of_def)

lemma key_le_refl [simp]: "key_le a a"
  by (cases a) simp_all

lemma key_le_total: "key_le a b \<or> key_le b a"
  using bson_le_total by (cases a; cases b) auto

lemma key_le_trans: "key_le a b \<Longrightarrow> key_le b c \<Longrightarrow> key_le a c"
  by (cases a; cases b; cases c) (auto intro: bson_le_trans)

lemma desc_key_scalar:
  "desc_key f d = Some (field_or_null f d) \<or> (\<exists>xs. field_or_null f d = BArr xs)"
  by (cases "field_or_null f d") (simp_all add: desc_key_def)

lemma find_one_desc_None [simp]: "find_one_desc f ds = None \<longleftrightarrow> ds = []"
  by (induction ds) (auto split: option.splits)

lemma find_one_desc_greatest:
  "find_one_desc f ds = Some d \<Longrightarrow>
   d \<in> set ds \<and> (\<forall>e \<in> set ds. key_le (desc_key f e) (desc_key f d))"
proof (induction ds arbitrary: d)
  case Nil
  then show ?case by simp
next
  case (Cons x xs)
  show ?case
  proof (cases "find_one_desc f xs")
    case None
    with Cons.prems show ?thesis by simp
  next
    case (Some e)
    from Cons.IH[OF Some] have e: "e \<in> set xs"
      and ge: "\<forall>y \<in> set xs. key_le (desc_key f y) (desc_key f e)" by simp_all
    show ?thesis
    proof (cases "key_le (desc_key f e) (desc_key f x)")
      case True
      with Some Cons.prems have "d = x" by simp
      with True ge show ?thesis by (auto intro: key_le_trans)
    next
      case False
      with Some Cons.prems have "d = e" by simp
      moreover from False have "key_le (desc_key f x) (desc_key f e)"
        using key_le_total by blast
      ultimately show ?thesis using e ge by auto
    qed
  qed
qed

lemma index_key_ensure_id:
  "''_id'' \<notin> set keys \<Longrightarrow> index_key keys (fst (ensure_id n d)) = index_key keys d"
  by (auto simp: index_key_def ensure_id_def field_or_null_def)

lemma create_document_duplicate:
  assumes "has_unique_index db c keys" and "''_id'' \<notin> set keys"
    and "index_key keys d \<in> set (map (index_key keys) (docs (get_coll db c)))"
  shows "fst (create_document db c d) = Inr None \<and> colls (snd (create_document db c d)) = colls db"
proof -
  obtain d1 n where e: "ensure_id (next_oid db) d = (d1, n)"
    by (cases "ensure_id (next_oid db) d")
  with index_key_ensure_id[OF assms(2), of "next_oid db" d]
  have "index_key keys d1 = index_key keys d" by simp
  with assms(3) have "index_key keys d1 \<in> index_key keys ` set (docs (get_coll db c))" by simp
  moreover from assms(1) have "keys \<in> set (all_unique (get_coll db c))"
    by (simp add: has_unique_index_def all_unique_def)
  ultimately have "key_taken (all_unique (get_coll db c)) (docs (get_coll db c)) d1"
    unfolding key_taken_iff by blast
  then have "\<exists>x. server_insert (get_coll db c) d1 = Inl x"
    by (simp add: server_insert_def)
  then obtain x where "server_insert (get_coll db c) d1 = Inl x" ..
  with e show ?thesis by (simp add: create_document_def insert_one_def)
qed

lemma update_many_violating:
  assumes "enforced db c keys"
    and "\<not> distinct (map (index_key keys) (map (\<lambda>d. if q d then u d else d) (docs (get_coll db c))))"
  shows "\<exists>e. fst (update_many db c (Some q) (Some u)) = Inl e"
proof (rule ccontr)
  assume "\<not> ?thesis"
  then obtain m n db' where s: "update_many db c (Some q) (Some u) = (Inr (m, n), db')"
    by (cases "update_many db c (Some q) (Some u)"; cases "fst (update_many db c (Some q) (Some u))") auto
  from enforced_update_many[OF assms(1), of c "Some q" "Some u"] s
  have "enforced db' c keys" by simp
  with update_many_success[OF s] assms(2) show False
    by (simp add: enforced_def unique_on_def)
qed

lemma index_key_ensure_ids:
  "''_id'' \<notin> set keys \<Longrightarrow>
   map (index_key keys) (fst (ensure_ids n ds)) = map (index_key keys) ds"
proof (induction ds arbitrary: n)
  case Nil
  then show ?case by simp
next
  case (Cons d ds)
  obtain d1 n1 where e: "ensure_id n d = (d1, n1)" by (cases "ensure_id n d")
  obtain ds1 n2 where es: "ensure_ids n1 ds = (ds1, n2)" by (cases "ensure_ids n1 ds")
  from index_key_ensure_id[OF Cons.prems, of n d] e have "index_key keys d1 = index_key keys d"
    by simp
  moreover from Cons.IH[OF Cons.prems, of n1] es
  have "map (index_key keys) ds1 = map (index_key keys) ds" by simp
  ultimately show ?case using e es by simp
qed

lemma insert_all_success:
  "insert_all c ds = (Inr u, c') \<Longrightarrow> docs c' = docs c @ ds"
proof (induction ds arbitrary: c)
  case Nil
  then show ?case by simp
next
  case (Cons d ds)
  then show ?case
    by (cases "server_insert c d") (auto simp: server_insert_def split: if_splits)
qed

lemma create_documents_violating:
  assumes "enforced db c keys" and "''_id'' \<notin> set keys"
    and "\<not> distinct (map (index_key keys) (docs (get_coll db c) @ ds))"
  shows "fst (create_documents db c ds f) = Inr []"
proof (cases "ds = []")
  case True
  then show ?thesis by (simp add: create_documents_def insert_many_def)
next
  case False
  obtain ds1 n where e: "ensure_ids (next_oid db) ds = (ds1, n)"
    by (cases "ensure_ids (next_oid db) ds")
  with index_key_ensure_ids[OF assms(2), of "next_oid db" ds]
  have keys: "map (index_key keys) ds1 = map (index_key keys) ds" by simp
  obtain r k where ia: "insert_all (get_coll db c) ds1 = (r, k)"
    by (cases "insert_all (get_coll db c) ds1")
  from assms(1) have k1: "keys \<in> set (all_unique (get_coll db c))"
    and u0: "uniq keys (docs (get_coll db c))"
    by (simp_all add: enforced_def has_unique_index_def unique_on_def all_unique_def uniq_def)
  have "\<exists>x. r = Inl x"
  proof (cases r)
    case (Inl x)
    then show ?thesis by simp
  next
    case (Inr u)
    from insert_all_success[OF ia[unfolded Inr]] insert_all_uniq[OF ia k1 u0] keys assms(3)
    show ?thesis by (simp add: uniq_def)
  qed
  then obtain x where "r = Inl x" ..
  with False e ia show ?thesis by (simp add: create_documents_def insert_many_def)
qed

lemma script_unique_indexes_no_id:
  "(c, keys) \<in> set script_unique_indexes \<Longrightarrow> ''_id'' \<notin> set keys"
  by (auto simp: script_unique_indexes_def)

lemma create_indexes_enforced_all:
  "create_indexes db = Inr db1 \<Longrightarrow> (c, keys) \<in> set script_unique_indexes \<Longrightarrow> enforced db1 c keys"
  using create_indexes_enforced[of db db1] by (auto simp: script_unique_indexes_def)

lemma set_insert_desc [simp]: "set (insert_desc f d es) = insert d (set es)"
  by (induction es) auto

lemma set_sort_desc [simp]: "set (sort_desc f ds) = set ds"
  unfolding sort_desc_def by (induction ds) auto

lemma length_insert_desc [simp]: "length (insert_desc f d es) = Suc (length es)"
  by (induction es) auto

lemma length_sort_desc [simp]: "length (sort_desc f ds) = length ds"
  unfolding sort_desc_def by (induction ds) auto

lemma distinct_map_insert_desc:
  "distinct (map g (insert_desc f d es)) \<longleftrightarrow> g d \<notin> g ` set es \<and> distinct (map g es)"
  by (induction es) auto

lemma distinct_map_sort_desc [simp]:
  "distinct (map g (sort_desc f ds)) \<longleftrightarrow> distinct (map g ds)"
  unfolding sort_desc_def
proof (induction ds)
  case Nil
  then show ?case by simp
next
  case (Cons d ds)
  have "set (foldr (insert_desc f) ds []) = set ds"
    using set_sort_desc[of f ds] by (simp add: sort_desc_def)
  with Cons show ?case by (simp add: distinct_map_insert_desc)
qed

lemma sorted_insert_desc:
  "sorted_wrt (\<lambda>a b. key_le (desc_key f b) (desc_key f a)) es \<Longrightarrow>
   sorted_wrt (\<lambda>a b. key_le (desc_key f b) (desc_key f a)) (insert_desc f d es)"
proof (induction es)
  case Nil
  then show ?case by simp
next
  case (Cons e es)
  show ?case
  proof (cases "key_le (desc_key f e) (desc_key f d)")
    case True
    with Cons.prems show ?thesis
      by (auto intro: key_le_trans)
  next
    case False
    then have "key_le (desc_key f d) (desc_key f e)"
      using key_le_total by blast
    with False Cons show ?thesis
      by auto
  qed
qed

lemma sorted_sort_desc:
  "sorted_wrt (\<lambda>a b. key_le (desc_key f b) (desc_key f a)) (sort_desc f ds)"
  unfolding sort_desc_def
  by (induction ds) (simp_all add: sorted_insert_desc)

lemma descending_sort_desc:
  assumes "\<And>d xs. d \<in> set ds \<Longrightarrow> field_or_null f d \<noteq> BArr xs"
  shows "descending f (sort_desc f ds)"
  unfolding descending_def
proof (rule sorted_wrt_mono_rel[OF _ sorted_sort_desc[of f ds]])
  fix a b
  assume "a \<in> set (sort_desc f ds)" and "b \<in> set (sort_desc f ds)"
    and le: "key_le (desc_key f b) (desc_key f a)"
  then have "desc_key f a = Some (field_or_null f a)" and "desc_key f b = Some (field_or_null f b)"
    using assms desc_key_scalar[of f a] desc_key_scalar[of f b] by auto
  with le show "bson_le (field_or_null f b) (field_or_null f a)" by simp
qed

lemma group_avg_key_scalar:
  "g \<in> set (group_avg k out v ds) \<Longrightarrow> out \<noteq> ''_id'' \<Longrightarrow> field_or_null out g \<noteq> BArr xs"
  by (auto simp: group_avg_def field_or_null_def avg_def split: if_splits)

lemma numbers_map_BNum [simp]: "numbers (map BNum rs) = rs"
  by (induction rs) auto

lemma numbers_all_numeric:
  "(\<forall>v \<in> set vs. \<exists>r. v = BNum r) \<Longrightarrow> map BNum (numbers vs) = vs"
  by (induction vs) auto

lemma avg_numbers:
  "vs \<noteq> [] \<Longrightarrow> list_all is_number vs \<Longrightarrow> avg vs = BNum (mean (map number_of vs))"
proof -
  assume ne: "vs \<noteq> []" and num: "list_all is_number vs"
  have "numbers vs = map number_of vs" using num
    by (induction vs) (auto simp: is_number_def split: bson.splits)
  with ne show ?thesis by (simp add: avg_def mean_def)
qed

lemma expr_field: "expr (CHR ''$'' # f) d = get_path (split_dots f) (BDoc d)"
  by simp

lemma get_path_field: "get_path [f] (BDoc d) = field_or_null f d"
  by (simp add: field_or_null_def split: option.splits)

lemma ids_group_avg:
  "out \<noteq> ''_id'' \<Longrightarrow> map (field_or_null ''_id'') (group_avg k out v ds) = remdups (map (expr k) ds)"
  by (simp add: group_avg_def field_or_null_def comp_def)

lemma group_avg_entry:
  "g \<in> set (group_avg k out v ds) \<Longrightarrow> out \<noteq> ''_id'' \<Longrightarrow>
   field_or_null ''_id'' g \<in> expr k ` set ds \<and>
   g = [(''_id'', field_or_null ''_id'' g),
        (out, avg (map (expr v) (filter (\<lambda>d. expr k d = field_or_null ''_id'' g) ds)))]"
  by (auto simp: group_avg_def field_or_null_def)

lemma course_rating_eq:
  "course_rating db =
     sort_desc ''averageRating''
       (group_avg ''$category'' ''averageRating'' ''$reviewRate'' (docs (get_coll db ''course'')))"
  by (simp add: course_rating_def aggregate_def course_rating_pipeline_def)

lemma expr_category: "expr ''$category'' d = field_or_null ''category'' d"
  by (simp add: field_or_null_def split: option.splits)

lemma expr_reviewRate: "expr ''$reviewRate'' d = field_or_null ''reviewRate'' d"
  by (simp add: field_or_null_def split: option.splits)

lemma student_performance_eq:
  "student_performance m db =
     sort_desc ''averageGrade''
       (group_avg ''$studentId'' ''averageGrade'' ''$submissions.grade'' (unwound m db))"
  by (simp add: student_performance_def aggregate_def student_performance_pipeline_def unwound_def)

lemma expr_studentId: "expr ''$studentId'' d = field_or_null ''studentId'' d"
  by (simp add: field_or_null_def split: option.splits)

lemma expr_submissions_grade:
  "expr ''$submissions.grade'' d = get_path [''grade''] (field_or_null ''submissions'' d)"
  by (simp add: field_or_null_def split: option.splits)

lemma map_of_set_field: "map_of (set_field f v d) g = (if g = f then Some v else map_of d g)"
  by (simp add: set_field_def update_conv')

lemma field_or_null_set_field:
  "field_or_null g (set_field f v d) = (if g = f then v else field_or_null g d)"
  by (simp add: field_or_null_def map_of_set_field)

lemma unwind_lookup_one:
  "map (\<lambda>d. (expr ''$studentId'' d, expr ''$submissions.grade'' d))
     (unwind_doc ''submissions'' (set_field ''submissions'' (BArr (map BDoc ss)) e)) =
   map (\<lambda>s. (field_or_null ''studentId'' e, field_or_null ''grade'' s)) ss"
  by (simp add: expr_studentId expr_submissions_grade map_of_set_field field_or_null_set_field
        get_path_field comp_def del: expr.simps get_path.simps)

lemma pairs_unwound:
  "map (\<lambda>d. (expr ''$studentId'' d, expr ''$submissions.grade'' d)) (unwound m db) =
   concat (map (\<lambda>e. map (\<lambda>s. (field_or_null ''studentId'' e, field_or_null ''grade'' s))
                      (filter (joined m e) (docs (get_coll db ''submission''))))
             (docs (get_coll db ''enrollment'')))"
proof -
  have "map (\<lambda>d. (expr ''$studentId'' d, expr ''$submissions.grade'' d))
          (concat (map (unwind_doc ''submissions'') (lookup_stage m ss ''enrollmentId'' ''enrollmentId''
          ''submissions'' es))) =
        concat (map (\<lambda>e. map (\<lambda>s. (field_or_null ''studentId'' e, field_or_null ''grade'' s))
                      (filter (joined m e) ss)) es)" for ss es
  proof (induction es)
    case Nil
    then show ?case by (simp add: lookup_stage_def)
  next
    case (Cons e es)
    have j: "(\<lambda>s. m (field_or_null ''enrollmentId'' e) (field_or_null ''enrollmentId'' s)) = joined m e"
      by (simp add: joined_def fun_eq_iff)
    from Cons show ?case
      by (simp add: lookup_stage_def unwind_lookup_one j del: expr.simps unwind_doc.simps)
  qed
  then show ?thesis by (simp add: unwound_def)
qed

lemma group_values_pairs:
  "map v (filter (\<lambda>d. k d = g) ds) = map snd (filter (\<lambda>p. fst p = g) (map (\<lambda>d. (k d, v d)) ds))"
  by (induction ds) simp_all

lemma pairs_of_one:
  "map snd (filter (\<lambda>p. fst p = g) (map (\<lambda>s. (a, h s)) xs)) = (if a = g then map h xs else [])"
  by (induction xs) simp_all

lemma grades_of_pairs:
  "map snd (filter (\<lambda>p. fst p = g)
     (concat (map (\<lambda>e. map (\<lambda>s. (field_or_null ''studentId'' e, field_or_null ''grade'' s))
                      (filter (joined m e) ss)) es))) =
   concat (map (\<lambda>e. map (field_or_null ''grade'') (filter (joined m e) ss))
       (filter (\<lambda>e. field_or_null ''studentId'' e = g) es))"
proof (induction es)
  case Nil
  then show ?case by simp
next
  case (Cons e es)
  then show ?case by (simp add: pairs_of_one)
qed

lemma group_values_unwound:
  "map (expr ''$submissions.grade'') (filter (\<lambda>d. expr ''$studentId'' d = g) (unwound m db)) =
   grades_of m db g"
proof -
  have "map (expr ''$submissions.grade'') (filter (\<lambda>d. expr ''$studentId'' d = g) (unwound m db)) =
        map snd (filter (\<lambda>p. fst p = g)
          (map (\<lambda>d. (expr ''$studentId'' d, expr ''$submissions.grade'' d)) (unwound m db)))"
    by (rule group_values_pairs)
  also have "\<dots> = grades_of m db g"
    by (simp only: pairs_unwound grades_of_pairs grades_of_def)
  finally show ?thesis .
qed

lemma fst_pairs_of_one:
  "fst ` set (map (\<lambda>s. (a, h s)) xs) = (if xs = [] then {} else {a})"
  by (cases xs) (auto simp: image_image)

lemma keys_of_pairs:
  "fst ` set (concat (map (\<lambda>e. map (\<lambda>s. (a e, h s)) (filter (J e) ss)) es)) =
   {a e | e. e \<in> set es \<and> (\<exists>s \<in> set ss. J e s)}"
proof -
  have "fst ` set (concat (map (\<lambda>e. map (\<lambda>s. (a e, h s)) (filter (J e) ss)) es)) =
        (\<Union>e \<in> set es. fst ` set (map (\<lambda>s. (a e, h s)) (filter (J e) ss)))"
    by (simp add: image_UN)
  also have "\<dots> = (\<Union>e \<in> set es. if filter (J e) ss = [] then {} else {a e})"
    by (simp only: fst_pairs_of_one)
  also have "\<dots> = {a e | e. e \<in> set es \<and> (\<exists>s \<in> set ss. J e s)}"
    by (auto simp: filter_empty_conv split: if_splits)
  finally show ?thesis .
qed

lemma keys_unwound:
  "expr ''$studentId'' ` set (unwound m db) = students_with_submission m db"
proof -
  have "expr ''$studentId'' ` set (unwound m db) =
        fst ` set (map (\<lambda>d. (expr ''$studentId'' d, expr ''$submissions.grade'' d)) (unwound m db))"
    by (simp add: image_image del: expr.simps)
  also have "\<dots> = students_with_submission m db"
    by (simp only: pairs_unwound keys_of_pairs students_with_submission_def)
  finally show ?thesis .
qed

lemma upt_shift: "[n..<n + Suc k] = n # [Suc n..<Suc n + k]"
  by (simp add: upt_rec[of n])

lemma passes_docs_update [simp]: "passes (c\<lparr>docs := x\<rparr>) = passes c"
  by (simp add: fun_eq_iff passes_def)

lemma with_ids_Nil [simp]: "with_ids n [] = []"
  by (simp add: with_ids_def)

lemma with_ids_Cons [simp]:
  "with_ids n (d # ds) = ((''_id'', BOid n) # d) # with_ids (Suc n) ds"
  using upt_shift[of n "length ds"] by (simp add: with_ids_def)

lemma length_with_ids [simp]: "length (with_ids n ds) = length ds"
  by (simp add: with_ids_def)

lemma ensure_ids_fresh:
  "list_all (\<lambda>d. \<not> has_field ''_id'' d) ds \<Longrightarrow> ensure_ids n ds = (with_ids n ds, n + length ds)"
  by (induction ds arbitrary: n) (simp_all add: ensure_id_def)

lemma ids_with_ids: "map (field_or_null ''_id'') (with_ids n ds) = map BOid [n..<n + length ds]"
proof (induction ds arbitrary: n)
  case Nil
  then show ?case by simp
next
  case (Cons d ds)
  have "[n..<n + length (d # ds)] = n # [Suc n..<Suc n + length ds]"
    using upt_shift[of n "length ds"] by simp
  with Cons[of "Suc n"] show ?case by (simp add: field_or_null_def)
qed

lemma uniq_id_with_ids: "uniq [''_id''] (with_ids n ds)"
proof -
  have "map (index_key [''_id'']) (with_ids n ds) = map (\<lambda>v. [v]) (map (field_or_null ''_id'') (with_ids n ds))"
    by (simp add: index_key_def)
  also have "\<dots> = map (\<lambda>i. [BOid i]) [n..<n + length ds]"
    by (simp only: ids_with_ids) simp
  finally show ?thesis
    by (simp add: uniq_def distinct_map inj_on_def)
qed

lemma index_key_with_ids:
  "''_id'' \<notin> set keys \<Longrightarrow> map (index_key keys) (with_ids n ds) = map (index_key keys) ds"
proof (induction ds arbitrary: n)
  case Nil
  then show ?case by simp
next
  case (Cons d ds)
  from Cons.prems have "index_key keys ((''_id'', BOid n) # d) = index_key keys d"
    by (auto simp: index_key_def field_or_null_def)
  with Cons show ?case by simp
qed

lemma insert_all_ok:
  "list_all (passes c) ds \<Longrightarrow> list_all (\<lambda>keys. uniq keys (docs c @ ds)) (all_unique c) \<Longrightarrow>
   insert_all c ds = (Inr (), c\<lparr>docs := docs c @ ds\<rparr>)"
proof (induction ds arbitrary: c)
  case Nil
  then show ?case by simp
next
  case (Cons d ds)
  let ?c = "c\<lparr>docs := docs c @ [d]\<rparr>"
  from Cons.prems(2) have "\<not> key_taken (all_unique c) (docs c) d"
    by (auto simp: key_taken_iff list_all_iff uniq_def)
  with Cons.prems(1) have s: "server_insert c d = Inr ?c"
    by (simp add: server_insert_def)
  from Cons.prems(1) have p: "list_all (passes ?c) ds"
    by simp
  from Cons.prems(2) have u: "list_all (\<lambda>keys. uniq keys (docs ?c @ ds)) (all_unique ?c)"
    by (simp add: all_unique_def)
  from Cons.IH[OF p u] s show ?case by simp
qed

lemma create_documents_fresh:
  assumes "ds \<noteq> []" and "list_all (\<lambda>d. \<not> has_field ''_id'' d) ds"
    and "docs (get_coll db c) = []"
    and "list_all (\<lambda>keys. ''_id'' \<notin> set keys \<and> uniq keys ds) (unique_indexes (get_coll db c))"
    and "list_all (passes (get_coll db c)) (with_ids (next_oid db) ds)"
  shows "create_documents db c ds f =
     (Inr (map BOid [next_oid db..<next_oid db + length ds]),
      put_coll (db\<lparr>next_oid := next_oid db + length ds\<rparr>) c
        ((get_coll db c)\<lparr>docs := with_ids (next_oid db) ds\<rparr>))"
proof -
  let ?k = "get_coll db c" and ?n = "next_oid db"
  from assms(4) have "list_all (\<lambda>keys. uniq keys (with_ids ?n ds)) (unique_indexes ?k)"
    by (auto simp: list_all_iff uniq_def index_key_with_ids)
  with uniq_id_with_ids[of ?n ds] assms(3)
  have "list_all (\<lambda>keys. uniq keys (docs ?k @ with_ids ?n ds)) (all_unique ?k)"
    by (simp add: all_unique_def)
  from insert_all_ok[OF assms(5) this] assms(3)
  have "insert_all ?k (with_ids ?n ds) = (Inr (), ?k\<lparr>docs := with_ids ?n ds\<rparr>)" by simp
  with assms(1) ensure_ids_fresh[OF assms(2), of ?n] show ?thesis
    by (simp add: create_documents_def insert_many_def ids_with_ids)
qed

lemma users_data_keys:
  "map (index_key [''userId'']) users_data = map (\<lambda>i. [BNum (of_nat i)]) [1..<33]"
  by (simp add: users_data_def index_key_def field_or_null_def upt_rec)

lemma enrollments_data_ids:
  "map (index_key [''enrollmentId'']) (enrollments_data clock) = map (\<lambda>i. [BNum (of_nat i)]) [1..<33]"
  by (simp add: enrollments_data_def index_key_def field_or_null_def upt_rec)

lemma enrollments_data_pairs:
  "map (index_key [''courseId'', ''studentId'']) (enrollments_data clock) =
   map (\<lambda>(c, s). [BNum c, BNum s])
     [(1, 1), (2, 2), (3, 3), (1, 4), (4, 5), (2, 6), (5, 7), (3, 8), (6, 9), (4, 10), (5, 11),
      (6, 12), (7, 13), (7, 14), (8, 15), (8, 16), (9, 6), (9, 8), (10, 13), (10, 21), (11, 21),
      (11, 22), (12, 23), (12, 24), (13, 25), (13, 26), (14, 27), (14, 28), (15, 29), (15, 30),
      (16, 31), (16, 32)]"
  by (simp add: enrollments_data_def index_key_def field_or_null_def)

lemma lessons_data_keys:
  "map (index_key [''lessonId'']) lessons_data = map (\<lambda>i. [BNum (of_nat i)]) [1..<41]"
  by (simp add: lessons_data_def index_key_def field_or_null_def upt_rec)

lemma assignments_data_keys:
  "map (index_key [''assignmentId'']) assignments_data = map (\<lambda>i. [BNum (of_nat i)]) [1..<16]"
  by (simp add: assignments_data_def index_key_def field_or_null_def upt_rec)

lemma submissions_data_keys:
  "map (index_key [''submissionId'']) submissions_data = map (\<lambda>i. [BNum (of_nat i)]) [1..<21]"
  by (simp add: submissions_data_def index_key_def field_or_null_def upt_rec)

lemma uniq_numbered: "distinct (map (\<lambda>i. [BNum (of_nat i)]) [m..<n])"
  by (simp add: distinct_map inj_on_def)

lemma seed_lengths:
  "length users_data = 32" "length courses_data = 16" "length (enrollments_data clock) = 32"
  "length lessons_data = 40" "length assignments_data = 15" "length submissions_data = 20"
  by (simp_all add: users_data_def courses_data_def enrollments_data_def lessons_data_def
        assignments_data_def submissions_data_def)

lemma seed_no_ids:
  "list_all (\<lambda>d. \<not> has_field ''_id'' d) users_data"
  "list_all (\<lambda>d. \<not> has_field ''_id'' d) courses_data"
  "list_all (\<lambda>d. \<not> has_field ''_id'' d) (enrollments_data clock)"
  "list_all (\<lambda>d. \<not> has_field ''_id'' d) lessons_data"
  "list_all (\<lambda>d. \<not> has_field ''_id'' d) assignments_data"
  "list_all (\<lambda>d. \<not> has_field ''_id'' d) submissions_data"
  by (simp_all add: users_data_def courses_data_def enrollments_data_def lessons_data_def
        assignments_data_def submissions_data_def has_field_def)

lemma seed_uniq:
  "uniq [''userId''] users_data"
  "uniq [''enrollmentId''] (enrollments_data clock)"
  "uniq [''courseId'', ''studentId''] (enrollments_data clock)"
  "uniq [''lessonId''] lessons_data"
  "uniq [''assignmentId''] assignments_data"
  "uniq [''submissionId''] submissions_data"
  unfolding uniq_def users_data_keys enrollments_data_ids enrollments_data_pairs lessons_data_keys
    assignments_data_keys submissions_data_keys
  by (simp_all add: uniq_numbered)

lemma create_documents_step:
  assumes "ds \<noteq> []" and "list_all (\<lambda>d. \<not> has_field ''_id'' d) ds"
    and "docs (get_coll db c) = []"
    and "\<forall>keys \<in> set (unique_indexes (get_coll db c)). ''_id'' \<notin> set keys \<and> uniq keys ds"
    and "\<forall>d \<in> set ds. \<forall>i. passes (get_coll db c) ((''_id'', BOid i) # d)"
  shows "\<exists>db'. create_documents db c ds f =
           (Inr (map BOid [next_oid db..<next_oid db + length ds]), db') \<and>
         docs (get_coll db' c) = with_ids (next_oid db) ds \<and>
         (\<forall>c'. c' \<noteq> c \<longrightarrow> get_coll db' c' = get_coll db c') \<and>
         next_oid db' = next_oid db + length ds"
proof -
  have "list_all (passes (get_coll db c)) (with_ids n ds)" for n
    using assms(5) by (induction ds arbitrary: n) simp_all
  from create_documents_fresh[OF assms(1,2,3) _ this, of f] assms(4)
  show ?thesis by (simp add: list_all_iff)
qed

lemma docs_demo_user:
  "docs (get_coll demo_db ''user'') =
     [[(''_id'', BOid 0), (''userId'', BNum 1), (''isActive'', BBool True)],
      [(''_id'', BOid 1), (''userId'', BNum 2), (''isActive'', BBool True)]]"
  by (simp add: demo_db_def get_coll_def)

lemma get_coll_empty_db [simp]: "get_coll empty_db c = empty_collection"
  by (simp add: get_coll_def empty_db_def)

lemma create_indexes_empty_db: "create_indexes empty_db = Inr indexed_db"
  by (simp add: indexed_db_def create_indexes_def create_unique_index_def empty_collection_def)

lemma update_many_demo_user_1:
  "fst (update_many demo_db ''user'' user_1 (Some (soft_delete 5))) = Inr (1, 1)"
  by (simp add: update_many_def user_1_def docs_demo_user field_or_null_def soft_delete_def
      set_field_def passes_def key_taken_def moved_keys_def all_unique_def index_key_def
      demo_db_def get_coll_def split: prod.splits)

lemma fst_delete_document:
  "fst (delete_document now db c q) =
     Inr (case fst (update_many db c q (Some (soft_delete now))) of
            Inl e \<Rightarrow> 0 | Inr (matched, modified) \<Rightarrow> modified)"
  by (simp add: delete_document_def split: prod.splits sum.splits)

lemma indexed_db_eq:
  "indexed_db =
     put_coll (put_coll (put_coll (put_coll (put_coll (put_coll empty_db
       ''user'' \<lparr>docs = [], validator = None, unique_indexes = [[''userId'']]\<rparr>)
       ''enrollment'' \<lparr>docs = [], validator = None, unique_indexes = [[''enrollmentId'']]\<rparr>)
       ''enrollment'' \<lparr>docs = [], validator = None,
          unique_indexes = [[''courseId'', ''studentId''], [''enrollmentId'']]\<rparr>)
       ''lesson'' \<lparr>docs = [], validator = None, unique_indexes = [[''lessonId'']]\<rparr>)
       ''assignment'' \<lparr>docs = [], validator = None, unique_indexes = [[''assignmentId'']]\<rparr>)
       ''submission'' \<lparr>docs = [], validator = None, unique_indexes = [[''submissionId'']]\<rparr>"
  by (simp add: indexed_db_def create_indexes_def create_unique_index_def empty_collection_def)

lemma get_coll_indexed_db_user:
  "get_coll indexed_db ''user'' = \<lparr>docs = [], validator = None, unique_indexes = [[''userId'']]\<rparr>"
  by (simp add: indexed_db_eq)

lemma next_oid_indexed_db: "next_oid indexed_db = 0"
  by (simp add: indexed_db_eq empty_db_def)

lemma docs_two_calls:
  "docs (get_coll (calls indexed_db two_calls) ''user'') = [[(''_id'', BOid 0), (''userId'', BNum 7)]]"
  by (simp add: calls_def two_calls_def insert_one_def ensure_id_def has_field_def
      server_insert_def passes_def key_taken_def all_unique_def index_key_def field_or_null_def
      get_coll_indexed_db_user next_oid_indexed_db update_many_def every_document_def
      moved_keys_def set_field_def)

lemma seed_run:
  assumes empty: "\<forall>(c, ds) \<in> set (seeds clock). docs (get_coll db c) = []"
    and indexes: "\<forall>(c, ds) \<in> set (seeds clock). \<forall>keys \<in> set (unique_indexes (get_coll db c)).
                    (c, keys) \<in> set script_unique_indexes"
    and valid: "\<forall>(c, ds) \<in> set (seeds clock). \<forall>d \<in> set ds. \<forall>i.
                    passes (get_coll db c) ((''_id'', BOid i) # d)"
  shows "\<exists>db'. seed clock db =
           ([Inr (map BOid [next_oid db..<next_oid db + 32]),
             Inr (map BOid [next_oid db + 32..<next_oid db + 48]),
             Inr (map BOid [next_oid db + 48..<next_oid db + 80]),
             Inr (map BOid [next_oid db + 80..<next_oid db + 120]),
             Inr (map BOid [next_oid db + 120..<next_oid db + 135]),
             Inr (map BOid [next_oid db + 135..<next_oid db + 155])], db') \<and>
         docs (get_coll db' ''user'') = with_ids (next_oid db) users_data \<and>
         docs (get_coll db' ''course'') = with_ids (next_oid db + 32) courses_data \<and>
         docs (get_coll db' ''enrollment'') = with_ids (next_oid db + 48) (enrollments_data clock) \<and>
         docs (get_coll db' ''lesson'') = with_ids (next_oid db + 80) lessons_data \<and>
         docs (get_coll db' ''assignment'') = with_ids (next_oid db + 120) assignments_data \<and>
         docs (get_coll db' ''submission'') = with_ids (next_oid db + 135) submissions_data \<and>
         next_oid db' = next_oid db + 155"
proof -
  note L = seed_lengths(1,2) seed_lengths(3)[of clock] seed_lengths(4,5,6)
  have ne: "users_data \<noteq> []" "courses_data \<noteq> []" "enrollments_data clock \<noteq> []"
    "lessons_data \<noteq> []" "assignments_data \<noteq> []" "submissions_data \<noteq> []"
    using L by fastforce+
  have lens: "map (\<lambda>(c, ds). length ds) (seeds clock) = [32, 16, 32, 40, 15, 20]"
    by (simp add: seeds_def L)
  note U = seed_uniq(1) seed_uniq(2,3)[of clock] seed_uniq(4,5,6)
  have ix: "\<forall>keys \<in> set (unique_indexes (get_coll db c)). ''_id'' \<notin> set keys \<and> uniq keys ds"
    if "(c, ds) \<in> set (seeds clock)" for c ds
  proof
    fix keys assume "keys \<in> set (unique_indexes (get_coll db c))"
    with indexes that have "(c, keys) \<in> set script_unique_indexes" by blast
    with that U show "''_id'' \<notin> set keys \<and> uniq keys ds"
      by (auto simp: seeds_def script_unique_indexes_def)
  qed
  have em: "docs (get_coll db c) = []" if "(c, ds) \<in> set (seeds clock)" for c ds
    using empty that by blast
  have va: "\<forall>d \<in> set ds. \<forall>i. passes (get_coll db c) ((''_id'', BOid i) # d)"
    if "(c, ds) \<in> set (seeds clock)" for c ds
    using valid that by blast
  have m: "(''user'', users_data) \<in> set (seeds clock)"
    "(''course'', courses_data) \<in> set (seeds clock)"
    "(''enrollment'', enrollments_data clock) \<in> set (seeds clock)"
    "(''lesson'', lessons_data) \<in> set (seeds clock)"
    "(''assignment'', assignments_data) \<in> set (seeds clock)"
    "(''submission'', submissions_data) \<in> set (seeds clock)"
    by (simp_all add: seeds_def)
  let ?n = "next_oid db"
  from create_documents_step[OF ne(1) seed_no_ids(1) em[OF m(1)] ix[OF m(1)] va[OF m(1)], of "''userId''"]
  obtain db1 where s1: "create_documents db ''user'' users_data ''userId'' =
        (Inr (map BOid [?n..<?n + length users_data]), db1)"
    and d1: "docs (get_coll db1 ''user'') = with_ids ?n users_data"
    and o1: "\<forall>c'. c' \<noteq> ''user'' \<longrightarrow> get_coll db1 c' = get_coll db c'"
    and n1: "next_oid db1 = ?n + length users_data" by blast
  have g1: "get_coll db1 ''course'' = get_coll db ''course''" using o1 by simp
  from create_documents_step[OF ne(2) seed_no_ids(2), of db1 "''course''" "''courseId''"]
    em[OF m(2)] ix[OF m(2)] va[OF m(2)]
  obtain db2 where s2: "create_documents db1 ''course'' courses_data ''courseId'' =
        (Inr (map BOid [next_oid db1..<next_oid db1 + length courses_data]), db2)"
    and d2: "docs (get_coll db2 ''course'') = with_ids (next_oid db1) courses_data"
    and o2: "\<forall>c'. c' \<noteq> ''course'' \<longrightarrow> get_coll db2 c' = get_coll db1 c'"
    and n2: "next_oid db2 = next_oid db1 + length courses_data"
    unfolding g1 by blast
  have g2: "get_coll db2 ''enrollment'' = get_coll db ''enrollment''" using o1 o2 by simp
  from create_documents_step[OF ne(3) seed_no_ids(3), of db2 "''enrollment''" "''enrollmentId''"]
    em[OF m(3)] ix[OF m(3)] va[OF m(3)]
  obtain db3 where s3: "create_documents db2 ''enrollment'' (enrollments_data clock) ''enrollmentId'' =
        (Inr (map BOid [next_oid db2..<next_oid db2 + length (enrollments_data clock)]), db3)"
    and d3: "docs (get_coll db3 ''enrollment'') = with_ids (next_oid db2) (enrollments_data clock)"
    and o3: "\<forall>c'. c' \<noteq> ''enrollment'' \<longrightarrow> get_coll db3 c' = get_coll db2 c'"
    and n3: "next_oid db3 = next_oid db2 + length (enrollments_data clock)"
    unfolding g2 by blast
  have g3: "get_coll db3 ''lesson'' = get_coll db ''lesson''" using o1 o2 o3 by simp
  from create_documents_step[OF ne(4) seed_no_ids(4), of db3 "''lesson''" "''lessonId''"]
    em[OF m(4)] ix[OF m(4)] va[OF m(4)]
  obtain db4 where s4: "create_documents db3 ''lesson'' lessons_data ''lessonId'' =
        (Inr (map BOid [next_oid db3..<next_oid db3 + length lessons_data]), db4)"
    and d4: "docs (get_coll db4 ''lesson'') = with_ids (next_oid db3) lessons_data"
    and o4: "\<forall>c'. c' \<noteq> ''lesson'' \<longrightarrow> get_coll db4 c' = get_coll db3 c'"
    and n4: "next_oid db4 = next_oid db3 + length lessons_data"
    unfolding g3 by blast
  have g4: "get_coll db4 ''assignment'' = get_coll db ''assignment''" using o1 o2 o3 o4 by simp
  from create_documents_step[OF ne(5) seed_no_ids(5), of db4 "''assignment''" "''assignmentId''"]
    em[OF m(5)] ix[OF m(5)] va[OF m(5)]
  obtain db5 where s5: "create_documents db4 ''assignment'' assignments_data ''assignmentId'' =
        (Inr (map BOid [next_oid db4..<next_oid db4 + length assignments_data]), db5)"
    and d5: "docs (get_coll db5 ''assignment'') = with_ids (next_oid db4) assignments_data"
    and o5: "\<forall>c'. c' \<noteq> ''assignment'' \<longrightarrow> get_coll db5 c' = get_coll db4 c'"
    and n5: "next_oid db5 = next_oid db4 + length assignments_data"
    unfolding g4 by blast
  have g5: "get_coll db5 ''submission'' = get_coll db ''submission''" using o1 o2 o3 o4 o5 by simp
  from create_documents_step[OF ne(6) seed_no_ids(6), of db5 "''submission''" "''submissionId''"]
    em[OF m(6)] ix[OF m(6)] va[OF m(6)]
  obtain db6 where s6: "create_documents db5 ''submission'' submissions_data ''submissionId'' =
        (Inr (map BOid [next_oid db5..<next_oid db5 + length submissions_data]), db6)"
    and d6: "docs (get_coll db6 ''submission'') = with_ids (next_oid db5) submissions_data"
    and o6: "\<forall>c'. c' \<noteq> ''submission'' \<longrightarrow> get_coll db6 c' = get_coll db5 c'"
    and n6: "next_oid db6 = next_oid db5 + length submissions_data"
    unfolding g5 by blast
  have f1: "docs (get_coll db6 ''user'') = with_ids ?n users_data"
    using d1 o2 o3 o4 o5 o6 by simp
  have f2: "docs (get_coll db6 ''course'') = with_ids (next_oid db1) courses_data"
    using d2 o3 o4 o5 o6 by simp
  have f3: "docs (get_coll db6 ''enrollment'') = with_ids (next_oid db2) (enrollments_data clock)"
    using d3 o4 o5 o6 by simp
  have f4: "docs (get_coll db6 ''lesson'') = with_ids (next_oid db3) lessons_data"
    using d4 o5 o6 by simp
  have f5: "docs (get_coll db6 ''assignment'') = with_ids (next_oid db4) assignments_data"
    using d5 o6 by simp
  have run: "seed clock db =
     ([Inr (map BOid [?n..<?n + length users_data]),
       Inr (map BOid [next_oid db1..<next_oid db1 + length courses_data]),
       Inr (map BOid [next_oid db2..<next_oid db2 + length (enrollments_data clock)]),
       Inr (map BOid [next_oid db3..<next_oid db3 + length lessons_data]),
       Inr (map BOid [next_oid db4..<next_oid db4 + length assignments_data]),
       Inr (map BOid [next_oid db5..<next_oid db5 + length submissions_data])], db6)"
    by (simp add: seed_def s1 s2 s3 s4 s5 s6)
  have n: "next_oid db1 = ?n + 32" "next_oid db2 = ?n + 48" "next_oid db3 = ?n + 80"
    "next_oid db4 = ?n + 120" "next_oid db5 = ?n + 135" "next_oid db6 = ?n + 155"
    using n1 n2 n3 n4 n5 n6 L by simp_all
  have run': "seed clock db =
           ([Inr (map BOid [?n..<?n + 32]), Inr (map BOid [?n + 32..<?n + 48]),
             Inr (map BOid [?n + 48..<?n + 80]), Inr (map BOid [?n + 80..<?n + 120]),
             Inr (map BOid [?n + 120..<?n + 135]), Inr (map BOid [?n + 135..<?n + 155])], db6)"
    unfolding run n L by (simp add: add.assoc)
  from f1 f2 f3 f4 f5 d6 n have
    "docs (get_coll db6 ''user'') = with_ids ?n users_data \<and>
     docs (get_coll db6 ''course'') = with_ids (?n + 32) courses_data \<and>
     docs (get_coll db6 ''enrollment'') = with_ids (?n + 48) (enrollments_data clock) \<and>
     docs (get_coll db6 ''lesson'') = with_ids (?n + 80) lessons_data \<and>
     docs (get_coll db6 ''assignment'') = with_ids (?n + 120) assignments_data \<and>
     docs (get_coll db6 ''submission'') = with_ids (?n + 135) submissions_data \<and>
     next_oid db6 = ?n + 155"
    by simp
  with run' show ?thesis by blast
qed

lemma indexed_db_ready:
  "\<forall>(c, ds) \<in> set (seeds clock). docs (get_coll indexed_db c) = []"
  "\<forall>(c, ds) \<in> set (seeds clock). \<forall>keys \<in> set (unique_indexes (get_coll indexed_db c)).
      (c, keys) \<in> set script_unique_indexes"
  "\<forall>(c, ds) \<in> set (seeds clock). \<forall>d \<in> set ds. \<forall>i.
      passes (get_coll indexed_db c) ((''_id'', BOid i) # d)"
proof -
  have g: "docs (get_coll indexed_db c) = [] \<and> validator (get_coll indexed_db c) = None \<and>
        (\<forall>keys \<in> set (unique_indexes (get_coll indexed_db c)). (c, keys) \<in> set script_unique_indexes)"
    for c
    by (simp add: indexed_db_eq script_unique_indexes_def empty_collection_def)
  show "\<forall>(c, ds) \<in> set (seeds clock). docs (get_coll indexed_db c) = []"
    using g by simp
  show "\<forall>(c, ds) \<in> set (seeds clock). \<forall>keys \<in> set (unique_indexes (get_coll indexed_db c)).
                    (c, keys) \<in> set script_unique_indexes"
    using g by blast
  show "\<forall>(c, ds) \<in> set (seeds clock). \<forall>d \<in> set ds. \<forall>i.
                    passes (get_coll indexed_db c) ((''_id'', BOid i) # d)"
    using g by (simp add: passes_def)
qed

lemma seeded_db_docs:
  "docs (get_coll seeded_db ''user'') = with_ids 0 users_data"
  "docs (get_coll seeded_db ''course'') = with_ids 32 courses_data"
  "docs (get_coll seeded_db ''enrollment'') = with_ids 48 (enrollments_data (\<lambda>k. 0))"
  "docs (get_coll seeded_db ''submission'') = with_ids 135 submissions_data"
  using seed_run[OF indexed_db_ready, of "\<lambda>k. 0"]
  by (auto simp: seeded_db_def next_oid_indexed_db)


lemma review_rates_pairs:
  "review_rates db k =
     map snd (filter (\<lambda>p. fst p = k)
       (map (\<lambda>d. (field_or_null ''category'' d, field_or_null ''reviewRate'' d))
          (docs (get_coll db ''course''))))"
  unfolding review_rates_def in_category_def by (rule group_values_pairs)

lemma lookup_match_numbers [simp]: "lookup_match (BNum a) (BNum b) = (a = b)"
  by (auto simp: lookup_match_def)

lemma grades_of_pairs_list:
  "grades_of m db k =
     concat (map (\<lambda>(eid, sid). map snd (filter (\<lambda>(e, g). m eid e)
                (map (\<lambda>s. (field_or_null ''enrollmentId'' s, field_or_null ''grade'' s))
                   (docs (get_coll db ''submission'')))))
       (filter (\<lambda>(eid, sid). sid = k)
          (map (\<lambda>e. (field_or_null ''enrollmentId'' e, field_or_null ''studentId'' e))
             (docs (get_coll db ''enrollment'')))))"
proof -
  have sub: "map (field_or_null ''grade'') (filter (joined m e) ss) =
      map snd (filter (\<lambda>(x, g). m (field_or_null ''enrollmentId'' e) x)
        (map (\<lambda>s. (field_or_null ''enrollmentId'' s, field_or_null ''grade'' s)) ss))" for e ss
    by (induction ss) (simp_all add: joined_def)
  have "concat (map (\<lambda>e. map (field_or_null ''grade'') (filter (joined m e) ss))
          (filter (\<lambda>e. field_or_null ''studentId'' e = k) es)) =
        concat (map (\<lambda>(eid, sid). map snd (filter (\<lambda>(e, g). m eid e)
                (map (\<lambda>s. (field_or_null ''enrollmentId'' s, field_or_null ''grade'' s)) ss)))
          (filter (\<lambda>(eid, sid). sid = k)
            (map (\<lambda>e. (field_or_null ''enrollmentId'' e, field_or_null ''studentId'' e)) es)))"
    for ss es
    by (induction es) (simp_all add: sub)
  then show ?thesis by (simp add: grades_of_def)
qed

lemma students_with_submission_pairs:
  "students_with_submission m db =
     set (map snd (filter (\<lambda>(eid, sid). list_ex (m eid) (map (field_or_null ''enrollmentId'')
                                                    (docs (get_coll db ''submission''))))
       (map (\<lambda>e. (field_or_null ''enrollmentId'' e, field_or_null ''studentId'' e))
          (docs (get_coll db ''enrollment'')))))"
  by (auto simp: students_with_submission_def joined_def image_iff list_ex_iff) force+

lemma submission_enrollments:
  "map (field_or_null ''enrollmentId'') (with_ids n submissions_data) =
   map BNum [1, 2, 1, 3, 2, 4, 1, 5, 3, 6, 4, 2, 1, 5, 6, 3, 4, 5, 1, 6]"
  by (simp add: submissions_data_def field_or_null_def)

lemma course_categories:
  "map (\<lambda>d. (field_or_null ''category'' d, field_or_null ''reviewRate'' d)) (with_ids n courses_data) =
   [(BStr ''Programming'', BNum 4.5), (BStr ''Programming'', BNum 4.8),
    (BStr ''Data Science'', BNum 4.6), (BStr ''Data Science'', BNum 4.7),
    (BStr ''Web Development'', BNum 4.3), (BStr ''Web Development'', BNum 4.4),
    (BStr ''Backend Development'', BNum 4.5), (BStr ''DevOps'', BNum 4.2), (BStr ''DevOps'', BNum 4.3),
    (BStr ''Database'', BNum 4.4), (BStr ''Database'', BNum 4.6), (BStr ''AI'', BNum 4.3),
    (BStr ''AI'', BNum 4.7), (BStr ''Cloud'', BNum 4.2), (BStr ''Cloud'', BNum 4.6),
    (BStr ''Security'', BNum 4.4)]"
  by (simp add: courses_data_def field_or_null_def)

lemma submission_grades:
  "map (\<lambda>d. (field_or_null ''enrollmentId'' d, field_or_null ''grade'' d)) (with_ids n submissions_data) =
   map (\<lambda>(e, g). (BNum e, BNum g))
    [(1, 95), (2, 90), (1, 98), (3, 88), (2, 92), (4, 85), (1, 90), (5, 93), (3, 89), (6, 97),
     (4, 91), (2, 94), (1, 96), (5, 95), (6, 92), (3, 90), (4, 94), (5, 93), (1, 95), (6, 96)]"
  by (simp add: submissions_data_def field_or_null_def)

lemma enrollment_students:
  "map (\<lambda>d. (field_or_null ''enrollmentId'' d, field_or_null ''studentId'' d))
     (with_ids n (enrollments_data clock)) =
   map (\<lambda>(e, s). (BNum e, BNum s))
    [(1, 1), (2, 2), (3, 3), (4, 4), (5, 5), (6, 6), (7, 7), (8, 8), (9, 9), (10, 10), (11, 11),
     (12, 12), (13, 13), (14, 14), (15, 15), (16, 16), (17, 6), (18, 8), (19, 13), (20, 21),
     (21, 21), (22, 22), (23, 23), (24, 24), (25, 25), (26, 26), (27, 27), (28, 28), (29, 29),
     (30, 30), (31, 31), (32, 32)]"
  by (simp add: enrollments_data_def field_or_null_def)

lemma review_rates_seeded:
  "review_rates seeded_db (BStr ''Programming'') = [BNum 4.5, BNum 4.8]"
  by (simp add: review_rates_pairs seeded_db_docs course_categories)

lemma grades_of_seeded:
  "grades_of lookup_match seeded_db (BNum 1) = [BNum 95, BNum 98, BNum 90, BNum 96, BNum 95]"
  by (simp add: grades_of_pairs_list seeded_db_docs submission_grades enrollment_students)

lemma students_with_submission_seeded:
  "students_with_submission lookup_match seeded_db = {BNum 1, BNum 2, BNum 3, BNum 4, BNum 5, BNum 6}"
  by (simp add: students_with_submission_pairs seeded_db_docs submission_enrollments
      enrollment_students)

section \<open>Properties\<close>

subsection \<open>C1: exceptions that escape a helper\<close>

text \<open>
  C1. The claim is that every helper catches whatever its body raises, prints, and returns its
  sentinel. Seven helpers do, with \<open>except Exception\<close>. \<open>load_json_file\<close> catches
  \<open>FileNotFoundError\<close> only, although its docstring promises \<open>None\<close> "if the file is not
  found or an error occurs": a file that may not be read, a directory, or a file whose text the
  parser rejects makes the exception leave the function.
\<close>

theorem load_json_file_exception_escapes:
  "load_json_file jl (fs(p \<mapsto> Unreadable)) p = Inl PermissionError \<and>
   load_json_file jl (fs(p \<mapsto> Directory)) p = Inl IsADirectoryError \<and>
   load_json_file (\<lambda>text. Inl JSONDecodeError) (fs(p \<mapsto> Regular text)) p = Inl JSONDecodeError"
  by (simp add: load_json_file_def py_open_def except_FileNotFoundError_def)

subsection \<open>C2: \<open>delete_document\<close> is a soft delete\<close>

text \<open>
  C2, as amended. \<open>delete_document\<close> never removes a document: after the call the collection
  holds the same documents, by \<open>_id\<close>, in the same order. When the \<open>update_many\<close> under it
  raises, the function returns 0 and leaves the database as \<open>update_many\<close> left it. When
  \<open>update_many\<close> does not raise, the function returns its \<open>modified_count\<close> and leaves the
  database that \<open>update_many\<close> made: the documents that matched the query are replaced by
  their soft-deleted forms, so each has \<open>isActive\<close> equal to \<open>False\<close>, the other documents
  are as they were, and the value returned is the number of documents that changed.
\<close>

theorem delete_document_soft:
  "list_all2 (\<lambda>d d'. map_of d' ''_id'' = map_of d ''_id'')
     (docs (get_coll db c)) (docs (get_coll (snd (delete_document now db c q)) c)) \<and>
   (\<forall>e db1. update_many db c q (Some (soft_delete now)) = (Inl e, db1) \<longrightarrow>
      delete_document now db c q = (Inr 0, db1)) \<and>
   (\<forall>matched modified db1.
      update_many db c q (Some (soft_delete now)) = (Inr (matched, modified), db1) \<longrightarrow>
      delete_document now db c q = (Inr modified, db1) \<and>
      docs (get_coll db1 c) =
        map (\<lambda>d. if matches q d then soft_delete now d else d) (docs (get_coll db c)) \<and>
      list_all2 (\<lambda>d d'. matches q d \<longrightarrow> map_of d' ''isActive'' = Some (BBool False))
        (docs (get_coll db c)) (docs (get_coll db1 c)) \<and>
      modified = length (filter (\<lambda>(d, d'). d' \<noteq> d)
                   (zip (docs (get_coll db c)) (docs (get_coll db1 c)))))"
proof -
  obtain r1 db1 where um: "update_many db c q (Some (soft_delete now)) = (r1, db1)"
    by (cases "update_many db c q (Some (soft_delete now))")
  then have dd: "delete_document now db c q =
      (Inr (case r1 of Inl e \<Rightarrow> 0 | Inr (matched, modified) \<Rightarrow> modified), db1)"
    by (simp add: delete_document_def split: sum.splits prod.splits)
  let ?R = "\<lambda>d d'. d' = d \<or> (matches q d \<and> d' = soft_delete now d)"
  from update_many_frame[OF um]
  have "list_all2 ?R (docs (get_coll db c)) (docs (get_coll db1 c)) \<or> db1 = db" by auto
  then have l: "list_all2 ?R (docs (get_coll db c)) (docs (get_coll db1 c))"
    by (auto simp: list_all2_same)
  have "list_all2 (\<lambda>d d'. map_of d' ''_id'' = map_of d ''_id'')
           (docs (get_coll db c)) (docs (get_coll db1 c))"
    by (rule list_all2_mono[OF l]) (auto simp: map_of_soft_delete)
  then have ids: "list_all2 (\<lambda>d d'. map_of d' ''_id'' = map_of d ''_id'')
     (docs (get_coll db c)) (docs (get_coll (snd (delete_document now db c q)) c))"
    by (simp add: dd)
  have raised: "delete_document now db c q = (Inr 0, db2)"
    if s: "update_many db c q (Some (soft_delete now)) = (Inl e, db2)" for e db2
    using um s dd by auto
  have ok: "delete_document now db c q = (Inr modified, db2) \<and>
      docs (get_coll db2 c) =
        map (\<lambda>d. if matches q d then soft_delete now d else d) (docs (get_coll db c)) \<and>
      list_all2 (\<lambda>d d'. matches q d \<longrightarrow> map_of d' ''isActive'' = Some (BBool False))
        (docs (get_coll db c)) (docs (get_coll db2 c)) \<and>
      modified = length (filter (\<lambda>(d, d'). d' \<noteq> d)
                   (zip (docs (get_coll db c)) (docs (get_coll db2 c))))"
    if s: "update_many db c q (Some (soft_delete now)) = (Inr (matched, modified), db2)"
    for matched modified db2
  proof -
    from s obtain p where q: "q = Some p" by (cases q) (auto simp: update_many_def)
    have m: "matches q = p" by (simp add: q matches_def fun_eq_iff)
    from update_many_success[OF s[unfolded q]]
    have d': "docs (get_coll db2 c) =
        map (\<lambda>d. if p d then soft_delete now d else d) (docs (get_coll db c))"
      and n: "modified = length (filter (\<lambda>d. p d \<and> soft_delete now d \<noteq> d) (docs (get_coll db c)))"
      by simp_all
    have cnt: "length (filter (\<lambda>(d, d'). d' \<noteq> d) (zip ds (map (\<lambda>d. if p d then soft_delete now d else d) ds)))
       = length (filter (\<lambda>d. p d \<and> soft_delete now d \<noteq> d) ds)" for ds
      by (induction ds) auto
    have act: "list_all2 (\<lambda>d d'. p d \<longrightarrow> map_of d' ''isActive'' = Some (BBool False))
       ds (map (\<lambda>d. if p d then soft_delete now d else d) ds)" for ds
      by (induction ds) (auto simp: map_of_soft_delete)
    from um s dd have "delete_document now db c q = (Inr modified, db2)" by auto
    with d' n cnt act show ?thesis by (simp add: m)
  qed
  from ids raised ok show ?thesis by blast
qed

theorem delete_document_soft_witness:
  "delete_document 5 demo_db ''user'' user_1 =
     (Inr 1, snd (update_many demo_db ''user'' user_1 (Some (soft_delete 5)))) \<and>
   docs (get_coll (snd (delete_document 5 demo_db ''user'' user_1)) ''user'') =
     [[(''_id'', BOid 0), (''userId'', BNum 1), (''isActive'', BBool False), (''updatedAt'', BDate 5)],
      [(''_id'', BOid 1), (''userId'', BNum 2), (''isActive'', BBool True)]] \<and>
   fst (delete_document 0 legacy_db ''user'' user_1) = Inr 0"
proof -
  let ?u = "update_many demo_db ''user'' user_1 (Some (soft_delete 5))"
  have u: "?u = (Inr (1, 1), snd ?u)"
    using update_many_demo_user_1 by (simp add: prod_eq_iff)
  note t = delete_document_soft[of demo_db "''user''" 5 user_1]
  from t u have a: "delete_document 5 demo_db ''user'' user_1 = (Inr 1, snd ?u)" by blast
  from t u have "docs (get_coll (snd ?u) ''user'') =
      map (\<lambda>d. if matches user_1 d then soft_delete 5 d else d) (docs (get_coll demo_db ''user''))"
    by blast
  then have b: "docs (get_coll (snd (delete_document 5 demo_db ''user'' user_1)) ''user'') =
     [[(''_id'', BOid 0), (''userId'', BNum 1), (''isActive'', BBool False), (''updatedAt'', BDate 5)],
      [(''_id'', BOid 1), (''userId'', BNum 2), (''isActive'', BBool True)]]"
    by (simp add: a docs_demo_user matches_def user_1_def field_or_null_def soft_delete_def
        set_field_def)
  have "update_many legacy_db ''user'' user_1 (Some (soft_delete 0)) = (Inl WriteError, legacy_db)"
    by (simp add: update_many_def user_1_def legacy_user_def legacy_db_def get_coll_def
        field_or_null_def soft_delete_def set_field_def passes_def has_field_def)
  with delete_document_soft[of legacy_db "''user''" 0 user_1]
  have "delete_document 0 legacy_db ''user'' user_1 = (Inr 0, legacy_db)" by blast
  then have c: "fst (delete_document 0 legacy_db ''user'' user_1) = Inr 0" by simp
  from a b c show ?thesis by blast
qed

text \<open>
  The claim as it is written, for every collection and query, fails where the update raises:
  the validator of \<open>legacy_db\<close> refuses the soft-deleted form of the stored user, the
  exception is caught, the function returns 0, and the user that matches the query is as
  active as before.
\<close>

theorem delete_document_leaves_active:
  "matches user_1 legacy_user \<and>
   delete_document 0 legacy_db ''user'' user_1 = (Inr 0, legacy_db) \<and>
   docs (get_coll legacy_db ''user'') = [legacy_user] \<and>
   map_of legacy_user ''isActive'' = Some (BBool True)"
  by (simp add: matches_def user_1_def legacy_user_def legacy_db_def delete_document_def
      update_many_def get_coll_def field_or_null_def soft_delete_def set_field_def passes_def
      has_field_def)

subsection \<open>C3: average grade per student\<close>

text \<open>
  C3. Whatever the equality match of \<open>$lookup\<close> is, the student-performance pipeline returns
  exactly one entry for every \<open>studentId\<close> that has a submission joined to one of its
  enrollments (the ids of the entries are distinct, and they are those students); the
  \<open>averageGrade\<close> of an entry is \<open>$avg\<close> of the grades of the submissions joined to the
  enrollments of that student, which is their arithmetic mean when the grades are numbers; and
  the entries are in non-increasing order of \<open>averageGrade\<close>.
\<close>

theorem student_performance_groups:
  "distinct (map (field_or_null ''_id'') (student_performance m db)) \<and>
   set (map (field_or_null ''_id'') (student_performance m db)) = students_with_submission m db \<and>
   (\<forall>g \<in> set (student_performance m db).
      g = [(''_id'', field_or_null ''_id'' g), (''averageGrade'', field_or_null ''averageGrade'' g)] \<and>
      grades_of m db (field_or_null ''_id'' g) \<noteq> [] \<and>
      field_or_null ''averageGrade'' g = avg (grades_of m db (field_or_null ''_id'' g)) \<and>
      (list_all is_number (grades_of m db (field_or_null ''_id'' g)) \<longrightarrow>
         field_or_null ''averageGrade'' g =
           BNum (mean (map number_of (grades_of m db (field_or_null ''_id'' g)))))) \<and>
   descending ''averageGrade'' (student_performance m db)"
proof -
  let ?G = "group_avg ''$studentId'' ''averageGrade'' ''$submissions.grade'' (unwound m db)"
  have ne: "''averageGrade'' \<noteq> ''_id''" by simp
  have ids: "map (field_or_null ''_id'') ?G = remdups (map (expr ''$studentId'') (unwound m db))"
    by (rule ids_group_avg[OF ne])
  have a: "distinct (map (field_or_null ''_id'') (student_performance m db))"
    unfolding student_performance_eq by (simp only: distinct_map_sort_desc ids distinct_remdups)
  have "set (map (field_or_null ''_id'') (student_performance m db)) = field_or_null ''_id'' ` set ?G"
    unfolding student_performance_eq by (simp only: set_map set_sort_desc)
  also have "\<dots> = set (map (field_or_null ''_id'') ?G)" by (simp only: set_map)
  also have "\<dots> = students_with_submission m db"
    by (simp only: ids set_remdups set_map keys_unwound)
  finally have b: "set (map (field_or_null ''_id'') (student_performance m db)) =
     students_with_submission m db" .
  have c: "g = [(''_id'', field_or_null ''_id'' g), (''averageGrade'', field_or_null ''averageGrade'' g)] \<and>
      grades_of m db (field_or_null ''_id'' g) \<noteq> [] \<and>
      field_or_null ''averageGrade'' g = avg (grades_of m db (field_or_null ''_id'' g)) \<and>
      (list_all is_number (grades_of m db (field_or_null ''_id'' g)) \<longrightarrow>
         field_or_null ''averageGrade'' g =
           BNum (mean (map number_of (grades_of m db (field_or_null ''_id'' g)))))"
    if "g \<in> set (student_performance m db)" for g
  proof -
    from that have g: "g \<in> set ?G" unfolding student_performance_eq by (simp only: set_sort_desc)
    from group_avg_entry[OF g ne]
    have k: "field_or_null ''_id'' g \<in> expr ''$studentId'' ` set (unwound m db)"
      and shape: "g = [(''_id'', field_or_null ''_id'' g),
        (''averageGrade'', avg (grades_of m db (field_or_null ''_id'' g)))]"
      by (simp_all only: group_values_unwound)
    have "field_or_null ''averageGrade'' [(''_id'', i), (''averageGrade'', v)] = v" for i v
      by (simp add: field_or_null_def)
    with shape have r: "field_or_null ''averageGrade'' g = avg (grades_of m db (field_or_null ''_id'' g))"
      by metis
    from k obtain d where d: "d \<in> set (unwound m db)"
      and dk: "expr ''$studentId'' d = field_or_null ''_id'' g" by (auto simp del: expr.simps)
    then have "filter (\<lambda>d. expr ''$studentId'' d = field_or_null ''_id'' g) (unwound m db) \<noteq> []"
      by (auto simp: filter_empty_conv simp del: expr.simps)
    then have "map (expr ''$submissions.grade'')
        (filter (\<lambda>d. expr ''$studentId'' d = field_or_null ''_id'' g) (unwound m db)) \<noteq> []"
      by (simp del: expr.simps)
    then have nonempty: "grades_of m db (field_or_null ''_id'' g) \<noteq> []"
      unfolding group_values_unwound .
    from avg_numbers[OF this] r shape nonempty show ?thesis by auto
  qed
  have d: "descending ''averageGrade'' (student_performance m db)"
    unfolding student_performance_eq
  proof (rule descending_sort_desc)
    fix g xs assume "g \<in> set ?G"
    then show "field_or_null ''averageGrade'' g \<noteq> BArr xs" by (rule group_avg_key_scalar[OF _ ne])
  qed
  from a b c d show ?thesis by blast
qed

text \<open>
  With the match of the server as documented: the seeded database, and the database whose
  enrollment has the key \<open>[1, 2]\<close>, which is joined to the submissions of the enrollments 1
  and \<open>[1, 2]\<close> and not to that of the enrollment 3.
\<close>

theorem student_performance_groups_witness:
  "set (map (field_or_null ''_id'') (student_performance lookup_match seeded_db)) =
     {BNum 1, BNum 2, BNum 3, BNum 4, BNum 5, BNum 6} \<and>
   (\<exists>g. g \<in> set (student_performance lookup_match seeded_db) \<and> field_or_null ''_id'' g = BNum 1 \<and>
        field_or_null ''averageGrade'' g = BNum 94.8) \<and>
   student_performance lookup_match array_keys_db = [[(''_id'', BNum 1), (''averageGrade'', BNum 70)]]"
proof -
  note t = student_performance_groups[of lookup_match seeded_db]
  from t have ids: "set (map (field_or_null ''_id'') (student_performance lookup_match seeded_db)) =
     {BNum 1, BNum 2, BNum 3, BNum 4, BNum 5, BNum 6}"
    by (simp only: students_with_submission_seeded)
  then have "BNum 1 \<in> field_or_null ''_id'' ` set (student_performance lookup_match seeded_db)"
    by simp
  then obtain g where g: "g \<in> set (student_performance lookup_match seeded_db)"
    and k: "field_or_null ''_id'' g = BNum 1" by (auto simp: image_iff)
  from t g k have "list_all is_number (grades_of lookup_match seeded_db (BNum 1)) \<longrightarrow>
      field_or_null ''averageGrade'' g =
        BNum (mean (map number_of (grades_of lookup_match seeded_db (BNum 1))))"
    by metis
  then have v: "field_or_null ''averageGrade'' g = BNum 94.8"
    by (simp add: grades_of_seeded is_number_def mean_def)
  have e: "student_performance lookup_match array_keys_db =
      [[(''_id'', BNum 1), (''averageGrade'', BNum 70)]]"
    by (simp add: student_performance_def aggregate_def student_performance_pipeline_def
        array_keys_db_def get_coll_def lookup_stage_def lookup_match_def field_or_null_def
        set_field_def group_avg_def avg_def sort_desc_def)
  from ids g k v e show ?thesis by blast
qed

subsection \<open>C4: the unique indexes are enforced\<close>

text \<open>
  C4. Once the index section of the script has run, any run of the helpers that insert and
  update leaves no two users with the same \<open>userId\<close>, no two enrollments with the same
  \<open>enrollmentId\<close> or the same pair of \<open>courseId\<close> and \<open>studentId\<close>, and no two lessons,
  assignments or submissions with the same \<open>lessonId\<close>, \<open>assignmentId\<close> or
  \<open>submissionId\<close>. An operation that would break one of them fails: \<open>create_document\<close>
  with a key that is taken returns \<open>None\<close> and leaves the collections as they are,
  \<open>create_documents\<close> with a list that would make two keys equal returns \<open>[]\<close>, and an
  update whose application to the matching documents would make two keys equal raises inside
  \<open>update_document\<close>, which returns 0.
\<close>

theorem unique_indexes_enforced:
  assumes "create_indexes db = Inr db1" and "db2 = calls db1 hs"
  shows "unique_on db2 ''user'' [''userId''] \<and>
         unique_on db2 ''enrollment'' [''enrollmentId''] \<and>
         unique_on db2 ''enrollment'' [''courseId'', ''studentId''] \<and>
         unique_on db2 ''lesson'' [''lessonId''] \<and>
         unique_on db2 ''assignment'' [''assignmentId''] \<and>
         unique_on db2 ''submission'' [''submissionId''] \<and>
         (\<forall>c keys d. (c, keys) \<in> set script_unique_indexes \<and>
              index_key keys d \<in> set (map (index_key keys) (docs (get_coll db2 c))) \<longrightarrow>
              fst (create_document db2 c d) = Inr None \<and>
              colls (snd (create_document db2 c d)) = colls db2) \<and>
         (\<forall>c keys ds f. (c, keys) \<in> set script_unique_indexes \<and>
              \<not> distinct (map (index_key keys) (docs (get_coll db2 c) @ ds)) \<longrightarrow>
              fst (create_documents db2 c ds f) = Inr []) \<and>
         (\<forall>c keys q u. (c, keys) \<in> set script_unique_indexes \<and>
              \<not> distinct (map (index_key keys)
                   (map (\<lambda>d. if q d then u d else d) (docs (get_coll db2 c)))) \<longrightarrow>
              (\<exists>e. fst (update_many db2 c (Some q) (Some u)) = Inl e) \<and>
              fst (update_document db2 c (Some q) (Some u)) = Inr 0)"
proof -
  have enf: "enforced db2 c keys" if "(c, keys) \<in> set script_unique_indexes" for c keys
    unfolding assms(2) by (rule enforced_calls) (rule create_indexes_enforced_all[OF assms(1) that])
  have six: "unique_on db2 ''user'' [''userId''] \<and>
         unique_on db2 ''enrollment'' [''enrollmentId''] \<and>
         unique_on db2 ''enrollment'' [''courseId'', ''studentId''] \<and>
         unique_on db2 ''lesson'' [''lessonId''] \<and>
         unique_on db2 ''assignment'' [''assignmentId''] \<and>
         unique_on db2 ''submission'' [''submissionId'']"
    using enf by (simp add: script_unique_indexes_def enforced_def)
  have ins: "fst (create_document db2 c d) = Inr None \<and>
             colls (snd (create_document db2 c d)) = colls db2"
    if "(c, keys) \<in> set script_unique_indexes"
      and "index_key keys d \<in> set (map (index_key keys) (docs (get_coll db2 c)))" for c keys d
    using create_document_duplicate[OF _ script_unique_indexes_no_id[OF that(1)] that(2)]
      enf[OF that(1)] by (simp add: enforced_def)
  have upd: "(\<exists>e. fst (update_many db2 c (Some q) (Some u)) = Inl e) \<and>
              fst (update_document db2 c (Some q) (Some u)) = Inr 0"
    if "(c, keys) \<in> set script_unique_indexes"
      and "\<not> distinct (map (index_key keys)
                   (map (\<lambda>d. if q d then u d else d) (docs (get_coll db2 c))))" for c keys q u
  proof -
    from update_many_violating[OF enf[OF that(1)] that(2)]
    obtain e where e: "fst (update_many db2 c (Some q) (Some u)) = Inl e" by blast
    then show ?thesis
      by (cases "update_many db2 c (Some q) (Some u)") (simp add: update_document_def)
  qed
  have many: "fst (create_documents db2 c ds f) = Inr []"
    if "(c, keys) \<in> set script_unique_indexes"
      and "\<not> distinct (map (index_key keys) (docs (get_coll db2 c) @ ds))" for c keys ds f
    using create_documents_violating[OF enf[OF that(1)] script_unique_indexes_no_id[OF that(1)] that(2)] .
  from six ins many upd show ?thesis by blast
qed

theorem unique_indexes_enforced_witness:
  "unique_on (calls indexed_db two_calls) ''user'' [''userId''] \<and>
   unique_on (calls indexed_db two_calls) ''enrollment'' [''courseId'', ''studentId''] \<and>
   fst (create_document (calls indexed_db two_calls) ''user'' [(''userId'', BNum 7)]) = Inr None"
proof -
  have dup: "index_key [''userId''] [(''userId'', BNum 7)]
      \<in> set (map (index_key [''userId'']) (docs (get_coll (calls indexed_db two_calls) ''user'')))"
    by (simp add: docs_two_calls index_key_def field_or_null_def)
  have ix: "(''user'', [''userId'']) \<in> set script_unique_indexes"
    by (simp add: script_unique_indexes_def)
  from unique_indexes_enforced[OF create_indexes_empty_db refl, of two_calls] dup ix
  show ?thesis by blast
qed

subsection \<open>C5: average rating per category\<close>

text \<open>
  C5. The course-rating pipeline returns exactly one group for every category of the course
  documents (the ids of the groups are distinct, and they are the categories); the
  \<open>averageRating\<close> of a group is \<open>$avg\<close> of the \<open>reviewRate\<close> of the courses of the
  category, which is their arithmetic mean when they are numbers; and the groups are in
  non-increasing order of \<open>averageRating\<close>.
\<close>

theorem course_rating_groups:
  "distinct (map (field_or_null ''_id'') (course_rating db)) \<and>
   set (map (field_or_null ''_id'') (course_rating db)) =
     field_or_null ''category'' ` set (docs (get_coll db ''course'')) \<and>
   (\<forall>g \<in> set (course_rating db).
      g = [(''_id'', field_or_null ''_id'' g), (''averageRating'', field_or_null ''averageRating'' g)] \<and>
      in_category db (field_or_null ''_id'' g) \<noteq> [] \<and>
      field_or_null ''averageRating'' g = avg (review_rates db (field_or_null ''_id'' g)) \<and>
      (list_all is_number (review_rates db (field_or_null ''_id'' g)) \<longrightarrow>
         field_or_null ''averageRating'' g =
           BNum (mean (map number_of (review_rates db (field_or_null ''_id'' g)))))) \<and>
   descending ''averageRating'' (course_rating db)"
proof -
  let ?cs = "docs (get_coll db ''course'')"
  let ?G = "group_avg ''$category'' ''averageRating'' ''$reviewRate'' ?cs"
  have ne: "''averageRating'' \<noteq> ''_id''" by simp
  have ids: "map (field_or_null ''_id'') ?G = remdups (map (field_or_null ''category'') ?cs)"
    using ids_group_avg[OF ne, of "''$category''" "''$reviewRate''" ?cs]
    by (simp only: expr_category[abs_def])
  have a: "distinct (map (field_or_null ''_id'') (course_rating db))"
    unfolding course_rating_eq by (simp only: distinct_map_sort_desc ids distinct_remdups)
  have "set (map (field_or_null ''_id'') (course_rating db)) = field_or_null ''_id'' ` set ?G"
    unfolding course_rating_eq by simp
  also have "\<dots> = set (map (field_or_null ''_id'') ?G)" by simp
  also have "\<dots> = field_or_null ''category'' ` set ?cs" by (simp only: ids set_remdups set_map)
  finally have b: "set (map (field_or_null ''_id'') (course_rating db)) =
     field_or_null ''category'' ` set ?cs" .
  have c: "g = [(''_id'', field_or_null ''_id'' g), (''averageRating'', field_or_null ''averageRating'' g)] \<and>
      in_category db (field_or_null ''_id'' g) \<noteq> [] \<and>
      field_or_null ''averageRating'' g = avg (review_rates db (field_or_null ''_id'' g)) \<and>
      (list_all is_number (review_rates db (field_or_null ''_id'' g)) \<longrightarrow>
         field_or_null ''averageRating'' g =
           BNum (mean (map number_of (review_rates db (field_or_null ''_id'' g)))))"
    if "g \<in> set (course_rating db)" for g
  proof -
    from that have g: "g \<in> set ?G" unfolding course_rating_eq by simp
    from group_avg_entry[OF g ne]
    have k: "field_or_null ''_id'' g \<in> field_or_null ''category'' ` set ?cs"
      and shape: "g = [(''_id'', field_or_null ''_id'' g),
        (''averageRating'', avg (review_rates db (field_or_null ''_id'' g)))]"
      by (simp_all only: expr_category[abs_def] expr_reviewRate[abs_def] review_rates_def in_category_def)
    have "field_or_null ''averageRating'' [(''_id'', i), (''averageRating'', v)] = v" for i v
      by (simp add: field_or_null_def)
    with shape have r: "field_or_null ''averageRating'' g = avg (review_rates db (field_or_null ''_id'' g))"
      by metis
    from k have nonempty: "in_category db (field_or_null ''_id'' g) \<noteq> []"
      by (auto simp: in_category_def filter_empty_conv)
    then have "review_rates db (field_or_null ''_id'' g) \<noteq> []" by (simp add: review_rates_def)
    from avg_numbers[OF this] r shape nonempty show ?thesis by auto
  qed
  have d: "descending ''averageRating'' (course_rating db)"
    unfolding course_rating_eq
  proof (rule descending_sort_desc)
    fix g xs assume "g \<in> set ?G"
    then show "field_or_null ''averageRating'' g \<noteq> BArr xs" by (rule group_avg_key_scalar[OF _ ne])
  qed
  from a b c d show ?thesis by blast
qed

theorem course_rating_groups_witness:
  "\<exists>g. g \<in> set (course_rating seeded_db) \<and> field_or_null ''_id'' g = BStr ''Programming'' \<and>
       field_or_null ''averageRating'' g = BNum 4.65"
proof -
  note t = course_rating_groups[of seeded_db]
  have "BStr ''Programming'' \<in> fst ` set (map (\<lambda>d. (field_or_null ''category'' d,
            field_or_null ''reviewRate'' d)) (docs (get_coll seeded_db ''course'')))"
    unfolding seeded_db_docs course_categories by simp
  then have "BStr ''Programming'' \<in> field_or_null ''category'' ` set (docs (get_coll seeded_db ''course''))"
    by (simp add: image_image)
  with t have "BStr ''Programming'' \<in> field_or_null ''_id'' ` set (course_rating seeded_db)"
    by simp
  then obtain g where g: "g \<in> set (course_rating seeded_db)"
    and k: "field_or_null ''_id'' g = BStr ''Programming''" by (auto simp: image_iff)
  from t g k have "list_all is_number (review_rates seeded_db (BStr ''Programming'')) \<longrightarrow>
      field_or_null ''averageRating'' g =
        BNum (mean (map number_of (review_rates seeded_db (BStr ''Programming''))))"
    by metis
  then have "field_or_null ''averageRating'' g = BNum 4.65"
    by (simp add: review_rates_seeded is_number_def mean_def)
  with g k show ?thesis by blast
qed

subsection \<open>C6: the seed data fit the unique indexes\<close>

text \<open>
  C6. The lists have 32, 16, 32, 40, 15 and 20 documents; the users have distinct \<open>userId\<close>,
  the enrollments distinct \<open>enrollmentId\<close> and distinct pairs of \<open>courseId\<close> and
  \<open>studentId\<close>, the lessons, assignments and submissions distinct \<open>lessonId\<close>,
  \<open>assignmentId\<close> and \<open>submissionId\<close>. So, on collections that are empty, that have no
  unique index but those of the script, and whose validators (the schema files are not part of
  the sources) accept the documents, every seeding call returns the ids of all its documents
  and the collection holds all of them.
\<close>

theorem seed_data_inserted:
  assumes empty: "\<forall>(c, ds) \<in> set (seeds clock). docs (get_coll db c) = []"
    and indexes: "\<forall>(c, ds) \<in> set (seeds clock). \<forall>keys \<in> set (unique_indexes (get_coll db c)).
                    (c, keys) \<in> set script_unique_indexes"
    and valid: "\<forall>(c, ds) \<in> set (seeds clock). \<forall>d \<in> set ds. \<forall>i.
                    passes (get_coll db c) ((''_id'', BOid i) # d)"
  shows "map (\<lambda>(c, ds). length ds) (seeds clock) = [32, 16, 32, 40, 15, 20] \<and>
         uniq [''userId''] users_data \<and>
         uniq [''enrollmentId''] (enrollments_data clock) \<and>
         uniq [''courseId'', ''studentId''] (enrollments_data clock) \<and>
         uniq [''lessonId''] lessons_data \<and>
         uniq [''assignmentId''] assignments_data \<and>
         uniq [''submissionId''] submissions_data \<and>
         (\<exists>rs db'. seed clock db = (rs, db') \<and>
            list_all2 (\<lambda>r (c, ds). \<exists>n. r = Inr (map BOid [n..<n + length ds]) \<and>
                                      docs (get_coll db' c) = with_ids n ds)
              rs (seeds clock))"
proof -
  note L = seed_lengths(1,2) seed_lengths(3)[of clock] seed_lengths(4,5,6)
  have lens: "map (\<lambda>(c, ds). length ds) (seeds clock) = [32, 16, 32, 40, 15, 20]"
    by (simp add: seeds_def L)
  note U = seed_uniq(1) seed_uniq(2,3)[of clock] seed_uniq(4,5,6)
  let ?n = "next_oid db"
  from seed_run[OF empty indexes valid] obtain db' where
    run: "seed clock db =
           ([Inr (map BOid [?n..<?n + 32]), Inr (map BOid [?n + 32..<?n + 48]),
             Inr (map BOid [?n + 48..<?n + 80]), Inr (map BOid [?n + 80..<?n + 120]),
             Inr (map BOid [?n + 120..<?n + 135]), Inr (map BOid [?n + 135..<?n + 155])], db')"
    and d: "docs (get_coll db' ''user'') = with_ids ?n users_data"
      "docs (get_coll db' ''course'') = with_ids (?n + 32) courses_data"
      "docs (get_coll db' ''enrollment'') = with_ids (?n + 48) (enrollments_data clock)"
      "docs (get_coll db' ''lesson'') = with_ids (?n + 80) lessons_data"
      "docs (get_coll db' ''assignment'') = with_ids (?n + 120) assignments_data"
      "docs (get_coll db' ''submission'') = with_ids (?n + 135) submissions_data"
    by blast
  have stored: "\<exists>n. (Inr (map BOid [k..<k + m]) :: exc + bson list) = Inr (map BOid [n..<n + length ds]) \<and>
                     docs (get_coll db' c) = with_ids n ds"
    if "docs (get_coll db' c) = with_ids k ds" and "length ds = m" for k m c ds
    using that by blast
  have "list_all2 (\<lambda>r (c, ds). \<exists>n. r = Inr (map BOid [n..<n + length ds]) \<and>
                                      docs (get_coll db' c) = with_ids n ds)
     [Inr (map BOid [?n..<?n + 32]), Inr (map BOid [?n + 32..<?n + 32 + 16]),
      Inr (map BOid [?n + 48..<?n + 48 + 32]), Inr (map BOid [?n + 80..<?n + 80 + 40]),
      Inr (map BOid [?n + 120..<?n + 120 + 15]), Inr (map BOid [?n + 135..<?n + 135 + 20])]
     (seeds clock)"
    unfolding seeds_def
    using stored[OF d(1) L(1)] stored[OF d(2) L(2)] stored[OF d(3) L(3)] stored[OF d(4) L(4)]
      stored[OF d(5) L(5)] stored[OF d(6) L(6)]
    by simp
  then have "list_all2 (\<lambda>r (c, ds). \<exists>n. r = Inr (map BOid [n..<n + length ds]) \<and>
                                      docs (get_coll db' c) = with_ids n ds)
     [Inr (map BOid [?n..<?n + 32]), Inr (map BOid [?n + 32..<?n + 48]),
      Inr (map BOid [?n + 48..<?n + 80]), Inr (map BOid [?n + 80..<?n + 120]),
      Inr (map BOid [?n + 120..<?n + 135]), Inr (map BOid [?n + 135..<?n + 155])] (seeds clock)"
    by (simp add: add.assoc)
  with run lens U show ?thesis by blast
qed

theorem seed_data_inserted_witness:
  "\<exists>rs db'. seed (\<lambda>k. 0) indexed_db = (rs, db') \<and>
     list_all2 (\<lambda>r (c, ds). \<exists>n. r = Inr (map BOid [n..<n + length ds]) \<and>
                               docs (get_coll db' c) = with_ids n ds)
       rs (seeds (\<lambda>k. 0))"
  using seed_data_inserted[OF indexed_db_ready, of "\<lambda>k. 0"] by blast

subsection \<open>C7: what \<open>delete_document\<close> leaves alone\<close>

text \<open>
  C7. Whatever the collection and the query, and whether or not the update raises,
  \<open>delete_document\<close> leaves every document that does not match the query as it is, and in a
  document that matches it every field other than \<open>isActive\<close> and \<open>updatedAt\<close>; the other
  collections, the validator, the indexes and the counter of object ids do not change either.
\<close>

theorem delete_document_frame:
  assumes "delete_document now db c q = (r, db')"
  shows "next_oid db' = next_oid db \<and> (\<forall>c'. c' \<noteq> c \<longrightarrow> colls db' c' = colls db c') \<and>
         validator (get_coll db' c) = validator (get_coll db c) \<and>
         unique_indexes (get_coll db' c) = unique_indexes (get_coll db c) \<and>
         list_all2 (\<lambda>d d'. (\<not> matches q d \<longrightarrow> d' = d) \<and>
                     (\<forall>f. f \<noteq> ''isActive'' \<and> f \<noteq> ''updatedAt'' \<longrightarrow> map_of d' f = map_of d f))
           (docs (get_coll db c)) (docs (get_coll db' c))"
proof -
  obtain r1 where um: "update_many db c q (Some (soft_delete now)) = (r1, db')"
    using assms by (auto simp: delete_document_def split: prod.splits)
  let ?R = "\<lambda>d d'. d' = d \<or> (matches q d \<and> d' = soft_delete now d)"
  let ?F = "\<lambda>d d'. (\<not> matches q d \<longrightarrow> d' = d) \<and>
                     (\<forall>f. f \<noteq> ''isActive'' \<and> f \<noteq> ''updatedAt'' \<longrightarrow> map_of d' f = map_of d f)"
  have imp: "\<And>d d'. ?R d d' \<Longrightarrow> ?F d d'" by (auto simp: map_of_soft_delete)
  from update_many_frame[OF um]
  have fr: "next_oid db' = next_oid db \<and> (\<forall>c'. c' \<noteq> c \<longrightarrow> colls db' c' = colls db c') \<and>
         validator (get_coll db' c) = validator (get_coll db c) \<and>
         unique_indexes (get_coll db' c) = unique_indexes (get_coll db c)"
    and l: "list_all2 ?R (docs (get_coll db c)) (docs (get_coll db' c)) \<or> db' = db"
    by auto
  from l have "list_all2 ?R (docs (get_coll db c)) (docs (get_coll db' c))"
    by (auto simp: list_all2_same)
  then have "list_all2 ?F (docs (get_coll db c)) (docs (get_coll db' c))"
    by (rule list_all2_mono) (rule imp)
  with fr show ?thesis by simp
qed

theorem delete_document_frame_witness:
  "validator (get_coll (snd (delete_document 5 demo_db ''user'' user_1)) ''user'') =
     validator (get_coll demo_db ''user'') \<and>
   list_all2 (\<lambda>d d'. (\<not> matches user_1 d \<longrightarrow> d' = d) \<and>
               (\<forall>f. f \<noteq> ''isActive'' \<and> f \<noteq> ''updatedAt'' \<longrightarrow> map_of d' f = map_of d f))
     (docs (get_coll demo_db ''user''))
     (docs (get_coll (snd (delete_document 5 demo_db ''user'' user_1)) ''user''))"
proof -
  let ?r = "delete_document 5 demo_db ''user'' user_1"
  have d: "?r = (fst ?r, snd ?r)" by (rule surjective_pairing)
  from delete_document_frame[OF d] show ?thesis by blast
qed

subsection \<open>C8: \<open>get_next_id\<close>\<close>



subsection \<open>C9: \<open>update_document\<close> returns the modified count\<close>

text \<open>
  C9. \<open>update_document\<close> returns \<open>modified_count\<close>, whatever \<open>matched_count\<close> is. An update
  that leaves every matching document as it is returns 0 (while \<open>matched_count\<close> is the number
  of matching documents), as does an update that matches nothing and an update that raises.
\<close>

theorem update_document_modified_count:
  "((\<forall>d \<in> set (docs (get_coll db c)). q d \<longrightarrow> u d = d) \<longrightarrow>
      update_many db c (Some q) (Some u) = (Inr (length (filter q (docs (get_coll db c))), 0), db) \<and>
      update_document db c (Some q) (Some u) = (Inr 0, db)) \<and>
   ((\<forall>d \<in> set (docs (get_coll db c)). \<not> q d) \<longrightarrow>
      update_document db c (Some q) (Some u) = (Inr 0, db)) \<and>
   (\<forall>e db'. update_many db c fq ud = (Inl e, db') \<longrightarrow> update_document db c fq ud = (Inr 0, db')) \<and>
   (\<forall>matched modified db'. update_many db c fq ud = (Inr (matched, modified), db') \<longrightarrow>
      update_document db c fq ud = (Inr modified, db'))"
proof -
  have noop: "update_many db c (Some q) (Some u) = (Inr (length (filter q (docs (get_coll db c))), 0), db)"
    if "\<forall>d \<in> set (docs (get_coll db c)). q d \<longrightarrow> u d = d"
    using update_docs_noop[OF that, of "get_coll db c" "[]"] by (simp add: update_many_def)
  have a: "(\<forall>d \<in> set (docs (get_coll db c)). q d \<longrightarrow> u d = d) \<longrightarrow>
      update_many db c (Some q) (Some u) = (Inr (length (filter q (docs (get_coll db c))), 0), db) \<and>
      update_document db c (Some q) (Some u) = (Inr 0, db)"
    using noop by (simp add: update_document_def)
  have b: "(\<forall>d \<in> set (docs (get_coll db c)). \<not> q d) \<longrightarrow>
      update_document db c (Some q) (Some u) = (Inr 0, db)"
    using noop by (simp add: update_document_def)
  have c: "\<forall>e db'. update_many db c fq ud = (Inl e, db') \<longrightarrow> update_document db c fq ud = (Inr 0, db')"
    by (simp add: update_document_def)
  have d: "\<forall>matched modified db'. update_many db c fq ud = (Inr (matched, modified), db') \<longrightarrow>
      update_document db c fq ud = (Inr modified, db')"
    by (simp add: update_document_def)
  from a b c d show ?thesis by blast
qed

theorem update_document_modified_count_witness:
  "update_many demo_db ''user'' every_document set_active = (Inr (2, 0), demo_db) \<and>
   update_document demo_db ''user'' every_document set_active = (Inr 0, demo_db) \<and>
   update_document demo_db ''lesson'' every_document set_active = (Inr 0, demo_db) \<and>
   update_document demo_db ''user'' None set_active = (Inr 0, demo_db)"
proof -
  have noop: "\<forall>d \<in> set (docs (get_coll demo_db ''user'')).
      True \<longrightarrow> set_field ''isActive'' (BBool True) d = d"
    by (simp add: docs_demo_user set_field_def)
  have none: "\<forall>d \<in> set (docs (get_coll demo_db ''lesson'')). \<not> True"
    by (simp add: demo_db_def get_coll_def empty_collection_def)
  have err: "update_many demo_db ''user'' None set_active = (Inl OperationFailure, demo_db)"
    by (simp add: update_many_def)
  from update_document_modified_count[of demo_db "''user''" "\<lambda>d. True"
      "set_field ''isActive'' (BBool True)" None set_active] noop err
  have a: "update_many demo_db ''user'' every_document set_active = (Inr (2, 0), demo_db) \<and>
   update_document demo_db ''user'' every_document set_active = (Inr 0, demo_db) \<and>
   update_document demo_db ''user'' None set_active = (Inr 0, demo_db)"
    by (simp add: every_document_def set_active_def docs_demo_user)
  from update_document_modified_count[of demo_db "''lesson''" "\<lambda>d. True"
      "set_field ''isActive'' (BBool True)"] none
  have b: "update_document demo_db ''lesson'' every_document set_active = (Inr 0, demo_db)"
    by (simp add: every_document_def set_active_def)
  from a b show ?thesis by simp
qed

subsection \<open>C10: \<open>create_collection_with_schema\<close>\<close>

text \<open>
  C10. \<open>create_collection_with_schema\<close> returns \<open>True\<close> or \<open>False\<close>; it returns \<open>True\<close>
  exactly when the collection did not exist and now exists, empty, with the validator of the
  schema. When the collection exists already the result is \<open>False\<close> and the database is
  unchanged; so is it after every \<open>False\<close>, and a second call after a \<open>True\<close> returns
  \<open>False\<close> and changes nothing.
\<close>

theorem create_collection_with_schema_result:
  assumes "create_collection_with_schema db c sch = (r, db')"
  shows "(r = Inr True \<or> r = Inr False) \<and>
         (r = Inr True \<longleftrightarrow> newly_created db db' c sch) \<and>
         (colls db c \<noteq> None \<longrightarrow> r = Inr False \<and> db' = db) \<and>
         (r = Inr False \<longrightarrow> db' = db) \<and>
         (r = Inr True \<longrightarrow> create_collection_with_schema db' c sch' = (Inr False, db'))"
proof (cases "colls db c = None")
  case False
  with assms show ?thesis
    by (auto simp: create_collection_with_schema_def create_collection_def newly_created_def
             split: option.splits)
next
  case True
  show ?thesis
  proof (cases sch)
    case None
    with True assms show ?thesis
      by (auto simp: create_collection_with_schema_def create_collection_def newly_created_def)
  next
    case (Some p)
    with True assms show ?thesis
      by (auto simp: create_collection_with_schema_def create_collection_def newly_created_def)
  qed
qed

theorem create_collection_with_schema_result_witness:
  "create_collection_with_schema demo_db ''user'' (Some (has_field ''userId'')) = (Inr False, demo_db) \<and>
   fst (create_collection_with_schema demo_db ''lesson'' (Some (has_field ''lessonId''))) = Inr True"
proof -
  let ?u = "create_collection_with_schema demo_db ''user'' (Some (has_field ''userId''))"
  let ?l = "create_collection_with_schema demo_db ''lesson'' (Some (has_field ''lessonId''))"
  have e: "colls demo_db ''user'' \<noteq> None" by (simp add: demo_db_def)
  have "?u = (fst ?u, snd ?u)" by simp
  from create_collection_with_schema_result[OF this] e
  have "fst ?u = Inr False \<and> snd ?u = demo_db" by blast
  then have a: "?u = (Inr False, demo_db)" by (simp add: prod_eq_iff)
  have n: "newly_created demo_db (snd ?l) ''lesson'' (Some (has_field ''lessonId''))"
    by (simp add: newly_created_def create_collection_with_schema_def create_collection_def
        demo_db_def)
  have "?l = (fst ?l, snd ?l)" by simp
  from create_collection_with_schema_result[OF this] n have "fst ?l = Inr True" by blast
  with a show ?thesis by simp
qed

end
